theory Spec2Isabelle
  imports Complex_Main "HOL-Library.Word"
begin

section \<open>The render batch compositor of BatchRenderer.cpp\<close>

text \<open>
  A shallow embedding of \<^verbatim>\<open>Source/Urho3D/RenderPipeline/BatchRenderer.cpp\<close>.
  Member names lose their trailing underscore (\<^verbatim>\<open>count_\<close> is \<open>count\<close>), which Isabelle
  does not accept in a name; a name that would hide a HOL constant or a variable is
  changed and the change is noted where it is made.

  C++ \<^verbatim>\<open>float\<close> is modelled by \<open>real\<close>: the theorems below are about the formulas the
  code evaluates, not about rounding. \<^verbatim>\<open>unsigned\<close> is \<open>32 word\<close>. A pointer of a batch that
  the code dereferences without a test is a handle (\<open>nat\<close>); a pointer that the code tests
  against \<^verbatim>\<open>nullptr\<close>, or that starts as \<^verbatim>\<open>nullptr\<close> in the cache, is an \<open>option\<close>, and
  \<open>the p\<close> is its dereference \<^verbatim>\<open>*p\<close>: unspecified at \<open>None\<close>, as the C++ is undefined at
  \<^verbatim>\<open>nullptr\<close>. The one check that the code makes itself, the \<^verbatim>\<open>assert\<close> of
  \<^verbatim>\<open>DrawObjectInstanced\<close>, is an error value.
\<close>

subsection \<open>Math types\<close>

type_synonym Vector2 = "real \<times> real"
type_synonym Vector3 = "real \<times> real \<times> real"

text \<open>\<^verbatim>\<open>Vector4\<close> with its members \<^verbatim>\<open>x_ y_ z_ w_\<close>, here \<open>x4 y4 z4 w4\<close>.\<close>

record Vector4 =
  x4 :: real
  y4 :: real
  z4 :: real
  w4 :: real

definition Vector4_ZERO :: Vector4 where
  "Vector4_ZERO = \<lparr>x4 = 0, y4 = 0, z4 = 0, w4 = 0\<rparr>"

definition Vector3_ZERO :: Vector3 where
  "Vector3_ZERO = (0, 0, 0)"

text \<open>The constructor \<^verbatim>\<open>Vector4{ vector3, w }\<close>.\<close>

definition Vector4_of :: "Vector3 \<Rightarrow> real \<Rightarrow> Vector4" where
  "Vector4_of v s = (case v of (a, b, c) \<Rightarrow> \<lparr>x4 = a, y4 = b, z4 = c, w4 = s\<rparr>)"

type_synonym Matrix3 = "real list"
type_synonym Matrix3x4 = "real list"
type_synonym Matrix4 = "real list"
type_synonym Color = "real \<times> real \<times> real \<times> real"

text \<open>
  The constants of \<^verbatim>\<open>MathDefs.h\<close> and \<^verbatim>\<open>GraphicsDefs.h\<close> that the file uses are not in
  the sources at hand; they are parameters of the model.
\<close>

record MathDefs =
  M_EPSILON :: real
  M_LARGE_EPSILON :: real
  M_MAX_UNSIGNED :: "32 word"
  MAX_VERTEX_LIGHTS :: nat

subsection \<open>Camera and the shader constants derived from it\<close>

text \<open>
  The camera is an external collaborator: the record holds what each getter that the
  file calls returns. \<open>URHO3D_OPENGL\<close> is the compile-time switch of the same name.
\<close>

record Camera =
  IsOrthographic :: bool
  GetNearClip :: real
  GetFarClip :: real
  GetEffectiveFogStart :: real
  GetEffectiveWorldTransform :: Matrix3x4
  GetView :: Matrix3x4
  GetFrustumSizeFar :: Vector3
  GetEffectiveGPUViewProjection :: "real \<Rightarrow> Matrix4"
  GetEffectiveAmbientColor :: Color
  GetEffectiveAmbientBrightness :: real
  GetEffectiveFogColor :: Color

definition GetCameraDepthModeParameter :: "bool \<Rightarrow> Camera \<Rightarrow> Vector4" where
  "GetCameraDepthModeParameter URHO3D_OPENGL camera =
     (let depthMode = Vector4_ZERO in
      if IsOrthographic camera then
        (let depthMode = depthMode\<lparr>x4 := 1\<rparr> in
         if URHO3D_OPENGL then depthMode\<lparr>z4 := 1 / 2, w4 := 1 / 2\<rparr>
         else depthMode\<lparr>z4 := 1\<rparr>)
      else depthMode\<lparr>w4 := 1 / GetFarClip camera\<rparr>)"

definition GetCameraDepthReconstructParameter :: "Camera \<Rightarrow> Vector4" where
  "GetCameraDepthReconstructParameter camera =
     (let nearClip = GetNearClip camera; farClip = GetFarClip camera in
      \<lparr>x4 = farClip / (farClip - nearClip),
       y4 = - nearClip / (farClip - nearClip),
       z4 = (if IsOrthographic camera then 1 else 0),
       w4 = (if IsOrthographic camera then 0 else 1)\<rparr>)"

text \<open>
  \<^verbatim>\<open>GetFogParameter\<close>. The second \<open>fogStart\<close> of the \<open>let\<close> is the assignment under the
  \<^verbatim>\<open>if\<close> of the source; \<open>Min\<close> and \<open>Max\<close> are \<open>min\<close> and \<open>max\<close>.
\<close>

definition GetFogParameter :: "MathDefs \<Rightarrow> Camera \<Rightarrow> Vector4" where
  "GetFogParameter md camera =
     (let farClip = GetFarClip camera;
          fogStart = min (GetEffectiveFogStart camera) farClip;
          fogEnd = min (GetEffectiveFogStart camera) farClip;
          fogStart = (if fogStart \<ge> fogEnd * (1 - M_LARGE_EPSILON md)
                      then fogEnd * (1 - M_LARGE_EPSILON md) else fogStart);
          fogRange = max (fogEnd - fogStart) (M_EPSILON md) in
      \<lparr>x4 = fogEnd / farClip, y4 = farClip / fogRange, z4 = 0, w4 = 0\<rparr>)"

text \<open>A camera for the examples: only the four fields read above matter.\<close>

definition exampleCamera :: "bool \<Rightarrow> real \<Rightarrow> real \<Rightarrow> Camera" where
  "exampleCamera ortho farClip fogStart =
     \<lparr>IsOrthographic = ortho, GetNearClip = 1 / 10, GetFarClip = farClip,
      GetEffectiveFogStart = fogStart, GetEffectiveWorldTransform = [],
      GetView = [], GetFrustumSizeFar = Vector3_ZERO,
      GetEffectiveGPUViewProjection = (\<lambda>_. []),
      GetEffectiveAmbientColor = (0, 0, 0, 1), GetEffectiveAmbientBrightness = 1,
      GetEffectiveFogColor = (0, 0, 0, 1)\<rparr>"

definition exampleMathDefs :: MathDefs where
  "exampleMathDefs =
     \<lparr>M_EPSILON = 1 / 1000000, M_LARGE_EPSILON = 5 / 100000,
      M_MAX_UNSIGNED = - 1, MAX_VERTEX_LIGHTS = 4\<rparr>"

subsection \<open>Enumerations and external records\<close>

text \<open>
  Modelled from the spec: \<^verbatim>\<open>GeometryType\<close> (GraphicsDefs.h is not in the sources). The
  specification names static, skinned, billboard and instanced geometry; the file tests
  for \<open>GEOM_STATIC\<close>, \<open>GEOM_SKINNED\<close> and \<open>GEOM_BILLBOARD\<close>. The value-initialised
  \<^verbatim>\<open>GeometryType{}\<close> is the first enumerator.
\<close>

datatype GeometryType = GEOM_STATIC | GEOM_SKINNED | GEOM_INSTANCED | GEOM_BILLBOARD

text \<open>The texture units the file names; every other unit is \<open>TU_OTHER n\<close>.\<close>

datatype TextureUnit = TU_EMISSIVE | TU_LIGHTRAMP | TU_LIGHTSHAPE | TU_SHADOWMAP | TU_OTHER nat

datatype ShaderParameterGroup = SP_FRAME | SP_CAMERA | SP_LIGHT | SP_MATERIAL | SP_OBJECT

text \<open>
  The shader parameter names the file writes; \<open>MaterialParameter h\<close> is a parameter of a
  material, keyed by its name hash.
\<close>

datatype ShaderParameterName =
    VSP_DELTATIME | VSP_ELAPSEDTIME
  | VSP_GBUFFEROFFSETS | VSP_CAMERAPOS | VSP_VIEWINV | VSP_VIEW | VSP_NEARCLIP | VSP_FARCLIP
  | VSP_NORMALOFFSETSCALE | VSP_DEPTHMODE | PSP_DEPTHRECONSTRUCT | VSP_FRUSTUMSIZE
  | VSP_VIEWPROJ | PSP_AMBIENTCOLOR | PSP_FOGCOLOR | PSP_FOGPARAMS
  | VSP_VERTEXLIGHTS | VSP_LIGHTDIR | VSP_LIGHTPOS | PSP_LIGHTCOLOR | PSP_LIGHTRAD
  | PSP_LIGHTLENGTH | VSP_LIGHTMATRICES | PSP_SHADOWDEPTHFADE | PSP_SHADOWINTENSITY
  | PSP_SHADOWMAPINVSIZE | PSP_SHADOWSPLITS | PSP_SHADOWCUBEUVBIAS | PSP_SHADOWCUBEADJUST
  | PSP_VSMSHADOWPARAMS | VSP_LMOFFSET
  | VSP_AMBIENT | VSP_SHAR | VSP_SHAG | VSP_SHAB | VSP_SHBR | VSP_SHBG | VSP_SHBB | VSP_SHC
  | VSP_SKINMATRICES | VSP_MODEL | VSP_BILLBOARDROT
  | MaterialParameter nat

text \<open>A value written to a shader parameter or to the instancing buffer.\<close>

datatype ShaderValue =
    FloatValue real
  | Vector2Value Vector2
  | Vector3Value Vector3
  | Vector4Value Vector4
  | ColorValue Color
  | MatrixValue "real list"
  | Vector4Span "Vector4 list"
  | MatrixSpan "real list list"
  | SphericalHarmonicsValue "Vector4 list"

text \<open>
  Modelled from the spec: the command queue (DrawCommandQueue.h is not in the sources).
  It accepts pipeline-state bind, shader-parameter-group begin/add/commit, shader-resource
  bind by texture unit, buffer bind, and draw / draw-indexed / draw-indexed-instanced
  operations, and keeps them in the order of the calls. The queue is the list of the calls
  made on it; a call appends its constructor.
\<close>

datatype DrawCommand =
    SetPipelineState "nat option"
  | BeginShaderParameterGroup ShaderParameterGroup bool
  | AddShaderParameter ShaderParameterName ShaderValue
  | CommitShaderParameterGroup ShaderParameterGroup
  | AddShaderResource TextureUnit "nat option"
  | CommitShaderResources
  | SetBuffers "nat list" "nat option" "nat option"
  | DrawIndexed "32 word" "32 word"
  | Draw "32 word" "32 word"
  | DrawIndexedInstanced "32 word" "32 word" "32 word" "32 word"

type_synonym DrawCommandQueue = "DrawCommand list"

datatype BatchRenderFlag = AmbientLight | VertexLights | PixelLight | InstantiateStaticGeometry

text \<open>\<^verbatim>\<open>BatchRenderFlags\<close> is a flag set; \<^verbatim>\<open>flags.Test(f)\<close> is membership.\<close>

type_synonym BatchRenderFlags = "BatchRenderFlag set"

datatype AmbientMode = AmbientMode_Constant | AmbientMode_Flat | AmbientMode_Directional

record BatchRendererSettings =
  gammaCorrection :: bool
  ambientMode :: AmbientMode
  vsmShadowParams :: Vector2

text \<open>\<open>EvaluateAverage\<close> is the value that the method of that name returns.\<close>

record SphericalHarmonicsDot9 =
  Ar :: Vector4
  Ag :: Vector4
  Ab :: Vector4
  Br :: Vector4
  Bg :: Vector4
  Bb :: Vector4
  C :: Vector4
  EvaluateAverage :: Vector3

text \<open>
  \<^verbatim>\<open>LightShaderParameters\<close> (LightProcessor.h is not in the sources): the members the file
  reads. \<open>GetColor\<close> is the method of that name, by colour space. \<open>lightLength\<close> is the
  member \<^verbatim>\<open>length_\<close>. A member whose type the file does not show holds the value it
  passes to the queue.
\<close>

record LightShaderParameters =
  direction :: Vector3
  position :: Vector3
  invRange :: real
  cutoff :: real
  invCutoff :: real
  GetColor :: "bool \<Rightarrow> Vector3"
  specularIntensity :: real
  radius :: ShaderValue
  lightLength :: ShaderValue
  numLightMatrices :: "32 word"
  lightMatrices :: "real list list"
  shadowMap :: "nat option"
  lightRamp :: "nat option"
  lightShape :: "nat option"
  shadowDepthFade :: ShaderValue
  shadowIntensity :: ShaderValue
  shadowMapInvSize :: ShaderValue
  shadowSplits :: ShaderValue
  shadowCubeUVBias :: ShaderValue
  shadowCubeAdjust :: ShaderValue
  shadowNormalBias :: "nat \<Rightarrow> ShaderValue"

text \<open>
  Modelled from the spec: the value-initialised \<^verbatim>\<open>LightShaderParameters{}\<close> of
  \<^verbatim>\<open>nullVertexLight\<close>, the default "null light" bundle with zero colour, zero direction
  and zero position. Its attenuation scalars, which the specification does not give, are
  the parameters \<open>r\<close>, \<open>k\<close> and \<open>ik\<close> (the fields \<open>nullLightInvRange\<close>, \<open>nullLightCutoff\<close> and
  \<open>nullLightInvCutoff\<close> of the world below).
\<close>

definition nullLightShaderParameters :: "real \<Rightarrow> real \<Rightarrow> real \<Rightarrow> LightShaderParameters" where
  "nullLightShaderParameters r k ik =
     \<lparr>direction = Vector3_ZERO, position = Vector3_ZERO, invRange = r, cutoff = k,
      invCutoff = ik, GetColor = (\<lambda>_. Vector3_ZERO), specularIntensity = 0,
      radius = FloatValue 0, lightLength = FloatValue 0, numLightMatrices = 0,
      lightMatrices = [], shadowMap = None, lightRamp = None, lightShape = None,
      shadowDepthFade = Vector4Value Vector4_ZERO, shadowIntensity = Vector4Value Vector4_ZERO,
      shadowMapInvSize = Vector2Value (0, 0), shadowSplits = Vector4Value Vector4_ZERO,
      shadowCubeUVBias = Vector4Value Vector4_ZERO, shadowCubeAdjust = Vector4Value Vector4_ZERO,
      shadowNormalBias = (\<lambda>_. FloatValue 0)\<rparr>"

text \<open>
  A light processor: \<open>GetShaderParams\<close>, and \<open>GetVolumeTransform\<close> for
  \<^verbatim>\<open>GetLight()->GetVolumeTransform(&camera_)\<close>.
\<close>

record LightProcessor =
  GetShaderParams :: LightShaderParameters
  GetVolumeTransform :: Matrix3x4

record ShadowSplitProcessor =
  GetLightProcessor :: LightProcessor
  GetSplitIndex :: nat

record LightAccumulator =
  sphericalHarmonics :: SphericalHarmonicsDot9
  GetVertexLights :: "32 word list"

record Geometry =
  GetVertexBuffers :: "nat list"
  GetIndexBuffer :: "nat option"
  GetIndexStart :: "32 word"
  GetIndexCount :: "32 word"
  GetVertexStart :: "32 word"
  GetVertexCount :: "32 word"

record Material =
  GetShaderParameters :: "(nat \<times> ShaderValue) list"
  GetTextures :: "(TextureUnit \<times> nat option) list"

record ShaderResourceDesc =
  texUnit :: TextureUnit
  texture :: "nat option"

text \<open>
  Modelled from the spec: \<^verbatim>\<open>SourceBatch\<close> and \<^verbatim>\<open>PipelineBatch\<close> (their headers are not in
  the sources). A pipeline batch references a pipeline state, a material, a geometry, a
  drawable index, an optional light index, a geometry type, and the source per-instance
  data (world transforms, lightmap scale/offset, lightmap index); \<open>GetSourceBatch\<close> is that
  source data. \<open>worldTransform\<close> is the array that the pointer of that name addresses.
\<close>

record SourceBatch =
  geometryType :: GeometryType
  worldTransform :: "Matrix3x4 list"
  numWorldTransforms :: "32 word"
  lightmapScaleOffset :: "nat option"
  lightmapIndex :: "32 word"

record PipelineBatch =
  pipelineState :: nat
  material :: nat
  geometry :: nat
  drawableIndex :: "32 word"
  lightIndex :: "32 word"
  geometryType :: GeometryType
  GetSourceBatch :: SourceBatch

text \<open>A sorted batch: \<^verbatim>\<open>PipelineBatchByState\<close> or \<^verbatim>\<open>PipelineBatchBackToFront\<close>, with its key.\<close>

record 'k SortedBatch =
  sortKey :: 'k
  pipelineBatch :: PipelineBatch

text \<open>
  Everything the compositor reads and never writes. The objects behind the handles:
  \<open>pipelineStateDepthBias p\<close> is \<^verbatim>\<open>p->GetDesc().constantDepthBias_\<close>, \<open>geometryAt\<close> and
  \<open>materialAt\<close> are the objects themselves, \<open>vector4At\<close> is the \<^verbatim>\<open>Vector4\<close> behind a
  lightmap scale/offset pointer. \<open>lights\<close> is \<^verbatim>\<open>lights_\<close> by index: the vector is indexed
  without a bounds check, and the indices of a batch are valid by the caller's contract.
  \<open>beginReturns q g d\<close> is what \<^verbatim>\<open>BeginShaderParameterGroup(g, d)\<close> returns on the queue
  \<open>q\<close>: the queue decides it, the compositor only reads it. The functions on colours and
  matrices are those of the math library, which is not in the sources.
\<close>

record World =
  mathDefs :: MathDefs
  URHO3D_OPENGL :: bool
  pipelineStateDepthBias :: "nat \<Rightarrow> real"
  geometryAt :: "nat \<Rightarrow> Geometry"
  materialAt :: "nat \<Rightarrow> Material"
  vector4At :: "nat \<Rightarrow> Vector4"
  lights :: "nat \<Rightarrow> LightProcessor"
  GetGeometryLighting :: "32 word \<Rightarrow> LightAccumulator"
  timeStep :: real
  GetElapsedTime :: real
  GetLightmapTexture :: "32 word \<Rightarrow> nat option"
  cameraNodeRotationMatrix :: Matrix3
  beginReturns :: "DrawCommandQueue \<Rightarrow> ShaderParameterGroup \<Rightarrow> bool \<Rightarrow> bool"
  nullLightInvRange :: real
  nullLightCutoff :: real
  nullLightInvCutoff :: real
  defaultSourceBatch :: SourceBatch
  Translation :: "Matrix3x4 \<Rightarrow> Vector3"
  RotationMatrix :: "Matrix3x4 \<Rightarrow> Matrix3"
  ColorTimes :: "Color \<Rightarrow> real \<Rightarrow> Color"
  GammaToLinear :: "Color \<Rightarrow> Color"
  LinearToGammaVector4 :: "Vector3 \<Rightarrow> Vector4"

text \<open>
  Modelled from the spec: the instancing buffer compositor (its header is not in the
  sources). It accepts per-instance data writes and allocates and returns instance slot
  offsets. \<open>numInstances\<close> is the next free slot; \<open>elements\<close> lists the writes as slot,
  element offset, element count and data.
\<close>

record InstancingBufferCompositor =
  numInstances :: "32 word"
  elements :: "(32 word \<times> nat \<times> nat \<times> ShaderValue) list"
  GetVertexBuffer :: nat

definition AddInstance :: "InstancingBufferCompositor \<Rightarrow> 32 word \<times> InstancingBufferCompositor" where
  "AddInstance ib = (numInstances ib, ib\<lparr>numInstances := numInstances ib + 1\<rparr>)"

definition SetElements ::
  "ShaderValue \<Rightarrow> nat \<Rightarrow> nat \<Rightarrow> InstancingBufferCompositor \<Rightarrow> InstancingBufferCompositor" where
  "SetElements d offset n ib =
     ib\<lparr>elements := elements ib @ [(numInstances ib - 1, offset, n, d)]\<rparr>"

subsection \<open>The state of the compositor\<close>

record EnabledFeatureFlags =
  ambientLighting :: bool
  vertexLighting :: bool
  pixelLighting :: bool
  anyLighting :: bool
  staticInstancing :: bool

definition EnabledFeatureFlags_of :: "BatchRenderFlags \<Rightarrow> EnabledFeatureFlags" where
  "EnabledFeatureFlags_of flags =
     \<lparr>ambientLighting = (AmbientLight \<in> flags),
      vertexLighting = (VertexLights \<in> flags),
      pixelLighting = (PixelLight \<in> flags),
      anyLighting = (AmbientLight \<in> flags \<or> VertexLights \<in> flags \<or> PixelLight \<in> flags),
      staticInstancing = (InstantiateStaticGeometry \<in> flags)\<rparr>"

record DirtyStateFlags =
  pipelineState :: bool
  frameConstants :: bool
  cameraConstants :: bool
  pixelLightConstants :: bool
  pixelLightTextures :: bool
  vertexLightConstants :: bool
  lightmapConstants :: bool
  lightmapTextures :: bool
  material :: bool
  geometry :: bool

definition IsAnyStateDirty :: "DirtyStateFlags \<Rightarrow> bool" where
  "IsAnyStateDirty d =
     (DirtyStateFlags.pipelineState d \<or> frameConstants d \<or> cameraConstants d
      \<or> pixelLightConstants d \<or> pixelLightTextures d \<or> vertexLightConstants d
      \<or> lightmapConstants d \<or> lightmapTextures d \<or> DirtyStateFlags.material d
      \<or> DirtyStateFlags.geometry d)"

record CachedSharedState =
  pipelineState :: "nat option"
  constantDepthBias :: real
  pixelLightIndex :: "32 word"
  pixelLightEnabled :: bool
  pixelLightParams :: "LightShaderParameters option"
  pixelLightRamp :: "nat option"
  pixelLightShape :: "nat option"
  pixelLightShadowMap :: "nat option"
  vertexLights :: "32 word list"
  vertexLightsData :: "Vector4 list"
  lightmapTexture :: "nat option"
  lightmapScaleOffset :: "nat option"
  material :: "nat option"
  geometry :: "nat option"

record ObjectState =
  sh :: "SphericalHarmonicsDot9 option"
  ambient :: Vector4
  geometryType :: GeometryType
  worldTransform :: "Matrix3x4 list"
  numWorldTransforms :: "32 word"

record InstancingGroupState =
  geometry :: "nat option"
  start :: "32 word"
  count :: "32 word"

record LightVolumeBatchHelpers =
  transform :: Matrix3x4
  sourceBatch :: SourceBatch

text \<open>
  The compositor: the queue and the instancing buffer that it writes through its
  references, the references it was built with, and its own members.
\<close>

record DrawCommandCompositor =
  drawQueue :: DrawCommandQueue
  instancingBuffer :: InstancingBufferCompositor
  settings :: BatchRendererSettings
  camera :: Camera
  outputShadowSplit :: "ShadowSplitProcessor option"
  geometryBufferOffsetAndScale :: Vector4
  geometryBufferInvSize :: Vector2
  globalResources :: "ShaderResourceDesc list"
  enabled :: EnabledFeatureFlags
  dirty :: DirtyStateFlags
  current :: CachedSharedState
  object :: ObjectState
  instancingGroup :: InstancingGroupState
  lightVolumeHelpers :: LightVolumeBatchHelpers

text \<open>The member initialisers of the four state structures.\<close>

definition DirtyStateFlags_init :: DirtyStateFlags where
  "DirtyStateFlags_init =
     \<lparr>DirtyStateFlags.pipelineState = False, frameConstants = True, cameraConstants = True,
      pixelLightConstants = False, pixelLightTextures = False, vertexLightConstants = False,
      lightmapConstants = False, lightmapTextures = False, DirtyStateFlags.material = False,
      DirtyStateFlags.geometry = False\<rparr>"

definition CachedSharedState_init :: "MathDefs \<Rightarrow> CachedSharedState" where
  "CachedSharedState_init md =
     \<lparr>CachedSharedState.pipelineState = None, constantDepthBias = 0,
      pixelLightIndex = M_MAX_UNSIGNED md, pixelLightEnabled = False, pixelLightParams = None,
      pixelLightRamp = None, pixelLightShape = None, pixelLightShadowMap = None,
      vertexLights = replicate (MAX_VERTEX_LIGHTS md) 0,
      vertexLightsData = replicate (MAX_VERTEX_LIGHTS md * 3) Vector4_ZERO,
      lightmapTexture = None, lightmapScaleOffset = None,
      CachedSharedState.material = None, CachedSharedState.geometry = None\<rparr>"

definition ObjectState_init :: ObjectState where
  "ObjectState_init =
     \<lparr>sh = None, ambient = Vector4_ZERO, ObjectState.geometryType = GEOM_STATIC,
      ObjectState.worldTransform = [], ObjectState.numWorldTransforms = 0\<rparr>"

definition InstancingGroupState_init :: InstancingGroupState where
  "InstancingGroupState_init = \<lparr>InstancingGroupState.geometry = None, start = 0, count = 0\<rparr>"

text \<open>The constructor.\<close>

definition DrawCommandCompositor_new ::
  "World \<Rightarrow> DrawCommandQueue \<Rightarrow> BatchRendererSettings \<Rightarrow> InstancingBufferCompositor \<Rightarrow> Camera
   \<Rightarrow> BatchRenderFlags \<Rightarrow> ShadowSplitProcessor option \<Rightarrow> DrawCommandCompositor" where
  "DrawCommandCompositor_new world q st ib renderCamera flags split =
     \<lparr>drawQueue = q, instancingBuffer = ib, settings = st, camera = renderCamera,
      outputShadowSplit = split, geometryBufferOffsetAndScale = Vector4_ZERO,
      geometryBufferInvSize = (0, 0), globalResources = [],
      enabled = EnabledFeatureFlags_of flags, dirty = DirtyStateFlags_init,
      current = CachedSharedState_init (mathDefs world), object = ObjectState_init,
      instancingGroup = InstancingGroupState_init,
      lightVolumeHelpers = \<lparr>transform = [], sourceBatch = defaultSourceBatch world\<rparr>\<rparr>"

definition SetGBufferParameters ::
  "Vector4 \<Rightarrow> Vector2 \<Rightarrow> DrawCommandCompositor \<Rightarrow> DrawCommandCompositor" where
  "SetGBufferParameters offsetAndScale invSize c =
     c\<lparr>geometryBufferOffsetAndScale := offsetAndScale, geometryBufferInvSize := invSize\<rparr>"

definition SetGlobalResources ::
  "ShaderResourceDesc list \<Rightarrow> DrawCommandCompositor \<Rightarrow> DrawCommandCompositor" where
  "SetGlobalResources rs c = c\<lparr>globalResources := rs\<rparr>"

subsection \<open>Calls on the queue\<close>

definition enqueue :: "DrawCommand \<Rightarrow> DrawCommandCompositor \<Rightarrow> DrawCommandCompositor" where
  "enqueue cmd c = c\<lparr>drawQueue := drawQueue c @ [cmd]\<rparr>"

definition enqueueAll :: "DrawCommand list \<Rightarrow> DrawCommandCompositor \<Rightarrow> DrawCommandCompositor" where
  "enqueueAll cmds c = c\<lparr>drawQueue := drawQueue c @ cmds\<rparr>"

text \<open>\<^verbatim>\<open>drawQueue_.BeginShaderParameterGroup(group, differentFromPrevious)\<close> and its result.\<close>

definition drawQueue_BeginShaderParameterGroup ::
  "World \<Rightarrow> ShaderParameterGroup \<Rightarrow> bool \<Rightarrow> DrawCommandCompositor \<Rightarrow> bool \<times> DrawCommandCompositor" where
  "drawQueue_BeginShaderParameterGroup world g differentFromPrevious c =
     (beginReturns world (drawQueue c) g differentFromPrevious,
      enqueue (BeginShaderParameterGroup g differentFromPrevious) c)"

subsection \<open>Dirty checks\<close>

definition CheckDirtyCommonState ::
  "World \<Rightarrow> DrawCommandCompositor \<Rightarrow> PipelineBatch \<Rightarrow> DrawCommandCompositor" where
  "CheckDirtyCommonState world c pb =
     (let c = c\<lparr>dirty := (dirty c)\<lparr>DirtyStateFlags.pipelineState :=
                (CachedSharedState.pipelineState (current c) \<noteq> Some (PipelineBatch.pipelineState pb))\<rparr>\<rparr>;
          c = c\<lparr>current := (current c)\<lparr>CachedSharedState.pipelineState :=
                Some (PipelineBatch.pipelineState pb)\<rparr>\<rparr>;
          bias = pipelineStateDepthBias world (the (CachedSharedState.pipelineState (current c)));
          c = (if constantDepthBias (current c) \<noteq> bias
               then c\<lparr>current := (current c)\<lparr>constantDepthBias := bias\<rparr>,
                      dirty := (dirty c)\<lparr>cameraConstants := True\<rparr>\<rparr>
               else c);
          c = c\<lparr>dirty := (dirty c)\<lparr>DirtyStateFlags.material :=
                (CachedSharedState.material (current c) \<noteq> Some (PipelineBatch.material pb))\<rparr>\<rparr>;
          c = c\<lparr>current := (current c)\<lparr>CachedSharedState.material :=
                Some (PipelineBatch.material pb)\<rparr>\<rparr>;
          c = c\<lparr>dirty := (dirty c)\<lparr>DirtyStateFlags.geometry :=
                (CachedSharedState.geometry (current c) \<noteq> Some (PipelineBatch.geometry pb))\<rparr>\<rparr>
      in c\<lparr>current := (current c)\<lparr>CachedSharedState.geometry :=
                Some (PipelineBatch.geometry pb)\<rparr>\<rparr>)"

definition CheckDirtyPixelLight ::
  "World \<Rightarrow> DrawCommandCompositor \<Rightarrow> PipelineBatch \<Rightarrow> DrawCommandCompositor" where
  "CheckDirtyPixelLight world c pb =
     (let c = c\<lparr>dirty := (dirty c)\<lparr>pixelLightConstants :=
                (pixelLightIndex (current c) \<noteq> lightIndex pb)\<rparr>\<rparr> in
      if \<not> pixelLightConstants (dirty c) then c
      else
        (let c = c\<lparr>current := (current c)\<lparr>pixelLightIndex := lightIndex pb\<rparr>\<rparr>;
             c = c\<lparr>current := (current c)\<lparr>pixelLightEnabled :=
                   (pixelLightIndex (current c) \<noteq> M_MAX_UNSIGNED (mathDefs world))\<rparr>\<rparr> in
         if pixelLightEnabled (current c) then
           (let c = c\<lparr>current := (current c)\<lparr>pixelLightParams :=
                      Some (GetShaderParams (lights world (unat (pixelLightIndex (current c)))))\<rparr>\<rparr>;
                params = the (pixelLightParams (current c));
                c = c\<lparr>dirty := (dirty c)\<lparr>pixelLightTextures :=
                      (pixelLightRamp (current c) \<noteq> lightRamp params
                       \<or> pixelLightShape (current c) \<noteq> lightShape params
                       \<or> pixelLightShadowMap (current c) \<noteq> shadowMap params)\<rparr>\<rparr> in
            if pixelLightTextures (dirty c)
            then c\<lparr>current := (current c)\<lparr>pixelLightRamp := lightRamp params,
                      pixelLightShape := lightShape params,
                      pixelLightShadowMap := shadowMap params\<rparr>\<rparr>
            else c)
         else c))"

text \<open>
  One round of the loop of \<^verbatim>\<open>CheckDirtyVertexLight\<close>, for the slot \<open>i\<close>. The two arrays have
  \<open>MAX_VERTEX_LIGHTS\<close> and \<open>MAX_VERTEX_LIGHTS * 3\<close> elements by their C++ types.
\<close>

definition nullVertexLight :: "World \<Rightarrow> LightShaderParameters" where
  "nullVertexLight world =
     nullLightShaderParameters (nullLightInvRange world) (nullLightCutoff world)
       (nullLightInvCutoff world)"

definition vertexLightSlot :: "World \<Rightarrow> nat \<Rightarrow> DrawCommandCompositor \<Rightarrow> DrawCommandCompositor" where
  "vertexLightSlot world i c =
     (let params = (if vertexLights (current c) ! i \<noteq> M_MAX_UNSIGNED (mathDefs world)
                    then GetShaderParams (lights world (unat (vertexLights (current c) ! i)))
                    else nullVertexLight world);
          color = GetColor params (gammaCorrection (settings c));
          c = c\<lparr>current := (current c)\<lparr>vertexLightsData :=
                (vertexLightsData (current c))[i * 3 := Vector4_of color (invRange params)]\<rparr>\<rparr>;
          c = c\<lparr>current := (current c)\<lparr>vertexLightsData :=
                (vertexLightsData (current c))[i * 3 + 1 := Vector4_of (direction params) (cutoff params)]\<rparr>\<rparr>
      in c\<lparr>current := (current c)\<lparr>vertexLightsData :=
                (vertexLightsData (current c))[i * 3 + 2 := Vector4_of (position params) (invCutoff params)]\<rparr>\<rparr>)"

definition CheckDirtyVertexLight ::
  "World \<Rightarrow> DrawCommandCompositor \<Rightarrow> LightAccumulator \<Rightarrow> DrawCommandCompositor" where
  "CheckDirtyVertexLight world c lightAccumulator =
     (let previousVertexLights = vertexLights (current c);
          c = c\<lparr>current := (current c)\<lparr>vertexLights := GetVertexLights lightAccumulator\<rparr>\<rparr>;
          c = c\<lparr>dirty := (dirty c)\<lparr>vertexLightConstants :=
                (previousVertexLights \<noteq> vertexLights (current c))\<rparr>\<rparr> in
      if \<not> vertexLightConstants (dirty c) then c
      else fold (vertexLightSlot world) [0 ..< MAX_VERTEX_LIGHTS (mathDefs world)] c)"

definition CheckDirtyLightmap ::
  "World \<Rightarrow> DrawCommandCompositor \<Rightarrow> SourceBatch \<Rightarrow> DrawCommandCompositor" where
  "CheckDirtyLightmap world c sb =
     (let c = c\<lparr>dirty := (dirty c)\<lparr>lightmapConstants :=
                (CachedSharedState.lightmapScaleOffset (current c)
                   \<noteq> SourceBatch.lightmapScaleOffset sb)\<rparr>\<rparr> in
      if \<not> lightmapConstants (dirty c) then c
      else
        (let c = c\<lparr>current := (current c)\<lparr>CachedSharedState.lightmapScaleOffset :=
                   SourceBatch.lightmapScaleOffset sb\<rparr>\<rparr>;
             lmTexture = (if CachedSharedState.lightmapScaleOffset (current c) \<noteq> None
                          then GetLightmapTexture world (lightmapIndex sb) else None);
             c = c\<lparr>dirty := (dirty c)\<lparr>lightmapTextures :=
                   (lightmapTexture (current c) \<noteq> lmTexture)\<rparr>\<rparr>
         in c\<lparr>current := (current c)\<lparr>lightmapTexture := lmTexture\<rparr>\<rparr>))"

definition ExtractObjectConstants ::
  "World \<Rightarrow> DrawCommandCompositor \<Rightarrow> SourceBatch \<Rightarrow> LightAccumulator option
   \<Rightarrow> DrawCommandCompositor" where
  "ExtractObjectConstants world c sb lightAccumulator =
     (let c =
        (if ambientLighting (enabled c) then
           (if ambientMode (settings c) = AmbientMode_Flat then
              (let average = EvaluateAverage (sphericalHarmonics (the lightAccumulator)) in
               if gammaCorrection (settings c)
               then c\<lparr>object := (object c)\<lparr>ambient := Vector4_of average 1\<rparr>\<rparr>
               else c\<lparr>object := (object c)\<lparr>ambient := LinearToGammaVector4 world average\<rparr>\<rparr>)
            else if ambientMode (settings c) = AmbientMode_Directional then
              c\<lparr>object := (object c)\<lparr>sh := Some (sphericalHarmonics (the lightAccumulator))\<rparr>\<rparr>
            else c)
         else c)
      in c\<lparr>object := (object c)\<lparr>ObjectState.geometryType := SourceBatch.geometryType sb,
              ObjectState.worldTransform := SourceBatch.worldTransform sb,
              ObjectState.numWorldTransforms := SourceBatch.numWorldTransforms sb\<rparr>\<rparr>)"

subsection \<open>Constants written to the queue\<close>

definition AddFrameConstants :: "World \<Rightarrow> DrawCommandCompositor \<Rightarrow> DrawCommandCompositor" where
  "AddFrameConstants world c =
     enqueueAll
       [AddShaderParameter VSP_DELTATIME (FloatValue (timeStep world)),
        AddShaderParameter VSP_ELAPSEDTIME (FloatValue (GetElapsedTime world))] c"

definition AddCameraConstants ::
  "World \<Rightarrow> real \<Rightarrow> DrawCommandCompositor \<Rightarrow> DrawCommandCompositor" where
  "AddCameraConstants world bias c =
     (let cameraEffectiveTransform = GetEffectiveWorldTransform (camera c);
          nearClip = GetNearClip (camera c);
          farClip = GetFarClip (camera c);
          ambientColorGamma = ColorTimes world (GetEffectiveAmbientColor (camera c))
                                (GetEffectiveAmbientBrightness (camera c)) in
      enqueueAll
        ([AddShaderParameter VSP_GBUFFEROFFSETS (Vector4Value (geometryBufferOffsetAndScale c)),
          AddShaderParameter VSP_CAMERAPOS (Vector3Value (Translation world cameraEffectiveTransform)),
          AddShaderParameter VSP_VIEWINV (MatrixValue cameraEffectiveTransform),
          AddShaderParameter VSP_VIEW (MatrixValue (GetView (camera c))),
          AddShaderParameter VSP_NEARCLIP (FloatValue nearClip),
          AddShaderParameter VSP_FARCLIP (FloatValue farClip)]
         @ (case outputShadowSplit c of
              None \<Rightarrow> []
            | Some split \<Rightarrow>
                [AddShaderParameter VSP_NORMALOFFSETSCALE
                   (shadowNormalBias (GetShaderParams (GetLightProcessor split))
                      (GetSplitIndex split))])
         @ [AddShaderParameter VSP_DEPTHMODE
              (Vector4Value (GetCameraDepthModeParameter (URHO3D_OPENGL world) (camera c))),
            AddShaderParameter PSP_DEPTHRECONSTRUCT
              (Vector4Value (GetCameraDepthReconstructParameter (camera c))),
            AddShaderParameter VSP_FRUSTUMSIZE (Vector3Value (GetFrustumSizeFar (camera c))),
            AddShaderParameter VSP_VIEWPROJ
              (MatrixValue (GetEffectiveGPUViewProjection (camera c) bias)),
            AddShaderParameter PSP_AMBIENTCOLOR
              (ColorValue (if gammaCorrection (settings c)
                           then GammaToLinear world ambientColorGamma else ambientColorGamma)),
            AddShaderParameter PSP_FOGCOLOR (ColorValue (GetEffectiveFogColor (camera c))),
            AddShaderParameter PSP_FOGPARAMS
              (Vector4Value (GetFogParameter (mathDefs world) (camera c)))]) c)"

definition AddVertexLightConstants :: "DrawCommandCompositor \<Rightarrow> DrawCommandCompositor" where
  "AddVertexLightConstants c =
     enqueue (AddShaderParameter VSP_VERTEXLIGHTS (Vector4Span (vertexLightsData (current c)))) c"

definition AddPixelLightConstants ::
  "LightShaderParameters \<Rightarrow> DrawCommandCompositor \<Rightarrow> DrawCommandCompositor" where
  "AddPixelLightConstants params c =
     enqueueAll
       ([AddShaderParameter VSP_LIGHTDIR (Vector3Value (direction params)),
         AddShaderParameter VSP_LIGHTPOS (Vector4Value (Vector4_of (position params) (invRange params))),
         AddShaderParameter PSP_LIGHTCOLOR
           (Vector4Value (Vector4_of (GetColor params (gammaCorrection (settings c)))
              (specularIntensity params))),
         AddShaderParameter PSP_LIGHTRAD (radius params),
         AddShaderParameter PSP_LIGHTLENGTH (lightLength params)]
        @ (if numLightMatrices params > 0
           then [AddShaderParameter VSP_LIGHTMATRICES
                   (MatrixSpan (take (unat (numLightMatrices params)) (lightMatrices params)))]
           else [])
        @ (if shadowMap params \<noteq> None
           then [AddShaderParameter PSP_SHADOWDEPTHFADE (shadowDepthFade params),
                 AddShaderParameter PSP_SHADOWINTENSITY (shadowIntensity params),
                 AddShaderParameter PSP_SHADOWMAPINVSIZE (shadowMapInvSize params),
                 AddShaderParameter PSP_SHADOWSPLITS (shadowSplits params),
                 AddShaderParameter PSP_SHADOWCUBEUVBIAS (shadowCubeUVBias params),
                 AddShaderParameter PSP_SHADOWCUBEADJUST (shadowCubeAdjust params),
                 AddShaderParameter PSP_VSMSHADOWPARAMS
                   (Vector2Value (vsmShadowParams (settings c)))]
           else [])) c"

definition SphericalHarmonicsConstants :: "SphericalHarmonicsDot9 \<Rightarrow> DrawCommand list" where
  "SphericalHarmonicsConstants h =
     [AddShaderParameter VSP_SHAR (Vector4Value (Ar h)),
      AddShaderParameter VSP_SHAG (Vector4Value (Ag h)),
      AddShaderParameter VSP_SHAB (Vector4Value (Ab h)),
      AddShaderParameter VSP_SHBR (Vector4Value (Br h)),
      AddShaderParameter VSP_SHBG (Vector4Value (Bg h)),
      AddShaderParameter VSP_SHBB (Vector4Value (Bb h)),
      AddShaderParameter VSP_SHC (Vector4Value (C h))]"

text \<open>
  \<^verbatim>\<open>AddObjectConstants\<close>: \<open>ObjectConstants\<close> lists its calls of \<^verbatim>\<open>AddShaderParameter\<close>, in order.
\<close>

definition ObjectConstants :: "World \<Rightarrow> DrawCommandCompositor \<Rightarrow> DrawCommand list" where
  "ObjectConstants world c =
     (if ambientLighting (enabled c) then
        (if ambientMode (settings c) = AmbientMode_Flat
         then [AddShaderParameter VSP_AMBIENT (Vector4Value (ambient (object c)))]
         else if ambientMode (settings c) = AmbientMode_Directional
         then SphericalHarmonicsConstants (the (sh (object c)))
         else [])
      else [])
     @ (case ObjectState.geometryType (object c) of
          GEOM_SKINNED \<Rightarrow>
            [AddShaderParameter VSP_SKINMATRICES
               (MatrixSpan (take (unat (ObjectState.numWorldTransforms (object c)))
                  (ObjectState.worldTransform (object c))))]
        | GEOM_BILLBOARD \<Rightarrow>
            [AddShaderParameter VSP_MODEL (MatrixValue (ObjectState.worldTransform (object c) ! 0)),
             (if ObjectState.numWorldTransforms (object c) > 1
              then AddShaderParameter VSP_BILLBOARDROT
                     (MatrixValue (RotationMatrix world (ObjectState.worldTransform (object c) ! 1)))
              else AddShaderParameter VSP_BILLBOARDROT
                     (MatrixValue (cameraNodeRotationMatrix world)))]
        | _ \<Rightarrow>
            [AddShaderParameter VSP_MODEL
               (MatrixValue (ObjectState.worldTransform (object c) ! 0))])"

definition AddObjectConstants :: "World \<Rightarrow> DrawCommandCompositor \<Rightarrow> DrawCommandCompositor" where
  "AddObjectConstants world c = enqueueAll (ObjectConstants world c) c"

definition AddObjectInstanceData :: "DrawCommandCompositor \<Rightarrow> DrawCommandCompositor" where
  "AddObjectInstanceData c =
     (let c = c\<lparr>instancingBuffer :=
                SetElements (MatrixValue (ObjectState.worldTransform (object c) ! 0)) 0 3
                  (instancingBuffer c)\<rparr> in
      if ambientLighting (enabled c) then
        (if ambientMode (settings c) = AmbientMode_Flat
         then c\<lparr>instancingBuffer :=
                SetElements (Vector4Value (ambient (object c))) 3 1 (instancingBuffer c)\<rparr>
         else if ambientMode (settings c) = AmbientMode_Directional
         then c\<lparr>instancingBuffer :=
                SetElements
                  (let h = the (sh (object c)) in
                   SphericalHarmonicsValue [Ar h, Ag h, Ab h, Br h, Bg h, Bb h, C h])
                  3 7 (instancingBuffer c)\<rparr>
         else c)
      else c)"

subsection \<open>Committing dirty state\<close>

text \<open>
  \<^verbatim>\<open>UpdateDirtyConstants\<close> is a sequence of five blocks, one for the pipeline state and one
  for each of the groups \<open>SP_FRAME\<close>, \<open>SP_CAMERA\<close>, \<open>SP_LIGHT\<close> and \<open>SP_MATERIAL\<close>. Each
  block is a definition of its own, in the order of the source.
\<close>

definition UpdateDirtyConstants_PipelineState ::
  "DrawCommandCompositor \<Rightarrow> DrawCommandCompositor" where
  "UpdateDirtyConstants_PipelineState c =
     (if DirtyStateFlags.pipelineState (dirty c)
      then (let c = enqueue (SetPipelineState (CachedSharedState.pipelineState (current c))) c
            in c\<lparr>dirty := (dirty c)\<lparr>DirtyStateFlags.pipelineState := False\<rparr>\<rparr>)
      else c)"

definition UpdateDirtyConstants_Frame ::
  "World \<Rightarrow> DrawCommandCompositor \<Rightarrow> DrawCommandCompositor" where
  "UpdateDirtyConstants_Frame world c =
     (let (begun, c) = drawQueue_BeginShaderParameterGroup world SP_FRAME (frameConstants (dirty c)) c in
      if begun
      then (let c = AddFrameConstants world c;
                c = enqueue (CommitShaderParameterGroup SP_FRAME) c
            in c\<lparr>dirty := (dirty c)\<lparr>frameConstants := False\<rparr>\<rparr>)
      else c)"

definition UpdateDirtyConstants_Camera ::
  "World \<Rightarrow> DrawCommandCompositor \<Rightarrow> DrawCommandCompositor" where
  "UpdateDirtyConstants_Camera world c =
     (let (begun, c) = drawQueue_BeginShaderParameterGroup world SP_CAMERA (cameraConstants (dirty c)) c in
      if begun
      then (let c = AddCameraConstants world (constantDepthBias (current c)) c;
                c = enqueue (CommitShaderParameterGroup SP_CAMERA) c
            in c\<lparr>dirty := (dirty c)\<lparr>cameraConstants := False\<rparr>\<rparr>)
      else c)"

definition UpdateDirtyConstants_Light ::
  "World \<Rightarrow> DrawCommandCompositor \<Rightarrow> DrawCommandCompositor" where
  "UpdateDirtyConstants_Light world c =
     (if outputShadowSplit c \<noteq> None then
        (let (begun, c) = drawQueue_BeginShaderParameterGroup world SP_LIGHT False c in
         if begun
         then (let params = GetShaderParams (GetLightProcessor (the (outputShadowSplit c)));
                   c = AddPixelLightConstants params c
               in enqueue (CommitShaderParameterGroup SP_LIGHT) c)
         else c)
      else if anyLighting (enabled c) then
        (let lightConstantsDirty =
               (pixelLightConstants (dirty c) \<or> vertexLightConstants (dirty c));
             (begun, c) = drawQueue_BeginShaderParameterGroup world SP_LIGHT lightConstantsDirty c in
         if begun
         then (let c = (if vertexLighting (enabled c) then AddVertexLightConstants c else c);
                   c = (if pixelLightEnabled (current c)
                        then AddPixelLightConstants (the (pixelLightParams (current c))) c
                        else c)
               in enqueue (CommitShaderParameterGroup SP_LIGHT) c)
         else c)
      else c)"

definition UpdateDirtyConstants_Material ::
  "World \<Rightarrow> DrawCommandCompositor \<Rightarrow> DrawCommandCompositor" where
  "UpdateDirtyConstants_Material world c =
     (let (begun, c) = drawQueue_BeginShaderParameterGroup world SP_MATERIAL
                         (DirtyStateFlags.material (dirty c) \<or> lightmapConstants (dirty c)) c
      in if begun
         then (let materialParameters =
                     GetShaderParameters (materialAt world (the (CachedSharedState.material (current c))));
                   c = enqueueAll
                         (map (\<lambda>parameter. AddShaderParameter (MaterialParameter (fst parameter))
                                 (snd parameter)) materialParameters) c;
                   c = (if ambientLighting (enabled c)
                           \<and> CachedSharedState.lightmapScaleOffset (current c) \<noteq> None
                        then enqueue (AddShaderParameter VSP_LMOFFSET
                               (Vector4Value (vector4At world
                                  (the (CachedSharedState.lightmapScaleOffset (current c)))))) c
                        else c)
               in enqueue (CommitShaderParameterGroup SP_MATERIAL) c)
         else c)"

definition UpdateDirtyConstants :: "World \<Rightarrow> DrawCommandCompositor \<Rightarrow> DrawCommandCompositor" where
  "UpdateDirtyConstants world c =
     (let c = UpdateDirtyConstants_PipelineState c;
          c = UpdateDirtyConstants_Frame world c;
          c = UpdateDirtyConstants_Camera world c;
          c = UpdateDirtyConstants_Light world c
      in UpdateDirtyConstants_Material world c)"

text \<open>
  \<^verbatim>\<open>UpdateDirtyResources\<close>. \<open>materialTextureResources\<close> is its loop over the textures of the
  material, in the order of the container.
\<close>

fun materialTextureResources ::
  "nat option \<Rightarrow> (TextureUnit \<times> nat option) list \<Rightarrow> DrawCommand list" where
  "materialTextureResources lm [] = []"
| "materialTextureResources lm (tex # rest) =
     (if lm = None \<or> fst tex \<noteq> TU_EMISSIVE
      then AddShaderResource (fst tex) (snd tex) # materialTextureResources lm rest
      else materialTextureResources lm rest)"

definition UpdateDirtyResources :: "World \<Rightarrow> DrawCommandCompositor \<Rightarrow> DrawCommandCompositor" where
  "UpdateDirtyResources world c =
     (let resourcesDirty = (DirtyStateFlags.material (dirty c) \<or> lightmapTextures (dirty c)
                            \<or> pixelLightTextures (dirty c)) in
      if resourcesDirty then
        (let c = enqueueAll (map (\<lambda>desc. AddShaderResource (texUnit desc) (texture desc))
                               (globalResources c)) c;
             materialTextures =
               GetTextures (materialAt world (the (CachedSharedState.material (current c))));
             c = enqueueAll (materialTextureResources (lightmapTexture (current c)) materialTextures) c;
             c = (if lightmapTexture (current c) \<noteq> None
                  then enqueue (AddShaderResource TU_EMISSIVE (lightmapTexture (current c))) c else c);
             c = (if pixelLightRamp (current c) \<noteq> None
                  then enqueue (AddShaderResource TU_LIGHTRAMP (pixelLightRamp (current c))) c else c);
             c = (if pixelLightShape (current c) \<noteq> None
                  then enqueue (AddShaderResource TU_LIGHTSHAPE (pixelLightShape (current c))) c else c);
             c = (if pixelLightShadowMap (current c) \<noteq> None
                  then enqueue (AddShaderResource TU_SHADOWMAP (pixelLightShadowMap (current c))) c else c)
         in enqueue CommitShaderResources c)
      else c)"

subsection \<open>Draw operations\<close>

datatype error = AssertionFailed

definition DrawObject :: "World \<Rightarrow> DrawCommandCompositor \<Rightarrow> DrawCommandCompositor" where
  "DrawObject world c =
     (let g = geometryAt world (the (CachedSharedState.geometry (current c)));
          indexBuffer = GetIndexBuffer g;
          c = (if DirtyStateFlags.geometry (dirty c)
               then (let c = enqueue (SetBuffers (GetVertexBuffers g) indexBuffer None) c
                     in c\<lparr>dirty := (dirty c)\<lparr>DirtyStateFlags.geometry := False\<rparr>\<rparr>)
               else c)
      in if indexBuffer \<noteq> None
         then enqueue (DrawIndexed (GetIndexStart g) (GetIndexCount g)) c
         else enqueue (Draw (GetVertexStart g) (GetVertexCount g)) c)"

definition DrawObjectInstanced :: "World \<Rightarrow> DrawCommandCompositor \<Rightarrow> error + DrawCommandCompositor" where
  "DrawObjectInstanced world c =
     (if \<not> count (instancingGroup c) > 0 then Inl AssertionFailed
      else
        (let g = geometryAt world (the (InstancingGroupState.geometry (instancingGroup c)));
             c = enqueue (SetBuffers (GetVertexBuffers g) (GetIndexBuffer g)
                            (Some (GetVertexBuffer (instancingBuffer c)))) c;
             c = enqueue (DrawIndexedInstanced (GetIndexStart g) (GetIndexCount g)
                            (start (instancingGroup c)) (count (instancingGroup c))) c
         in Inr (c\<lparr>instancingGroup := (instancingGroup c)\<lparr>count := 0\<rparr>\<rparr>)))"

definition FlushDrawCommands :: "World \<Rightarrow> DrawCommandCompositor \<Rightarrow> error + DrawCommandCompositor" where
  "FlushDrawCommands world c =
     (if count (instancingGroup c) > 0 then DrawObjectInstanced world c else Inr c)"

subsection \<open>Processing one batch\<close>

text \<open>
  The dirty checks of \<^verbatim>\<open>ProcessBatch\<close>, from \<^verbatim>\<open>ExtractObjectConstants\<close> to
  \<^verbatim>\<open>CheckDirtyLightmap\<close>: the state in which the source evaluates \<^verbatim>\<open>resetInstancingGroup\<close>.
\<close>

definition UpdateDirtyFlags ::
  "World \<Rightarrow> DrawCommandCompositor \<Rightarrow> PipelineBatch \<Rightarrow> SourceBatch \<Rightarrow> DrawCommandCompositor" where
  "UpdateDirtyFlags world c pb sb =
     (let lightAccumulator =
            (if ambientLighting (enabled c) \<or> vertexLighting (enabled c)
             then Some (GetGeometryLighting world (drawableIndex pb)) else None);
          c = ExtractObjectConstants world c sb lightAccumulator;
          c = CheckDirtyCommonState world c pb;
          c = (if pixelLighting (enabled c) then CheckDirtyPixelLight world c pb else c);
          c = (if vertexLighting (enabled c)
               then CheckDirtyVertexLight world c (the lightAccumulator) else c)
      in if ambientLighting (enabled c) then CheckDirtyLightmap world c sb else c)"

text \<open>The two local flags of \<^verbatim>\<open>ProcessBatch\<close>.\<close>

definition resetInstancingGroup :: "DrawCommandCompositor \<Rightarrow> bool" where
  "resetInstancingGroup c = (count (instancingGroup c) = 0 \<or> IsAnyStateDirty (dirty c))"

definition beginInstancingGroup :: "World \<Rightarrow> DrawCommandCompositor \<Rightarrow> PipelineBatch \<Rightarrow> bool" where
  "beginInstancingGroup world c pb =
     (staticInstancing (enabled c)
      \<and> PipelineBatch.geometryType pb = GEOM_STATIC
      \<and> GetIndexBuffer (geometryAt world (PipelineBatch.geometry pb)) \<noteq> None)"

definition ProcessBatch ::
  "World \<Rightarrow> DrawCommandCompositor \<Rightarrow> PipelineBatch \<Rightarrow> SourceBatch \<Rightarrow> error + DrawCommandCompositor" where
  "ProcessBatch world c pb sb =
     (let c = UpdateDirtyFlags world c pb sb in
      if resetInstancingGroup c then
        (case FlushDrawCommands world c of
           Inl e \<Rightarrow> Inl e
         | Inr c \<Rightarrow>
             (let c = UpdateDirtyConstants world c;
                  c = UpdateDirtyResources world c in
              if beginInstancingGroup world c pb then
                (let (slot, ib) = AddInstance (instancingBuffer c);
                     c = c\<lparr>instancingGroup := (instancingGroup c)\<lparr>count := 1\<rparr>\<rparr>;
                     c = c\<lparr>instancingGroup := (instancingGroup c)\<lparr>start := slot\<rparr>,
                            instancingBuffer := ib\<rparr>;
                     c = c\<lparr>instancingGroup := (instancingGroup c)
                             \<lparr>InstancingGroupState.geometry := CachedSharedState.geometry (current c)\<rparr>\<rparr>
                 in Inr (AddObjectInstanceData c))
              else
                (let c = snd (drawQueue_BeginShaderParameterGroup world SP_OBJECT True c);
                     c = AddObjectConstants world c;
                     c = enqueue (CommitShaderParameterGroup SP_OBJECT) c
                 in Inr (DrawObject world c))))
      else
        (let c = c\<lparr>instancingGroup := (instancingGroup c)\<lparr>count := count (instancingGroup c) + 1\<rparr>\<rparr>;
             c = c\<lparr>instancingBuffer := snd (AddInstance (instancingBuffer c))\<rparr>
         in Inr (AddObjectInstanceData c)))"

definition ProcessSceneBatch ::
  "World \<Rightarrow> DrawCommandCompositor \<Rightarrow> PipelineBatch \<Rightarrow> error + DrawCommandCompositor" where
  "ProcessSceneBatch world c pb = ProcessBatch world c pb (GetSourceBatch pb)"

definition ProcessLightVolumeBatch ::
  "World \<Rightarrow> DrawCommandCompositor \<Rightarrow> PipelineBatch \<Rightarrow> error + DrawCommandCompositor" where
  "ProcessLightVolumeBatch world c pb =
     (let light = lights world (unat (lightIndex pb));
          c = c\<lparr>lightVolumeHelpers := (lightVolumeHelpers c)\<lparr>transform := GetVolumeTransform light\<rparr>\<rparr>;
          c = c\<lparr>lightVolumeHelpers := (lightVolumeHelpers c)\<lparr>sourceBatch :=
                (sourceBatch (lightVolumeHelpers c))
                  \<lparr>SourceBatch.worldTransform := [transform (lightVolumeHelpers c)]\<rparr>\<rparr>\<rparr>
      in ProcessBatch world c pb (sourceBatch (lightVolumeHelpers c)))"

subsection \<open>The entry points of the batch renderer\<close>

text \<open>
  The loops of the three entry points. Each entry point returns the compositor as it is
  when the function ends, which holds the queue and the instancing buffer that the C++
  writes through its references.
\<close>

fun ProcessSceneBatches ::
  "World \<Rightarrow> DrawCommandCompositor \<Rightarrow> 'k SortedBatch list \<Rightarrow> error + DrawCommandCompositor" where
  "ProcessSceneBatches world c [] = Inr c"
| "ProcessSceneBatches world c (sortedBatch # rest) =
     (case ProcessSceneBatch world c (pipelineBatch sortedBatch) of
        Inl e \<Rightarrow> Inl e
      | Inr c \<Rightarrow> ProcessSceneBatches world c rest)"

fun ProcessLightVolumeBatches ::
  "World \<Rightarrow> DrawCommandCompositor \<Rightarrow> 'k SortedBatch list \<Rightarrow> error + DrawCommandCompositor" where
  "ProcessLightVolumeBatches world c [] = Inr c"
| "ProcessLightVolumeBatches world c (sortedBatch # rest) =
     (case ProcessLightVolumeBatch world c (pipelineBatch sortedBatch) of
        Inl e \<Rightarrow> Inl e
      | Inr c \<Rightarrow> ProcessLightVolumeBatches world c rest)"

text \<open>\<^verbatim>\<open>RenderBatches\<close> for batches sorted by state.\<close>

definition RenderBatches_ByState ::
  "World \<Rightarrow> BatchRendererSettings \<Rightarrow> InstancingBufferCompositor \<Rightarrow> DrawCommandQueue \<Rightarrow> Camera
   \<Rightarrow> BatchRenderFlags \<Rightarrow> 'k SortedBatch list \<Rightarrow> ShadowSplitProcessor option
   \<Rightarrow> error + DrawCommandCompositor" where
  "RenderBatches_ByState world st ib q cam flags batches split =
     (let compositor = DrawCommandCompositor_new world q st ib cam flags split in
      case ProcessSceneBatches world compositor batches of
        Inl e \<Rightarrow> Inl e
      | Inr compositor \<Rightarrow> FlushDrawCommands world compositor)"

text \<open>\<^verbatim>\<open>RenderBatches\<close> for batches sorted back to front.\<close>

definition RenderBatches_BackToFront ::
  "World \<Rightarrow> BatchRendererSettings \<Rightarrow> InstancingBufferCompositor \<Rightarrow> DrawCommandQueue \<Rightarrow> Camera
   \<Rightarrow> BatchRenderFlags \<Rightarrow> 'k SortedBatch list \<Rightarrow> ShadowSplitProcessor option
   \<Rightarrow> error + DrawCommandCompositor" where
  "RenderBatches_BackToFront world st ib q cam flags batches split =
     (let compositor = DrawCommandCompositor_new world q st ib cam flags split in
      case ProcessSceneBatches world compositor batches of
        Inl e \<Rightarrow> Inl e
      | Inr compositor \<Rightarrow> FlushDrawCommands world compositor)"

text \<open>The context of a light volume pass.\<close>

record LightVolumeRenderContext =
  ctx_geometryBufferOffsetAndScale :: Vector4
  ctx_geometryBufferInvSize :: Vector2
  ctx_geometryBuffer :: "ShaderResourceDesc list"

definition RenderLightVolumeBatches ::
  "World \<Rightarrow> BatchRendererSettings \<Rightarrow> InstancingBufferCompositor \<Rightarrow> DrawCommandQueue \<Rightarrow> Camera
   \<Rightarrow> LightVolumeRenderContext \<Rightarrow> 'k SortedBatch list \<Rightarrow> error + DrawCommandCompositor" where
  "RenderLightVolumeBatches world st ib q cam ctx batches =
     (let compositor = DrawCommandCompositor_new world q st ib cam {PixelLight} None;
          compositor = SetGBufferParameters (ctx_geometryBufferOffsetAndScale ctx)
                         (ctx_geometryBufferInvSize ctx) compositor;
          compositor = SetGlobalResources (ctx_geometryBuffer ctx) compositor in
      case ProcessLightVolumeBatches world compositor batches of
        Inl e \<Rightarrow> Inl e
      | Inr compositor \<Rightarrow> FlushDrawCommands world compositor)"

subsection \<open>Observing the queue\<close>

text \<open>
  The draw operations of the queue: \<open>DrawIndexed\<close> and \<open>Draw\<close> are the direct draws,
  \<open>DrawIndexedInstanced\<close> is the instanced draw.
\<close>

fun isDirectDraw :: "DrawCommand \<Rightarrow> bool" where
  "isDirectDraw (DrawIndexed a b) = True"
| "isDirectDraw (Draw a b) = True"
| "isDirectDraw _ = False"

fun isInstancedDraw :: "DrawCommand \<Rightarrow> bool" where
  "isInstancedDraw (DrawIndexedInstanced a b s n) = True"
| "isInstancedDraw _ = False"

definition isDraw :: "DrawCommand \<Rightarrow> bool" where
  "isDraw cmd = (isDirectDraw cmd \<or> isInstancedDraw cmd)"

definition draws :: "DrawCommandQueue \<Rightarrow> DrawCommand list" where
  "draws q = filter isDraw q"

text \<open>
  The marks of a queue are its draw operations and its commits of the object group, in
  order: what is left of a queue when every state change is dropped.
\<close>

definition isObjectCommit :: "DrawCommand \<Rightarrow> bool" where
  "isObjectCommit cmd = (cmd = CommitShaderParameterGroup SP_OBJECT)"

definition marks :: "DrawCommandQueue \<Rightarrow> DrawCommand list" where
  "marks q = filter (\<lambda>cmd. isDraw cmd \<or> isObjectCommit cmd) q"

text \<open>
  \<open>countInstanced\<close> counts the instanced draws. \<open>batchesDrawn\<close> counts the batches that the
  draws of a queue cover: the instance count of an instanced draw, one for a direct draw.
\<close>

definition countInstanced :: "DrawCommandQueue \<Rightarrow> nat" where
  "countInstanced q = length (filter isInstancedDraw q)"

fun instancesOf :: "DrawCommand \<Rightarrow> nat" where
  "instancesOf (DrawIndexedInstanced a b s n) = unat n"
| "instancesOf (DrawIndexed a b) = 1"
| "instancesOf (Draw a b) = 1"
| "instancesOf _ = 0"

definition batchesDrawn :: "DrawCommandQueue \<Rightarrow> nat" where
  "batchesDrawn q = sum_list (map instancesOf q)"

text \<open>
  The draws the compositor issues: \<open>directDrawOf\<close> is the draw of \<^verbatim>\<open>DrawObject\<close> for
  a geometry, \<open>instancedDrawOf\<close> the draw of \<^verbatim>\<open>DrawObjectInstanced\<close> for a group, and
  \<open>flushDraws\<close> the draws of \<^verbatim>\<open>FlushDrawCommands\<close>: one instanced draw for an open group,
  none otherwise.
\<close>

definition directDrawOf :: "World \<Rightarrow> nat \<Rightarrow> DrawCommand" where
  "directDrawOf world g0 =
     (let g = geometryAt world g0 in
      if GetIndexBuffer g \<noteq> None then DrawIndexed (GetIndexStart g) (GetIndexCount g)
      else Draw (GetVertexStart g) (GetVertexCount g))"

definition instancedDrawOf :: "World \<Rightarrow> InstancingGroupState \<Rightarrow> DrawCommand" where
  "instancedDrawOf world ig =
     (let g = geometryAt world (the (InstancingGroupState.geometry ig)) in
      DrawIndexedInstanced (GetIndexStart g) (GetIndexCount g) (start ig) (count ig))"

definition flushDraws :: "World \<Rightarrow> InstancingGroupState \<Rightarrow> DrawCommand list" where
  "flushDraws world ig = (if count ig \<noteq> 0 then [instancedDrawOf world ig] else [])"

text \<open>
  The commands of one light volume batch. \<open>lightVolumeObjectConstants\<close> lists the object
  constants of the batch: the volume transform of its light as the model matrix (as the
  skin matrices or with the billboard rotation when the source batch of the helpers is
  built with one of those geometry types), and no ambient constant. \<open>lightVolumeSegment\<close>
  says that a segment of the queue is the commands of one batch: commands that are
  neither a draw nor a commit of the object group, then the object group with these
  constants between its begin and its commit, then the buffers if they changed, then the
  direct draw of the geometry of the batch.
\<close>

definition lightVolumeObjectConstants :: "World \<Rightarrow> PipelineBatch \<Rightarrow> DrawCommand list" where
  "lightVolumeObjectConstants world pb =
     (let volumeTransform = GetVolumeTransform (lights world (unat (lightIndex pb))) in
      case SourceBatch.geometryType (defaultSourceBatch world) of
        GEOM_SKINNED \<Rightarrow>
          [AddShaderParameter VSP_SKINMATRICES
             (MatrixSpan (take (unat (SourceBatch.numWorldTransforms (defaultSourceBatch world)))
                [volumeTransform]))]
      | GEOM_BILLBOARD \<Rightarrow>
          [AddShaderParameter VSP_MODEL (MatrixValue volumeTransform),
           (if SourceBatch.numWorldTransforms (defaultSourceBatch world) > 1
            then AddShaderParameter VSP_BILLBOARDROT
                   (MatrixValue (RotationMatrix world ([volumeTransform] ! 1)))
            else AddShaderParameter VSP_BILLBOARDROT
                   (MatrixValue (cameraNodeRotationMatrix world)))]
      | _ \<Rightarrow> [AddShaderParameter VSP_MODEL (MatrixValue volumeTransform)])"

definition lightVolumeSegment :: "World \<Rightarrow> PipelineBatch \<Rightarrow> DrawCommand list \<Rightarrow> bool" where
  "lightVolumeSegment world pb seg =
     (\<exists>pre setb.
        seg = pre @ [BeginShaderParameterGroup SP_OBJECT True]
              @ lightVolumeObjectConstants world pb
              @ [CommitShaderParameterGroup SP_OBJECT]
              @ setb @ [directDrawOf world (PipelineBatch.geometry pb)]
        \<and> marks pre = []
        \<and> (setb = [] \<or> setb = [SetBuffers (GetVertexBuffers (geometryAt world (PipelineBatch.geometry pb)))
                                   (GetIndexBuffer (geometryAt world (PipelineBatch.geometry pb))) None]))"

text \<open>
  Reading a result: whether the call returned, the draws of the queue it left, the queue
  itself, and the queue from its first object group on.
\<close>

definition succeeded :: "error + DrawCommandCompositor \<Rightarrow> bool" where
  "succeeded r = (case r of Inl e \<Rightarrow> False | Inr c \<Rightarrow> True)"

definition emittedDraws :: "error + DrawCommandCompositor \<Rightarrow> DrawCommand list" where
  "emittedDraws r = (case r of Inl e \<Rightarrow> [] | Inr c \<Rightarrow> draws (drawQueue c))"

definition emittedQueue :: "error + DrawCommandCompositor \<Rightarrow> DrawCommand list" where
  "emittedQueue r = (case r of Inl e \<Rightarrow> [] | Inr c \<Rightarrow> drawQueue c)"

definition fromObjectGroup :: "DrawCommand list \<Rightarrow> DrawCommand list" where
  "fromObjectGroup q = dropWhile (\<lambda>cmd. cmd \<noteq> BeginShaderParameterGroup SP_OBJECT True) q"

subsection \<open>The steps of a pass\<close>

text \<open>
  The three ways in which \<^verbatim>\<open>ProcessBatch\<close> treats a batch, named as in the state machine of
  the specification, and the way \<open>stepKind\<close> in which it treats a given batch in a given
  state: it continues the open run when \<^verbatim>\<open>resetInstancingGroup\<close> is false, and otherwise
  begins a run or draws the batch alone as \<^verbatim>\<open>beginInstancingGroup\<close> says.
\<close>

datatype StepKind = ContinueInstancing | FlushAndBeginInstancing | FlushAndDrawSingle

definition stepKind :: "World \<Rightarrow> DrawCommandCompositor \<Rightarrow> PipelineBatch \<Rightarrow> SourceBatch \<Rightarrow> StepKind" where
  "stepKind world c pb sb =
     (if \<not> resetInstancingGroup (UpdateDirtyFlags world c pb sb) then ContinueInstancing
      else if beginInstancingGroup world c pb then FlushAndBeginInstancing
      else FlushAndDrawSingle)"

text \<open>
  The batches of the open run, followed along a pass: a continued run gains the batch, a
  begun run consists of it, a single draw leaves no run. \<open>openRun world c run batches\<close> is
  the open run after \<open>batches\<close>, from the state \<open>c\<close> with the open run \<open>run\<close>;
  \<open>runsBegun\<close> counts the runs begun on the way.
\<close>

definition runAfter :: "PipelineBatch list \<Rightarrow> PipelineBatch \<Rightarrow> StepKind \<Rightarrow> PipelineBatch list" where
  "runAfter run pb k =
     (case k of ContinueInstancing \<Rightarrow> run @ [pb]
      | FlushAndBeginInstancing \<Rightarrow> [pb]
      | FlushAndDrawSingle \<Rightarrow> [])"

fun openRun ::
  "World \<Rightarrow> DrawCommandCompositor \<Rightarrow> PipelineBatch list \<Rightarrow> 'k SortedBatch list \<Rightarrow> PipelineBatch list" where
  "openRun world c run [] = run"
| "openRun world c run (b # rest) =
     (case ProcessSceneBatch world c (pipelineBatch b) of
        Inl e \<Rightarrow> run
      | Inr c' \<Rightarrow>
          openRun world c'
            (runAfter run (pipelineBatch b)
               (stepKind world c (pipelineBatch b) (GetSourceBatch (pipelineBatch b)))) rest)"

fun runsBegun :: "World \<Rightarrow> DrawCommandCompositor \<Rightarrow> 'k SortedBatch list \<Rightarrow> nat" where
  "runsBegun world c [] = 0"
| "runsBegun world c (b # rest) =
     (if stepKind world c (pipelineBatch b) (GetSourceBatch (pipelineBatch b)) = FlushAndBeginInstancing
      then 1 else 0)
     + (case ProcessSceneBatch world c (pipelineBatch b) of
          Inl e \<Rightarrow> 0
        | Inr c' \<Rightarrow> runsBegun world c' rest)"

subsection \<open>The draw count of the specification\<close>

text \<open>
  \<open>specDrawCount\<close> follows the words of the specification: the input is partitioned into
  contiguous runs by (state unchanged \<open>\<and>\<close> same geometry \<open>\<and>\<close> instancing-eligible), each
  run counts one draw, and each batch that is not eligible counts one draw. Its argument
  is the list of the three facts for each batch, and \<open>inRun\<close> says whether the batch before
  belongs to a run.

  \<open>inputFacts\<close> reads the three facts off the input alone, batch by batch, from the batch
  and the batch before it. The state of a batch is unchanged when it has the pipeline
  state and the material of the batch before it and, for each kind of lighting that the
  pass enables, its light index, its vertex lights and its lightmap scale and offset.
  Same geometry compares the geometry with that of the batch before. A batch is eligible
  when static instancing is enabled, its geometry type is \<open>GEOM_STATIC\<close> and its geometry
  has an index buffer. The first batch has no batch before it.
\<close>

definition instancingEligible :: "World \<Rightarrow> EnabledFeatureFlags \<Rightarrow> PipelineBatch \<Rightarrow> bool" where
  "instancingEligible world en pb =
     (staticInstancing en \<and> PipelineBatch.geometryType pb = GEOM_STATIC
      \<and> GetIndexBuffer (geometryAt world (PipelineBatch.geometry pb)) \<noteq> None)"

definition stateUnchanged ::
  "World \<Rightarrow> EnabledFeatureFlags \<Rightarrow> PipelineBatch \<Rightarrow> PipelineBatch \<Rightarrow> bool" where
  "stateUnchanged world en p b =
     (PipelineBatch.pipelineState p = PipelineBatch.pipelineState b
      \<and> PipelineBatch.material p = PipelineBatch.material b
      \<and> (pixelLighting en \<longrightarrow> lightIndex p = lightIndex b)
      \<and> (vertexLighting en \<longrightarrow>
           GetVertexLights (GetGeometryLighting world (drawableIndex p))
             = GetVertexLights (GetGeometryLighting world (drawableIndex b)))
      \<and> (ambientLighting en \<longrightarrow>
           SourceBatch.lightmapScaleOffset (GetSourceBatch p)
             = SourceBatch.lightmapScaleOffset (GetSourceBatch b)))"

definition inputFact ::
  "World \<Rightarrow> EnabledFeatureFlags \<Rightarrow> PipelineBatch option \<Rightarrow> PipelineBatch \<Rightarrow> bool \<times> bool \<times> bool" where
  "inputFact world en prev pb =
     ((case prev of None \<Rightarrow> False | Some p \<Rightarrow> stateUnchanged world en p pb),
      (case prev of None \<Rightarrow> False
       | Some p \<Rightarrow> PipelineBatch.geometry p = PipelineBatch.geometry pb),
      instancingEligible world en pb)"

fun inputFacts ::
  "World \<Rightarrow> EnabledFeatureFlags \<Rightarrow> PipelineBatch option \<Rightarrow> 'k SortedBatch list
   \<Rightarrow> (bool \<times> bool \<times> bool) list" where
  "inputFacts world en prev [] = []"
| "inputFacts world en prev (b # rest) =
     inputFact world en prev (pipelineBatch b)
     # inputFacts world en (Some (pipelineBatch b)) rest"

fun specDrawCount :: "bool \<Rightarrow> (bool \<times> bool \<times> bool) list \<Rightarrow> nat" where
  "specDrawCount inRun [] = 0"
| "specDrawCount inRun ((unchanged, sameGeometry, eligible) # rest) =
     (if eligible
      then (if inRun \<and> unchanged \<and> sameGeometry then 0 else 1) + specDrawCount True rest
      else 1 + specDrawCount False rest)"

text \<open>
  The batches and the queue of a pass without textures of its own. A batch binds no
  texture when, with pixel lighting enabled, its light has no ramp, shape or shadow map
  texture and, with ambient lighting enabled, it has no lightmap texture. The queue
  begins a shader parameter group whenever \<^verbatim>\<open>BeginShaderParameterGroup\<close> is called with
  \<open>differentFromPrevious\<close> true.
\<close>

definition bindsNoTexture :: "World \<Rightarrow> EnabledFeatureFlags \<Rightarrow> PipelineBatch \<Rightarrow> bool" where
  "bindsNoTexture world en pb =
     ((pixelLighting en \<and> lightIndex pb \<noteq> M_MAX_UNSIGNED (mathDefs world) \<longrightarrow>
         lightRamp (GetShaderParams (lights world (unat (lightIndex pb)))) = None
         \<and> lightShape (GetShaderParams (lights world (unat (lightIndex pb)))) = None
         \<and> shadowMap (GetShaderParams (lights world (unat (lightIndex pb)))) = None)
      \<and> (ambientLighting en \<and> SourceBatch.lightmapScaleOffset (GetSourceBatch pb) \<noteq> None \<longrightarrow>
           GetLightmapTexture world (lightmapIndex (GetSourceBatch pb)) = None))"

definition beginsWhenAsked :: "World \<Rightarrow> bool" where
  "beginsWhenAsked world = (\<forall>q g. beginReturns world q g True)"

text \<open>
  A sequence in which a batch that has the pipeline state and the geometry of the batch
  before it also has its geometry type.
\<close>

fun sameStateSameType :: "PipelineBatch option \<Rightarrow> 'k SortedBatch list \<Rightarrow> bool" where
  "sameStateSameType prev [] = True"
| "sameStateSameType prev (b # rest) =
     ((case prev of
         None \<Rightarrow> True
       | Some p \<Rightarrow>
           (PipelineBatch.pipelineState p = PipelineBatch.pipelineState (pipelineBatch b)
            \<and> PipelineBatch.geometry p = PipelineBatch.geometry (pipelineBatch b)
            \<longrightarrow> PipelineBatch.geometryType p = PipelineBatch.geometryType (pipelineBatch b)))
      \<and> sameStateSameType (Some (pipelineBatch b)) rest)"

subsection \<open>Definitions used in the proofs\<close>

text \<open>
  \<open>queueOnly c c'\<close>: \<open>c'\<close> is \<open>c\<close> with more commands in the queue, none of them a mark,
  and with other dirty flags. \<open>lightOnly c c'\<close>: \<open>c'\<close> differs from \<open>c\<close> in the dirty flags,
  the cache and the object state only, and not in the pipeline state and geometry of
  either.
\<close>

definition queueOnly :: "DrawCommandCompositor \<Rightarrow> DrawCommandCompositor \<Rightarrow> bool" where
  "queueOnly c c' = (\<exists>q d. c' = c\<lparr>drawQueue := drawQueue c @ q, dirty := d\<rparr> \<and> marks q = [])"

definition lightOnly :: "DrawCommandCompositor \<Rightarrow> DrawCommandCompositor \<Rightarrow> bool" where
  "lightOnly c c' =
     (c' = c\<lparr>dirty := dirty c', current := current c', object := object c'\<rparr>
      \<and> DirtyStateFlags.geometry (dirty c') = DirtyStateFlags.geometry (dirty c)
      \<and> DirtyStateFlags.pipelineState (dirty c') = DirtyStateFlags.pipelineState (dirty c)
      \<and> CachedSharedState.geometry (current c') = CachedSharedState.geometry (current c)
      \<and> CachedSharedState.pipelineState (current c') = CachedSharedState.pipelineState (current c))"

text \<open>
  The states of the reset branch of \<^verbatim>\<open>ProcessBatch\<close>: after the flush, after the two
  commits, and after the object group.
\<close>

definition flushed :: "World \<Rightarrow> DrawCommandCompositor \<Rightarrow> DrawCommandCompositor" where
  "flushed world c =
     (if count (instancingGroup c) = 0 then c
      else (let g = geometryAt world (the (InstancingGroupState.geometry (instancingGroup c))) in
            c\<lparr>drawQueue := drawQueue c @
                 [SetBuffers (GetVertexBuffers g) (GetIndexBuffer g)
                    (Some (GetVertexBuffer (instancingBuffer c))),
                  instancedDrawOf world (instancingGroup c)],
               instancingGroup := (instancingGroup c)\<lparr>count := 0\<rparr>\<rparr>))"

definition committed :: "World \<Rightarrow> DrawCommandCompositor \<Rightarrow> DrawCommandCompositor" where
  "committed world c = UpdateDirtyResources world (UpdateDirtyConstants world (flushed world c))"

definition objectGroup :: "World \<Rightarrow> DrawCommandCompositor \<Rightarrow> DrawCommandCompositor" where
  "objectGroup world c =
     enqueue (CommitShaderParameterGroup SP_OBJECT)
       (AddObjectConstants world (snd (drawQueue_BeginShaderParameterGroup world SP_OBJECT True c)))"

text \<open>
  The invariant of the open run, the pending draw of an open group, the count of one
  batch in \<open>specDrawCount\<close>, the three facts of one batch as \<^verbatim>\<open>ProcessBatch\<close> reads them
  (\<open>factOf\<close>: no flag dirty after the dirty checks, the geometry of the batch before, the
  test of \<^verbatim>\<open>beginInstancingGroup\<close>), the invariant that ties the cache to the batch
  before, and the marks of a light volume pass.
\<close>

definition runInv :: "DrawCommandCompositor \<Rightarrow> PipelineBatch list \<Rightarrow> bool" where
  "runInv c run =
     ((count (instancingGroup c) \<noteq> 0 \<longrightarrow>
         InstancingGroupState.geometry (instancingGroup c) = CachedSharedState.geometry (current c))
      \<and> (\<forall>b \<in> set run. Some (PipelineBatch.geometry b) = InstancingGroupState.geometry (instancingGroup c))
      \<and> count (instancingGroup c) = of_nat (length run))"

definition pending :: "DrawCommandCompositor \<Rightarrow> nat" where
  "pending c = (if count (instancingGroup c) \<noteq> 0 then 1 else 0)"

definition stepCount :: "bool \<Rightarrow> bool \<times> bool \<times> bool \<Rightarrow> nat" where
  "stepCount inRun f =
     (case f of (noDirtyState, sameGeometry, eligible) \<Rightarrow>
        if eligible then (if inRun \<and> noDirtyState \<and> sameGeometry then 0 else 1) else 1)"

definition factOf ::
  "World \<Rightarrow> DrawCommandCompositor \<Rightarrow> PipelineBatch option \<Rightarrow> PipelineBatch \<Rightarrow> SourceBatch
   \<Rightarrow> bool \<times> bool \<times> bool" where
  "factOf world c prev pb sb =
     (\<not> IsAnyStateDirty (dirty (UpdateDirtyFlags world c pb sb)),
      (case prev of None \<Rightarrow> False
       | Some p \<Rightarrow> PipelineBatch.geometry p = PipelineBatch.geometry pb),
      beginInstancingGroup world c pb)"

definition prevInv :: "World \<Rightarrow> DrawCommandCompositor \<Rightarrow> PipelineBatch option \<Rightarrow> bool" where
  "prevInv world c prev =
     ((count (instancingGroup c) \<noteq> 0 \<longrightarrow> (\<exists>p. prev = Some p \<and> beginInstancingGroup world c p))
      \<and> (\<forall>p. prev = Some p \<longrightarrow>
            CachedSharedState.geometry (current c) = Some (PipelineBatch.geometry p)
            \<and> CachedSharedState.pipelineState (current c) = Some (PipelineBatch.pipelineState p)))"

definition lightVolumeMarks :: "World \<Rightarrow> 'k SortedBatch list \<Rightarrow> DrawCommand list" where
  "lightVolumeMarks world bs =
     concat (map (\<lambda>b. [CommitShaderParameterGroup SP_OBJECT,
                        directDrawOf world (PipelineBatch.geometry (pipelineBatch b))]) bs)"

text \<open>
  A state with no texture cached and no texture flag set, in which the flag of a kind of
  lighting that is not enabled is clear (\<open>texturesClear\<close>), and such a state whose cache
  holds the values of the batch \<open>p\<close> with the frame and camera constants committed
  (\<open>cacheMatches\<close>). \<open>helperSourceKept\<close>: the source batch of the light volume helpers has
  the geometry type and the transform count it was built with.
\<close>

definition texturesClear :: "DrawCommandCompositor \<Rightarrow> bool" where
  "texturesClear c =
     (\<not> pixelLightTextures (dirty c) \<and> \<not> lightmapTextures (dirty c)
      \<and> pixelLightRamp (current c) = None \<and> pixelLightShape (current c) = None
      \<and> pixelLightShadowMap (current c) = None \<and> lightmapTexture (current c) = None
      \<and> (\<not> pixelLighting (enabled c) \<longrightarrow> \<not> pixelLightConstants (dirty c))
      \<and> (\<not> vertexLighting (enabled c) \<longrightarrow> \<not> vertexLightConstants (dirty c))
      \<and> (\<not> ambientLighting (enabled c) \<longrightarrow> \<not> lightmapConstants (dirty c)))"

definition cacheMatches :: "World \<Rightarrow> DrawCommandCompositor \<Rightarrow> PipelineBatch \<Rightarrow> bool" where
  "cacheMatches world c p =
     (texturesClear c
      \<and> \<not> frameConstants (dirty c) \<and> \<not> cameraConstants (dirty c)
      \<and> CachedSharedState.pipelineState (current c) = Some (PipelineBatch.pipelineState p)
      \<and> CachedSharedState.material (current c) = Some (PipelineBatch.material p)
      \<and> CachedSharedState.geometry (current c) = Some (PipelineBatch.geometry p)
      \<and> constantDepthBias (current c) = pipelineStateDepthBias world (PipelineBatch.pipelineState p)
      \<and> (pixelLighting (enabled c) \<longrightarrow> pixelLightIndex (current c) = lightIndex p)
      \<and> (vertexLighting (enabled c) \<longrightarrow>
           vertexLights (current c) = GetVertexLights (GetGeometryLighting world (drawableIndex p)))
      \<and> (ambientLighting (enabled c) \<longrightarrow>
           CachedSharedState.lightmapScaleOffset (current c)
             = SourceBatch.lightmapScaleOffset (GetSourceBatch p)))"

definition helperSourceKept :: "World \<Rightarrow> DrawCommandCompositor \<Rightarrow> bool" where
  "helperSourceKept world c =
     (SourceBatch.geometryType (sourceBatch (lightVolumeHelpers c))
        = SourceBatch.geometryType (defaultSourceBatch world)
      \<and> SourceBatch.numWorldTransforms (sourceBatch (lightVolumeHelpers c))
        = SourceBatch.numWorldTransforms (defaultSourceBatch world))"

text \<open>
  The parameters and the data of one slot of the vertex light loop.
\<close>

definition slotParams :: "World \<Rightarrow> 32 word list \<Rightarrow> nat \<Rightarrow> LightShaderParameters" where
  "slotParams world vl i =
     (if vl ! i \<noteq> M_MAX_UNSIGNED (mathDefs world)
      then GetShaderParams (lights world (unat (vl ! i)))
      else nullVertexLight world)"

definition slotData :: "World \<Rightarrow> 32 word list \<Rightarrow> bool \<Rightarrow> nat \<Rightarrow> Vector4 list \<Rightarrow> Vector4 list" where
  "slotData world vl g i d =
     d[i * 3 := Vector4_of (GetColor (slotParams world vl i) g) (invRange (slotParams world vl i)),
       i * 3 + 1 := Vector4_of (direction (slotParams world vl i)) (cutoff (slotParams world vl i)),
       i * 3 + 2 := Vector4_of (position (slotParams world vl i)) (invCutoff (slotParams world vl i))]"

subsection \<open>Example data\<close>

text \<open>
  A world with two kinds of geometry (geometry 2 has no index buffer), one material with
  a diffuse and an emissive texture, lights with a ramp texture, a lightmap texture for
  every index, and a queue whose \<^verbatim>\<open>BeginShaderParameterGroup\<close> returns its flag. The
  batches share pipeline state 1 and material 1.
\<close>

definition exampleGeometry :: "nat \<Rightarrow> Geometry" where
  "exampleGeometry g =
     \<lparr>GetVertexBuffers = [g], GetIndexBuffer = (if g = 2 then None else Some g),
      GetIndexStart = 0, GetIndexCount = 36, GetVertexStart = 0, GetVertexCount = 24\<rparr>"

definition exampleMaterial :: Material where
  "exampleMaterial =
     \<lparr>GetShaderParameters = [(1, FloatValue 1)],
      GetTextures = [(TU_OTHER 0, Some 5), (TU_EMISSIVE, Some 6)]\<rparr>"

definition exampleLight :: LightProcessor where
  "exampleLight =
     \<lparr>GetShaderParams = (nullLightShaderParameters 0 0 0)\<lparr>lightRamp := Some 7\<rparr>,
      GetVolumeTransform = []\<rparr>"

definition exampleSH :: SphericalHarmonicsDot9 where
  "exampleSH = \<lparr>Ar = Vector4_ZERO, Ag = Vector4_ZERO, Ab = Vector4_ZERO, Br = Vector4_ZERO,
     Bg = Vector4_ZERO, Bb = Vector4_ZERO, C = Vector4_ZERO, EvaluateAverage = Vector3_ZERO\<rparr>"

definition exampleSourceBatch :: "GeometryType \<Rightarrow> nat option \<Rightarrow> SourceBatch" where
  "exampleSourceBatch t lm =
     \<lparr>SourceBatch.geometryType = t, SourceBatch.worldTransform = [Nil],
      SourceBatch.numWorldTransforms = 1, SourceBatch.lightmapScaleOffset = lm, lightmapIndex = 0\<rparr>"

definition exampleWorld :: World where
  "exampleWorld =
     \<lparr>mathDefs = exampleMathDefs, URHO3D_OPENGL = False,
      pipelineStateDepthBias = (\<lambda>_. 0), geometryAt = exampleGeometry,
      materialAt = (\<lambda>_. exampleMaterial), vector4At = (\<lambda>_. Vector4_ZERO),
      lights = (\<lambda>_. exampleLight),
      GetGeometryLighting = (\<lambda>_. \<lparr>sphericalHarmonics = exampleSH,
         GetVertexLights = [- 1, - 1, - 1, - 1]\<rparr>),
      timeStep = 0, GetElapsedTime = 0, GetLightmapTexture = (\<lambda>_. Some 9),
      cameraNodeRotationMatrix = [], beginReturns = (\<lambda>q g d. d),
      nullLightInvRange = 0, nullLightCutoff = 0, nullLightInvCutoff = 0,
      defaultSourceBatch = exampleSourceBatch GEOM_STATIC None,
      Translation = (\<lambda>_. Vector3_ZERO), RotationMatrix = (\<lambda>m. m),
      ColorTimes = (\<lambda>c s. c), GammaToLinear = (\<lambda>c. c),
      LinearToGammaVector4 = (\<lambda>v. Vector4_of v 1)\<rparr>"

definition exampleBatch :: "nat \<Rightarrow> GeometryType \<Rightarrow> 32 word \<Rightarrow> nat option \<Rightarrow> unit SortedBatch" where
  "exampleBatch g t li lm =
     \<lparr>sortKey = (), pipelineBatch =
        \<lparr>PipelineBatch.pipelineState = 1, PipelineBatch.material = 1, PipelineBatch.geometry = g,
         drawableIndex = 0, lightIndex = li, PipelineBatch.geometryType = t,
         GetSourceBatch = exampleSourceBatch t lm\<rparr>\<rparr>"

definition staticBatch :: "unit SortedBatch" where
  "staticBatch = exampleBatch 1 GEOM_STATIC (- 1) None"

definition skinnedSameBatch :: "unit SortedBatch" where
  "skinnedSameBatch = exampleBatch 1 GEOM_SKINNED (- 1) None"

definition skinnedBatch :: "unit SortedBatch" where
  "skinnedBatch = exampleBatch 3 GEOM_SKINNED (- 1) None"

definition lightmappedBatch :: "unit SortedBatch" where
  "lightmappedBatch = exampleBatch 1 GEOM_STATIC (- 1) (Some 3)"

definition litBatch :: "unit SortedBatch" where
  "litBatch = exampleBatch 1 GEOM_STATIC 0 None"

definition exampleLightAccumulator :: "32 word list \<Rightarrow> LightAccumulator" where
  "exampleLightAccumulator vl = \<lparr>sphericalHarmonics = exampleSH, GetVertexLights = vl\<rparr>"

definition exampleSettings :: BatchRendererSettings where
  "exampleSettings = \<lparr>gammaCorrection = False, ambientMode = AmbientMode_Flat, vsmShadowParams = (0, 0)\<rparr>"

definition exampleInstancingBuffer :: InstancingBufferCompositor where
  "exampleInstancingBuffer = \<lparr>numInstances = 0, elements = [], GetVertexBuffer = 100\<rparr>"

definition exampleCompositor :: "BatchRenderFlags \<Rightarrow> DrawCommandCompositor" where
  "exampleCompositor flags =
     DrawCommandCompositor_new exampleWorld [] exampleSettings exampleInstancingBuffer
       (exampleCamera False 100 80) flags None"

definition exampleLightmappedState :: DrawCommandCompositor where
  "exampleLightmappedState =
     UpdateDirtyFlags exampleWorld (exampleCompositor {AmbientLight})
       (pipelineBatch lightmappedBatch) (GetSourceBatch (pipelineBatch lightmappedBatch))"

definition exampleOpenCompositor :: DrawCommandCompositor where
  "exampleOpenCompositor =
     (case ProcessSceneBatches exampleWorld (exampleCompositor {InstantiateStaticGeometry})
             [staticBatch, staticBatch] of
        Inl e \<Rightarrow> exampleCompositor {InstantiateStaticGeometry}
      | Inr c \<Rightarrow> c)"

text \<open>
  A world whose lights have a volume transform that scales by two, and a light volume
  context.
\<close>

definition exampleVolumeWorld :: World where
  "exampleVolumeWorld =
     exampleWorld\<lparr>lights := (\<lambda>_. exampleLight\<lparr>GetVolumeTransform := [2, 0, 0, 0, 0, 2, 0, 0, 0, 0, 2, 0]\<rparr>)\<rparr>"

definition exampleContext :: LightVolumeRenderContext where
  "exampleContext =
     \<lparr>ctx_geometryBufferOffsetAndScale = Vector4_ZERO, ctx_geometryBufferInvSize = (0, 0),
      ctx_geometryBuffer = []\<rparr>"

section \<open>Theorems\<close>

subsection \<open>Fog constant\<close>

text \<open>
  C4. For every camera, both the fog start and the fog end come from
  \<open>min (GetEffectiveFogStart, farClip)\<close>; a start at or above \<open>fogEnd * (1 - M_LARGE_EPSILON)\<close>
  is clamped to that value; the fog range is \<open>max (fogEnd - fogStart, M_EPSILON)\<close> and is
  strictly positive, \<open>M_EPSILON\<close> being a positive constant, so that \<open>farClip / fogRange\<close>
  never divides by zero; the result is \<open>{fogEnd / farClip, farClip / fogRange, 0, 0}\<close>.
\<close>

theorem GetFogParameter_range_positive:
  assumes "0 < M_EPSILON md"
  shows "(let farClip = GetFarClip cam;
              fogEnd = min (GetEffectiveFogStart cam) farClip;
              fogStart = (if fogEnd \<ge> fogEnd * (1 - M_LARGE_EPSILON md)
                          then fogEnd * (1 - M_LARGE_EPSILON md) else fogEnd);
              fogRange = max (fogEnd - fogStart) (M_EPSILON md) in
          0 < fogRange
          \<and> GetFogParameter md cam =
              \<lparr>x4 = fogEnd / farClip, y4 = farClip / fogRange, z4 = 0, w4 = 0\<rparr>)"
  using assms by (simp add: GetFogParameter_def Let_def less_max_iff_disj)

text \<open>
  The example of the specification: far clip 100 and effective fog start 80, so that
  start and end are both 80 before the clamp. The clamp moves the start to 79.996, the
  range is 0.004 and the constant is \<open>{0.8, 25000, 0, 0}\<close>.
\<close>

theorem GetFogParameter_range_positive_witness:
  "0 < M_EPSILON exampleMathDefs
   \<and> (0::real) < max (80 - 80 * (1 - 5 / 100000)) (1 / 1000000)
   \<and> GetFogParameter exampleMathDefs (exampleCamera False 100 80) =
       \<lparr>x4 = 8 / 10, y4 = 25000, z4 = 0, w4 = 0\<rparr>"
proof -
  have h: "0 < M_EPSILON exampleMathDefs"
    by (simp add: exampleMathDefs_def)
  show ?thesis
    using GetFogParameter_range_positive [OF h, of "exampleCamera False 100 80"]
    by (simp add: exampleMathDefs_def exampleCamera_def Let_def)
qed

subsection \<open>Depth-mode constant\<close>

text \<open>
  C5, as the code has it. For every camera the depth-mode constant of an orthographic
  camera has \<open>x = 1\<close> and \<open>y = 0\<close>, with \<open>z = 0.5, w = 0.5\<close> on the OpenGL backend and
  \<open>z = 1, w = 0\<close> on every other backend; the constant of a perspective camera is
  \<open>{0, 0, 0, 1 / farClip}\<close>. (At \<open>farClip = 0\<close> the quotient is HOL's \<open>1 / 0 = 0\<close>, where the
  float division gives an infinity: the last component is meant for a non-zero far clip.)
\<close>

theorem GetCameraDepthModeParameter_cases:
  "GetCameraDepthModeParameter opengl cam =
     (if IsOrthographic cam then
        (if opengl then \<lparr>x4 = 1, y4 = 0, z4 = 1 / 2, w4 = 1 / 2\<rparr>
         else \<lparr>x4 = 1, y4 = 0, z4 = 1, w4 = 0\<rparr>)
      else \<lparr>x4 = 0, y4 = 0, z4 = 0, w4 = 1 / GetFarClip cam\<rparr>)"
  by (simp add: GetCameraDepthModeParameter_def Vector4_ZERO_def Let_def)

text \<open>
  C5 as stated gives \<open>z = 0, w = 1\<close> to an orthographic camera off OpenGL. The code gives
  \<open>z = 1, w = 0\<close>.
\<close>

theorem GetCameraDepthModeParameter_counterexample:
  "IsOrthographic (exampleCamera True 100 80)
   \<and> \<not> (z4 (GetCameraDepthModeParameter False (exampleCamera True 100 80)) = 0
        \<and> w4 (GetCameraDepthModeParameter False (exampleCamera True 100 80)) = 1)
   \<and> z4 (GetCameraDepthModeParameter False (exampleCamera True 100 80)) = 1
   \<and> w4 (GetCameraDepthModeParameter False (exampleCamera True 100 80)) = 0"
  by (simp add: GetCameraDepthModeParameter_def Vector4_ZERO_def Let_def exampleCamera_def)

subsection \<open>Commands that leave no mark\<close>

lemma queueOnly_refl: "queueOnly c c"
  unfolding queueOnly_def by (rule exI [of _ "[]"], rule exI [of _ "dirty c"]) (simp add: marks_def)

lemma marks_append: "marks (xs @ ys) = marks xs @ marks ys"
  by (simp add: marks_def)

lemma marks_Nil: "marks [] = []"
  by (simp add: marks_def)

lemma marks_Cons: "marks (x # xs) = (if isDraw x \<or> isObjectCommit x then x # marks xs else marks xs)"
  by (simp add: marks_def)

lemma queueOnly_trans:
  assumes "queueOnly a b" and "queueOnly b c"
  shows "queueOnly a c"
proof -
  from assms(1) obtain q d where b: "b = a\<lparr>drawQueue := drawQueue a @ q, dirty := d\<rparr>" and q: "marks q = []"
    unfolding queueOnly_def by blast
  from assms(2) obtain q' d' where c: "c = b\<lparr>drawQueue := drawQueue b @ q', dirty := d'\<rparr>" and q': "marks q' = []"
    unfolding queueOnly_def by blast
  have "c = a\<lparr>drawQueue := drawQueue a @ (q @ q'), dirty := d'\<rparr>"
    by (simp add: b c)
  moreover have "marks (q @ q') = []"
    by (simp add: marks_append q q')
  ultimately show ?thesis
    unfolding queueOnly_def by blast
qed

lemma queueOnly_enqueue: "\<not> isDraw cmd \<Longrightarrow> \<not> isObjectCommit cmd \<Longrightarrow> queueOnly c (enqueue cmd c)"
  unfolding queueOnly_def enqueue_def
  by (rule exI [of _ "[cmd]"], rule exI [of _ "dirty c"]) (simp add: marks_def)

lemma queueOnly_enqueueAll: "marks cmds = [] \<Longrightarrow> queueOnly c (enqueueAll cmds c)"
  unfolding queueOnly_def enqueueAll_def
  by (rule exI [of _ "cmds"], rule exI [of _ "dirty c"]) simp

lemma queueOnly_dirty: "queueOnly c (c\<lparr>dirty := d\<rparr>)"
  unfolding queueOnly_def by (rule exI [of _ "[]"], rule exI [of _ d]) (simp add: marks_def)

lemma queueOnly_then_enqueue: "queueOnly a b \<Longrightarrow> \<not> isDraw cmd \<Longrightarrow> \<not> isObjectCommit cmd \<Longrightarrow> queueOnly a (enqueue cmd b)"
  by (rule queueOnly_trans [OF _ queueOnly_enqueue])

lemma queueOnly_then_enqueueAll: "queueOnly a b \<Longrightarrow> marks cmds = [] \<Longrightarrow> queueOnly a (enqueueAll cmds b)"
  by (rule queueOnly_trans [OF _ queueOnly_enqueueAll])

lemma queueOnly_then_dirty: "queueOnly a b \<Longrightarrow> queueOnly a (b\<lparr>dirty := d\<rparr>)"
  by (rule queueOnly_trans [OF _ queueOnly_dirty])

lemma queueOnly_Begin: "queueOnly c (snd (drawQueue_BeginShaderParameterGroup world g d c))"
  by (simp add: drawQueue_BeginShaderParameterGroup_def queueOnly_enqueue isDraw_def isObjectCommit_def)

lemma queueOnly_AddFrameConstants: "queueOnly c (AddFrameConstants world c)"
  by (simp add: AddFrameConstants_def queueOnly_enqueueAll marks_def isDraw_def isObjectCommit_def)

lemma queueOnly_AddCameraConstants: "queueOnly c (AddCameraConstants world b c)"
  by (simp add: AddCameraConstants_def Let_def queueOnly_enqueueAll marks_def isDraw_def isObjectCommit_def split: option.splits)

lemma queueOnly_AddVertexLightConstants: "queueOnly c (AddVertexLightConstants c)"
  by (simp add: AddVertexLightConstants_def queueOnly_enqueue isDraw_def isObjectCommit_def)

lemma queueOnly_AddPixelLightConstants: "queueOnly c (AddPixelLightConstants params c)"
  by (simp add: AddPixelLightConstants_def queueOnly_enqueueAll marks_def isDraw_def isObjectCommit_def)

lemma marks_SphericalHarmonicsConstants: "marks (SphericalHarmonicsConstants h) = []"
  by (simp add: SphericalHarmonicsConstants_def marks_def isDraw_def isObjectCommit_def)

lemma queueOnly_AddObjectConstants: "queueOnly c (AddObjectConstants world c)"
  unfolding AddObjectConstants_def
  by (rule queueOnly_enqueueAll)
     (simp add: ObjectConstants_def marks_append marks_Cons marks_Nil marks_SphericalHarmonicsConstants isDraw_def isObjectCommit_def
        split: GeometryType.splits)

lemmas qo_then = queueOnly_trans [OF _ queueOnly_Begin] queueOnly_trans [OF _ queueOnly_AddFrameConstants]
  queueOnly_trans [OF _ queueOnly_AddCameraConstants] queueOnly_trans [OF _ queueOnly_AddVertexLightConstants]
  queueOnly_trans [OF _ queueOnly_AddPixelLightConstants] queueOnly_trans [OF _ queueOnly_AddObjectConstants]
  queueOnly_then_enqueue queueOnly_then_enqueueAll queueOnly_then_dirty

lemma queueOnly_PipelineState: "queueOnly c (UpdateDirtyConstants_PipelineState c)"
  unfolding UpdateDirtyConstants_PipelineState_def Let_def
  by (auto intro!: qo_then queueOnly_refl simp: isDraw_def isObjectCommit_def)

lemma queueOnly_Frame: "queueOnly c (UpdateDirtyConstants_Frame world c)"
  unfolding UpdateDirtyConstants_Frame_def Let_def split_beta
  by (auto intro!: qo_then queueOnly_refl queueOnly_Begin simp: isDraw_def isObjectCommit_def)

lemma queueOnly_Camera: "queueOnly c (UpdateDirtyConstants_Camera world c)"
  unfolding UpdateDirtyConstants_Camera_def Let_def split_beta
  by (auto intro!: qo_then queueOnly_refl queueOnly_Begin simp: isDraw_def isObjectCommit_def)

lemma queueOnly_Light: "queueOnly c (UpdateDirtyConstants_Light world c)"
  unfolding UpdateDirtyConstants_Light_def Let_def split_beta
  by (auto intro!: qo_then queueOnly_refl queueOnly_Begin simp: isDraw_def isObjectCommit_def)

lemma marks_map_AddShaderParameter: "marks (map (\<lambda>p. AddShaderParameter (f p) (g p)) xs) = []"
  by (induction xs) (simp_all add: marks_def isDraw_def isObjectCommit_def)

lemma queueOnly_Material: "queueOnly c (UpdateDirtyConstants_Material world c)"
  unfolding UpdateDirtyConstants_Material_def Let_def split_beta
  by (auto intro!: qo_then queueOnly_refl queueOnly_Begin simp: isDraw_def isObjectCommit_def marks_map_AddShaderParameter)

lemma queueOnly_UpdateDirtyConstants: "queueOnly c (UpdateDirtyConstants world c)"
  unfolding UpdateDirtyConstants_def Let_def
  by (intro queueOnly_trans [OF _ queueOnly_Material] queueOnly_trans [OF _ queueOnly_Light]
      queueOnly_trans [OF _ queueOnly_Camera] queueOnly_trans [OF _ queueOnly_Frame] queueOnly_PipelineState)

lemma marks_map_AddShaderResource: "marks (map (\<lambda>p. AddShaderResource (f p) (g p)) xs) = []"
  by (induction xs) (simp_all add: marks_def isDraw_def isObjectCommit_def)

lemma marks_materialTextureResources: "marks (materialTextureResources lm xs) = []"
  by (induction xs) (simp_all add: marks_def isDraw_def isObjectCommit_def)

lemma queueOnly_UpdateDirtyResources: "queueOnly c (UpdateDirtyResources world c)"
  unfolding UpdateDirtyResources_def Let_def
  by (auto intro!: qo_then queueOnly_refl simp: isDraw_def isObjectCommit_def marks_map_AddShaderResource marks_materialTextureResources)

lemma queueOnly_proj:
  assumes "queueOnly c c'"
  shows "instancingGroup c' = instancingGroup c" and "enabled c' = enabled c"
    and "current c' = current c" and "instancingBuffer c' = instancingBuffer c"
    and "object c' = object c" and "settings c' = settings c"
    and "marks (drawQueue c') = marks (drawQueue c)"
    and "\<exists>q. drawQueue c' = drawQueue c @ q"
  using assms unfolding queueOnly_def by (auto simp: marks_append)

subsection \<open>What the dirty checks change\<close>

lemma lightOnly_refl: "lightOnly c c"
  by (simp add: lightOnly_def)

lemma lightOnly_trans:
  assumes ab: "lightOnly a b" and bc: "lightOnly b c"
  shows "lightOnly a c"
proof -
  have b: "b = a\<lparr>dirty := dirty b, current := current b, object := object b\<rparr>"
    using ab by (simp add: lightOnly_def)
  have c: "c = b\<lparr>dirty := dirty c, current := current c, object := object c\<rparr>"
    using bc by (simp add: lightOnly_def)
  have "b\<lparr>dirty := dirty c, current := current c, object := object c\<rparr>
      = a\<lparr>dirty := dirty c, current := current c, object := object c\<rparr>"
    using arg_cong [OF b, of "\<lambda>r. r\<lparr>dirty := dirty c, current := current c, object := object c\<rparr>"]
    by simp
  with c have "c = a\<lparr>dirty := dirty c, current := current c, object := object c\<rparr>"
    by simp
  then show ?thesis
    using ab bc by (simp add: lightOnly_def)
qed

lemma lightOnly_proj:
  assumes "lightOnly c c'"
  shows "instancingGroup c' = instancingGroup c" and "enabled c' = enabled c"
    and "drawQueue c' = drawQueue c" and "instancingBuffer c' = instancingBuffer c"
    and "settings c' = settings c"
    and "DirtyStateFlags.geometry (dirty c') = DirtyStateFlags.geometry (dirty c)"
    and "DirtyStateFlags.pipelineState (dirty c') = DirtyStateFlags.pipelineState (dirty c)"
    and "CachedSharedState.geometry (current c') = CachedSharedState.geometry (current c)"
    and "CachedSharedState.pipelineState (current c') = CachedSharedState.pipelineState (current c)"
proof -
  have e: "c' = c\<lparr>dirty := dirty c', current := current c', object := object c'\<rparr>"
    using assms by (simp add: lightOnly_def)
  show "instancingGroup c' = instancingGroup c"
    using arg_cong [OF e, of instancingGroup] by simp
  show "enabled c' = enabled c"
    using arg_cong [OF e, of enabled] by simp
  show "drawQueue c' = drawQueue c"
    using arg_cong [OF e, of drawQueue] by simp
  show "instancingBuffer c' = instancingBuffer c"
    using arg_cong [OF e, of instancingBuffer] by simp
  show "settings c' = settings c"
    using arg_cong [OF e, of settings] by simp
  show "DirtyStateFlags.geometry (dirty c') = DirtyStateFlags.geometry (dirty c)"
    and "DirtyStateFlags.pipelineState (dirty c') = DirtyStateFlags.pipelineState (dirty c)"
    and "CachedSharedState.geometry (current c') = CachedSharedState.geometry (current c)"
    and "CachedSharedState.pipelineState (current c') = CachedSharedState.pipelineState (current c)"
    using assms by (simp_all add: lightOnly_def)
qed

lemma lightOnly_Extract: "lightOnly c (ExtractObjectConstants world c sb la)"
  by (simp add: lightOnly_def ExtractObjectConstants_def Let_def)

lemma lightOnly_PixelLight: "lightOnly c (CheckDirtyPixelLight world c pb)"
  by (simp add: lightOnly_def CheckDirtyPixelLight_def Let_def)

lemma lightOnly_slot: "lightOnly c (vertexLightSlot world i c)"
  by (simp add: lightOnly_def vertexLightSlot_def Let_def)

lemma lightOnly_fold_slot: "lightOnly c (fold (vertexLightSlot world) xs c)"
proof (induction xs arbitrary: c)
  case Nil
  show ?case by (simp add: lightOnly_refl)
next
  case (Cons x xs)
  show ?case
    using lightOnly_trans [OF lightOnly_slot Cons.IH] by simp
qed

lemma lightOnly_VertexLight: "lightOnly c (CheckDirtyVertexLight world c la)"
proof (cases "vertexLights (current c) = GetVertexLights la")
  case True
  then show ?thesis
    by (simp add: lightOnly_def CheckDirtyVertexLight_def Let_def)
next
  case False
  let ?c2 = "c\<lparr>current := (current c)\<lparr>vertexLights := GetVertexLights la\<rparr>,
                dirty := (dirty c)\<lparr>vertexLightConstants := True\<rparr>\<rparr>"
  have a: "lightOnly c ?c2"
    by (simp add: lightOnly_def)
  have "CheckDirtyVertexLight world c la =
      fold (vertexLightSlot world) [0 ..< MAX_VERTEX_LIGHTS (mathDefs world)] ?c2"
    using False by (simp add: CheckDirtyVertexLight_def Let_def)
  then show ?thesis
    using lightOnly_trans [OF a lightOnly_fold_slot] by simp
qed

lemma lightOnly_Lightmap: "lightOnly c (CheckDirtyLightmap world c sb)"
  by (simp add: lightOnly_def CheckDirtyLightmap_def Let_def)

lemma CommonState_proj:
  "instancingGroup (CheckDirtyCommonState world c pb) = instancingGroup c"
  "enabled (CheckDirtyCommonState world c pb) = enabled c"
  "drawQueue (CheckDirtyCommonState world c pb) = drawQueue c"
  "instancingBuffer (CheckDirtyCommonState world c pb) = instancingBuffer c"
  "settings (CheckDirtyCommonState world c pb) = settings c"
  "DirtyStateFlags.geometry (dirty (CheckDirtyCommonState world c pb)) =
     (CachedSharedState.geometry (current c) \<noteq> Some (PipelineBatch.geometry pb))"
  "DirtyStateFlags.pipelineState (dirty (CheckDirtyCommonState world c pb)) =
     (CachedSharedState.pipelineState (current c) \<noteq> Some (PipelineBatch.pipelineState pb))"
  "CachedSharedState.geometry (current (CheckDirtyCommonState world c pb)) = Some (PipelineBatch.geometry pb)"
  "CachedSharedState.pipelineState (current (CheckDirtyCommonState world c pb)) = Some (PipelineBatch.pipelineState pb)"
  by (simp_all add: CheckDirtyCommonState_def Let_def)

lemma UpdateDirtyFlags_proj:
  "instancingGroup (UpdateDirtyFlags world c pb sb) = instancingGroup c"
  "enabled (UpdateDirtyFlags world c pb sb) = enabled c"
  "drawQueue (UpdateDirtyFlags world c pb sb) = drawQueue c"
  "instancingBuffer (UpdateDirtyFlags world c pb sb) = instancingBuffer c"
  "settings (UpdateDirtyFlags world c pb sb) = settings c"
  "DirtyStateFlags.geometry (dirty (UpdateDirtyFlags world c pb sb)) =
     (CachedSharedState.geometry (current c) \<noteq> Some (PipelineBatch.geometry pb))"
  "DirtyStateFlags.pipelineState (dirty (UpdateDirtyFlags world c pb sb)) =
     (CachedSharedState.pipelineState (current c) \<noteq> Some (PipelineBatch.pipelineState pb))"
  "CachedSharedState.geometry (current (UpdateDirtyFlags world c pb sb)) = Some (PipelineBatch.geometry pb)"
  "CachedSharedState.pipelineState (current (UpdateDirtyFlags world c pb sb)) = Some (PipelineBatch.pipelineState pb)"
  unfolding UpdateDirtyFlags_def Let_def
  by (simp_all add: CommonState_proj lightOnly_proj [OF lightOnly_Extract] lightOnly_proj [OF lightOnly_PixelLight]
      lightOnly_proj [OF lightOnly_VertexLight] lightOnly_proj [OF lightOnly_Lightmap])

subsection \<open>One batch\<close>

lemma FlushDrawCommands_flushed: "FlushDrawCommands world c = Inr (flushed world c)"
  by (simp add: FlushDrawCommands_def DrawObjectInstanced_def flushed_def instancedDrawOf_def
      Let_def enqueue_def word_greater_zero_iff)

lemma marks_flushDraws: "marks (flushDraws world ig) = flushDraws world ig"
  by (simp add: flushDraws_def instancedDrawOf_def Let_def marks_Cons marks_Nil isDraw_def isObjectCommit_def)

lemma flushed_proj:
  "enabled (flushed world c) = enabled c"
  "settings (flushed world c) = settings c"
  "current (flushed world c) = current c"
  "object (flushed world c) = object c"
  "instancingBuffer (flushed world c) = instancingBuffer c"
  "instancingGroup (flushed world c) = (instancingGroup c)\<lparr>count := 0\<rparr>"
  "marks (drawQueue (flushed world c)) = marks (drawQueue c) @ flushDraws world (instancingGroup c)"
  by (simp_all add: flushed_def flushDraws_def Let_def marks_append marks_Cons marks_Nil isDraw_def isObjectCommit_def
      instancedDrawOf_def)

lemma AddObjectInstanceData_proj:
  "enabled (AddObjectInstanceData c) = enabled c"
  "settings (AddObjectInstanceData c) = settings c"
  "current (AddObjectInstanceData c) = current c"
  "instancingGroup (AddObjectInstanceData c) = instancingGroup c"
  "drawQueue (AddObjectInstanceData c) = drawQueue c"
  "numInstances (instancingBuffer (AddObjectInstanceData c)) = numInstances (instancingBuffer c)"
  by (simp_all add: AddObjectInstanceData_def Let_def SetElements_def)

lemma DrawObject_proj:
  "enabled (DrawObject world c) = enabled c"
  "settings (DrawObject world c) = settings c"
  "current (DrawObject world c) = current c"
  "instancingGroup (DrawObject world c) = instancingGroup c"
  "instancingBuffer (DrawObject world c) = instancingBuffer c"
  by (simp_all add: DrawObject_def Let_def enqueue_def)

lemma DrawObject_queue:
  "CachedSharedState.geometry (current c) = Some g0 \<Longrightarrow>
   drawQueue (DrawObject world c) =
     drawQueue c
     @ (if DirtyStateFlags.geometry (dirty c)
        then [SetBuffers (GetVertexBuffers (geometryAt world g0)) (GetIndexBuffer (geometryAt world g0)) None]
        else [])
     @ [directDrawOf world g0]"
  by (simp add: DrawObject_def Let_def enqueue_def directDrawOf_def)

lemma marks_directDrawOf: "marks [directDrawOf world g0] = [directDrawOf world g0]"
  by (simp add: directDrawOf_def Let_def marks_Cons marks_Nil isDraw_def isObjectCommit_def)

lemma isDraw_directDrawOf: "isDraw (directDrawOf world g0)"
  by (simp add: directDrawOf_def Let_def isDraw_def isObjectCommit_def)

lemma DrawObject_marks:
  "CachedSharedState.geometry (current c) = Some g0 \<Longrightarrow>
   marks (drawQueue (DrawObject world c)) = marks (drawQueue c) @ [directDrawOf world g0]"
  by (simp add: DrawObject_queue marks_append marks_Cons marks_Nil isDraw_directDrawOf)
     (simp add: isDraw_def isObjectCommit_def)

lemma queueOnly_committed: "queueOnly (flushed world c) (committed world c)"
  unfolding committed_def
  by (rule queueOnly_trans [OF queueOnly_UpdateDirtyConstants queueOnly_UpdateDirtyResources])

lemma committed_proj:
  "enabled (committed world c) = enabled c"
  "settings (committed world c) = settings c"
  "current (committed world c) = current c"
  "object (committed world c) = object c"
  "instancingBuffer (committed world c) = instancingBuffer c"
  "instancingGroup (committed world c) = (instancingGroup c)\<lparr>count := 0\<rparr>"
  "marks (drawQueue (committed world c)) = marks (drawQueue c) @ flushDraws world (instancingGroup c)"
  by (simp_all add: queueOnly_proj [OF queueOnly_committed] flushed_proj)

lemma beginInstancingGroup_enabled:
  "enabled c' = enabled c \<Longrightarrow> beginInstancingGroup world c' pb = beginInstancingGroup world c pb"
  by (simp add: beginInstancingGroup_def)

lemma ProcessBatch_continue:
  assumes "\<not> resetInstancingGroup (UpdateDirtyFlags world c pb sb)"
  shows "ProcessBatch world c pb sb =
    Inr (AddObjectInstanceData
      ((UpdateDirtyFlags world c pb sb)
         \<lparr>instancingGroup := (instancingGroup c)\<lparr>count := count (instancingGroup c) + 1\<rparr>,
          instancingBuffer := snd (AddInstance (instancingBuffer c))\<rparr>))"
  using assms by (simp add: ProcessBatch_def Let_def UpdateDirtyFlags_proj)

lemma ProcessBatch_begin:
  assumes "resetInstancingGroup (UpdateDirtyFlags world c pb sb)"
    and "beginInstancingGroup world c pb"
  shows "ProcessBatch world c pb sb =
    Inr (AddObjectInstanceData
      ((committed world (UpdateDirtyFlags world c pb sb))
         \<lparr>instancingBuffer := snd (AddInstance (instancingBuffer c)),
          instancingGroup :=
            (instancingGroup c)\<lparr>count := 1, start := numInstances (instancingBuffer c),
              InstancingGroupState.geometry := Some (PipelineBatch.geometry pb)\<rparr>\<rparr>))"
proof -
  let ?c1 = "UpdateDirtyFlags world c pb sb"
  have b: "beginInstancingGroup world (committed world ?c1) pb"
    using assms(2) by (simp add: beginInstancingGroup_def committed_proj UpdateDirtyFlags_proj)
  show ?thesis
    using assms(1) b
    by (simp add: ProcessBatch_def Let_def FlushDrawCommands_flushed committed_def [symmetric]
        committed_proj UpdateDirtyFlags_proj AddInstance_def)
qed

lemma ProcessBatch_single:
  assumes "resetInstancingGroup (UpdateDirtyFlags world c pb sb)"
    and "\<not> beginInstancingGroup world c pb"
  shows "ProcessBatch world c pb sb =
    Inr (DrawObject world
      (enqueue (CommitShaderParameterGroup SP_OBJECT)
        (AddObjectConstants world
          (snd (drawQueue_BeginShaderParameterGroup world SP_OBJECT True
             (committed world (UpdateDirtyFlags world c pb sb)))))))"
proof -
  let ?c1 = "UpdateDirtyFlags world c pb sb"
  have b: "\<not> beginInstancingGroup world (committed world ?c1) pb"
    using assms(2) by (simp add: beginInstancingGroup_def committed_proj UpdateDirtyFlags_proj)
  show ?thesis
    using assms(1) b
    by (simp add: ProcessBatch_def Let_def FlushDrawCommands_flushed committed_def [symmetric])
qed

lemma marks_ObjectConstants: "marks (ObjectConstants world c) = []"
  by (simp add: ObjectConstants_def marks_append marks_Cons marks_Nil marks_SphericalHarmonicsConstants
      isDraw_def isObjectCommit_def split: GeometryType.splits)

lemma ObjectConstants_cong:
  assumes "enabled x = enabled y" and "settings x = settings y" and "object x = object y"
  shows "ObjectConstants world x = ObjectConstants world y"
  unfolding ObjectConstants_def assms by (rule refl)

lemma objectGroup_proj:
  "enabled (objectGroup world c) = enabled c"
  "settings (objectGroup world c) = settings c"
  "current (objectGroup world c) = current c"
  "dirty (objectGroup world c) = dirty c"
  "instancingGroup (objectGroup world c) = instancingGroup c"
  "instancingBuffer (objectGroup world c) = instancingBuffer c"
  by (simp_all add: objectGroup_def enqueue_def enqueueAll_def AddObjectConstants_def
      drawQueue_BeginShaderParameterGroup_def)

lemma objectGroup_queue:
  "drawQueue (objectGroup world c) =
     drawQueue c @ [BeginShaderParameterGroup SP_OBJECT True] @ ObjectConstants world c
     @ [CommitShaderParameterGroup SP_OBJECT]"
proof -
  have "ObjectConstants world (snd (drawQueue_BeginShaderParameterGroup world SP_OBJECT True c))
      = ObjectConstants world c"
    by (rule ObjectConstants_cong)
       (simp_all add: drawQueue_BeginShaderParameterGroup_def enqueue_def)
  then show ?thesis
    by (simp add: objectGroup_def enqueue_def enqueueAll_def AddObjectConstants_def
        drawQueue_BeginShaderParameterGroup_def)
qed


text \<open>
  The three cases of \<^verbatim>\<open>ProcessBatch\<close> in one statement: it returns, and the group, the
  instancing buffer and the marks of the queue change as the case says.
\<close>

lemma ProcessBatch_step:
  "\<exists>c'. ProcessBatch world c pb sb = Inr c'
     \<and> enabled c' = enabled c \<and> settings c' = settings c
     \<and> current c' = current (UpdateDirtyFlags world c pb sb)
     \<and> (if \<not> resetInstancingGroup (UpdateDirtyFlags world c pb sb) then
           instancingGroup c' = (instancingGroup c)\<lparr>count := count (instancingGroup c) + 1\<rparr>
           \<and> drawQueue c' = drawQueue c
           \<and> numInstances (instancingBuffer c') = numInstances (instancingBuffer c) + 1
         else if beginInstancingGroup world c pb then
           InstancingGroupState.geometry (instancingGroup c') = Some (PipelineBatch.geometry pb)
           \<and> start (instancingGroup c') = numInstances (instancingBuffer c)
           \<and> count (instancingGroup c') = 1
           \<and> marks (drawQueue c') = marks (drawQueue c) @ flushDraws world (instancingGroup c)
           \<and> numInstances (instancingBuffer c') = numInstances (instancingBuffer c) + 1
         else
           instancingGroup c' = (instancingGroup c)\<lparr>count := 0\<rparr>
           \<and> instancingBuffer c' = instancingBuffer c
           \<and> marks (drawQueue c') =
               marks (drawQueue c) @ flushDraws world (instancingGroup c)
               @ [CommitShaderParameterGroup SP_OBJECT, directDrawOf world (PipelineBatch.geometry pb)])"
proof (cases "resetInstancingGroup (UpdateDirtyFlags world c pb sb)")
  case False
  show ?thesis
    using False
    by (simp add: ProcessBatch_continue AddObjectInstanceData_proj UpdateDirtyFlags_proj AddInstance_def)
next
  case True
  show ?thesis
  proof (cases "beginInstancingGroup world c pb")
    case b: True
    show ?thesis
      using True b
      by (simp add: ProcessBatch_begin AddObjectInstanceData_proj committed_proj UpdateDirtyFlags_proj
          AddInstance_def)
  next
    case b: False
    let ?c3 = "committed world (UpdateDirtyFlags world c pb sb)"
    let ?c4 = "objectGroup world ?c3"
    have g: "CachedSharedState.geometry (current ?c4) = Some (PipelineBatch.geometry pb)"
      by (simp add: objectGroup_proj committed_proj UpdateDirtyFlags_proj)
    have e: "ProcessBatch world c pb sb = Inr (DrawObject world ?c4)"
      using ProcessBatch_single [OF True b] by (simp add: objectGroup_def)
    have m: "marks (drawQueue ?c4) = marks (drawQueue c) @ flushDraws world (instancingGroup c)
        @ [CommitShaderParameterGroup SP_OBJECT]"
      by (simp add: objectGroup_proj objectGroup_queue marks_append marks_ObjectConstants committed_proj
          UpdateDirtyFlags_proj marks_Cons marks_Nil isDraw_def isObjectCommit_def)
    show ?thesis
      using True b
      by (simp add: e DrawObject_proj DrawObject_marks [OF g] m
          objectGroup_proj committed_proj UpdateDirtyFlags_proj)
  qed
qed

lemma ProcessBatch_cases [case_names Continue Begin Single]:
  obtains
    (Continue) c' where "\<not> resetInstancingGroup (UpdateDirtyFlags world c pb sb)"
      and "ProcessBatch world c pb sb = Inr c'"
      and "enabled c' = enabled c" and "settings c' = settings c"
      and "current c' = current (UpdateDirtyFlags world c pb sb)"
      and "instancingGroup c' = (instancingGroup c)\<lparr>count := count (instancingGroup c) + 1\<rparr>"
      and "drawQueue c' = drawQueue c"
      and "numInstances (instancingBuffer c') = numInstances (instancingBuffer c) + 1"
  | (Begin) c' where "resetInstancingGroup (UpdateDirtyFlags world c pb sb)"
      and "beginInstancingGroup world c pb"
      and "ProcessBatch world c pb sb = Inr c'"
      and "enabled c' = enabled c" and "settings c' = settings c"
      and "current c' = current (UpdateDirtyFlags world c pb sb)"
      and "InstancingGroupState.geometry (instancingGroup c') = Some (PipelineBatch.geometry pb)"
      and "start (instancingGroup c') = numInstances (instancingBuffer c)"
      and "count (instancingGroup c') = 1"
      and "marks (drawQueue c') = marks (drawQueue c) @ flushDraws world (instancingGroup c)"
      and "numInstances (instancingBuffer c') = numInstances (instancingBuffer c) + 1"
  | (Single) c' where "resetInstancingGroup (UpdateDirtyFlags world c pb sb)"
      and "\<not> beginInstancingGroup world c pb"
      and "ProcessBatch world c pb sb = Inr c'"
      and "enabled c' = enabled c" and "settings c' = settings c"
      and "current c' = current (UpdateDirtyFlags world c pb sb)"
      and "instancingGroup c' = (instancingGroup c)\<lparr>count := 0\<rparr>"
      and "instancingBuffer c' = instancingBuffer c"
      and "marks (drawQueue c') =
               marks (drawQueue c) @ flushDraws world (instancingGroup c)
               @ [CommitShaderParameterGroup SP_OBJECT, directDrawOf world (PipelineBatch.geometry pb)]"
  using ProcessBatch_step [of world c pb sb]
  by (cases "resetInstancingGroup (UpdateDirtyFlags world c pb sb)";
      cases "beginInstancingGroup world c pb") auto

lemma not_reset:
  assumes "\<not> resetInstancingGroup (UpdateDirtyFlags world c pb sb)"
  shows "count (instancingGroup c) \<noteq> 0"
    and "CachedSharedState.geometry (current c) = Some (PipelineBatch.geometry pb)"
    and "CachedSharedState.pipelineState (current c) = Some (PipelineBatch.pipelineState pb)"
    and "\<not> IsAnyStateDirty (dirty (UpdateDirtyFlags world c pb sb))"
proof -
  have n: "\<not> IsAnyStateDirty (dirty (UpdateDirtyFlags world c pb sb))"
    and z: "count (instancingGroup c) \<noteq> 0"
    using assms by (simp_all add: resetInstancingGroup_def UpdateDirtyFlags_proj)
  show "count (instancingGroup c) \<noteq> 0" by (rule z)
  show "\<not> IsAnyStateDirty (dirty (UpdateDirtyFlags world c pb sb))" by (rule n)
  have "\<not> DirtyStateFlags.geometry (dirty (UpdateDirtyFlags world c pb sb))"
    and "\<not> DirtyStateFlags.pipelineState (dirty (UpdateDirtyFlags world c pb sb))"
    using n by (simp_all add: IsAnyStateDirty_def)
  then show "CachedSharedState.geometry (current c) = Some (PipelineBatch.geometry pb)"
    and "CachedSharedState.pipelineState (current c) = Some (PipelineBatch.pipelineState pb)"
    by (simp_all add: UpdateDirtyFlags_proj)
qed

subsection \<open>Batches covered by the draws\<close>

lemma batchesDrawn_marks: "batchesDrawn (marks q) = batchesDrawn q"
proof (induction q)
  case Nil
  show ?case by (simp add: marks_def)
next
  case (Cons x q)
  then show ?case
    by (cases x) (simp_all add: marks_def batchesDrawn_def isDraw_def isObjectCommit_def)
qed

lemma batchesDrawn_append: "batchesDrawn (xs @ ys) = batchesDrawn xs + batchesDrawn ys"
  by (simp add: batchesDrawn_def)

lemma batchesDrawn_flushDraws: "batchesDrawn (flushDraws world ig) = unat (count ig)"
  by (simp add: flushDraws_def instancedDrawOf_def batchesDrawn_def Let_def)

lemma batchesDrawn_single:
  "batchesDrawn [CommitShaderParameterGroup SP_OBJECT, directDrawOf world g] = 1"
  by (simp add: directDrawOf_def batchesDrawn_def Let_def)

lemma unat_plus_one: "unat (w :: 32 word) + 1 < 2 ^ 32 \<Longrightarrow> unat (w + 1) = unat w + 1"
  using unat_add_lem [of w 1] by simp

lemma ProcessBatch_drawn:
  assumes "unat (count (instancingGroup c)) + 1 < 2 ^ 32"
  shows "\<exists>c'. ProcessBatch world c pb sb = Inr c'
     \<and> batchesDrawn (drawQueue c') + unat (count (instancingGroup c'))
         = batchesDrawn (drawQueue c) + unat (count (instancingGroup c)) + 1
     \<and> unat (count (instancingGroup c')) \<le> unat (count (instancingGroup c)) + 1"
proof (cases rule: ProcessBatch_cases [of world c pb sb])
  case (Continue c')
  then show ?thesis
    using unat_plus_one [OF assms] by simp
next
  case (Begin c')
  have "batchesDrawn (drawQueue c') = batchesDrawn (marks (drawQueue c'))"
    by (simp add: batchesDrawn_marks)
  also have "\<dots> = batchesDrawn (marks (drawQueue c) @ flushDraws world (instancingGroup c))"
    by (simp only: Begin)
  also have "\<dots> = batchesDrawn (drawQueue c) + unat (count (instancingGroup c))"
    by (simp add: batchesDrawn_append batchesDrawn_flushDraws batchesDrawn_marks)
  finally show ?thesis
    using Begin(3,9) by simp
next
  case (Single c')
  have "batchesDrawn (drawQueue c') = batchesDrawn (marks (drawQueue c'))"
    by (simp add: batchesDrawn_marks)
  also have "\<dots> = batchesDrawn (marks (drawQueue c) @ flushDraws world (instancingGroup c)
      @ [CommitShaderParameterGroup SP_OBJECT, directDrawOf world (PipelineBatch.geometry pb)])"
    by (simp only: Single)
  also have "\<dots> = batchesDrawn (drawQueue c) + unat (count (instancingGroup c)) + 1"
    by (simp only: batchesDrawn_append batchesDrawn_flushDraws batchesDrawn_marks
        batchesDrawn_single)
  finally show ?thesis
    using Single(3,7) by simp
qed

lemma ProcessSceneBatches_drawn:
  assumes "unat (count (instancingGroup c)) + length bs < 2 ^ 32"
  shows "\<exists>c'. ProcessSceneBatches world c bs = Inr c'
     \<and> batchesDrawn (drawQueue c') + unat (count (instancingGroup c'))
         = batchesDrawn (drawQueue c) + unat (count (instancingGroup c)) + length bs"
  using assms
proof (induction bs arbitrary: c)
  case Nil
  show ?case by simp
next
  case (Cons b bs)
  have "unat (count (instancingGroup c)) + 1 < 2 ^ 32"
    using Cons.prems by simp
  from ProcessBatch_drawn [OF this, of world "pipelineBatch b" "GetSourceBatch (pipelineBatch b)"]
  obtain c1 where c1: "ProcessBatch world c (pipelineBatch b) (GetSourceBatch (pipelineBatch b)) = Inr c1"
    and d1: "batchesDrawn (drawQueue c1) + unat (count (instancingGroup c1))
         = batchesDrawn (drawQueue c) + unat (count (instancingGroup c)) + 1"
    and b1: "unat (count (instancingGroup c1)) \<le> unat (count (instancingGroup c)) + 1"
    by blast
  have "unat (count (instancingGroup c1)) + length bs < 2 ^ 32"
    using Cons.prems b1 by simp
  from Cons.IH [OF this] obtain c' where c': "ProcessSceneBatches world c1 bs = Inr c'"
    and d': "batchesDrawn (drawQueue c') + unat (count (instancingGroup c'))
         = batchesDrawn (drawQueue c1) + unat (count (instancingGroup c1)) + length bs"
    by blast
  show ?case
    using c1 c' d1 d' by (simp add: ProcessSceneBatch_def)
qed

subsection \<open>The open run\<close>

lemma ProcessBatch_runInv:
  assumes "runInv c run"
  shows "\<exists>c'. ProcessBatch world c pb sb = Inr c'
     \<and> runInv c' (runAfter run pb (stepKind world c pb sb))"
proof (cases rule: ProcessBatch_cases [of world c pb sb])
  case (Continue c')
  note nr = not_reset [OF Continue(1)]
  have k: "stepKind world c pb sb = ContinueInstancing"
    using Continue(1) by (simp add: stepKind_def)
  have "runInv c' (run @ [pb])"
    using assms nr Continue by (auto simp: runInv_def UpdateDirtyFlags_proj)
  then show ?thesis
    using Continue(2) k by (simp add: runAfter_def)
next
  case (Begin c')
  have k: "stepKind world c pb sb = FlushAndBeginInstancing"
    using Begin(1,2) by (simp add: stepKind_def)
  have "runInv c' [pb]"
    using Begin by (simp add: runInv_def UpdateDirtyFlags_proj)
  then show ?thesis
    using Begin(3) k by (simp add: runAfter_def)
next
  case (Single c')
  have k: "stepKind world c pb sb = FlushAndDrawSingle"
    using Single(1,2) by (simp add: stepKind_def)
  have "runInv c' []"
    using Single by (simp add: runInv_def)
  then show ?thesis
    using Single(3) k by (simp add: runAfter_def)
qed

lemma ProcessSceneBatches_runInv:
  assumes "runInv c run"
  shows "\<exists>c'. ProcessSceneBatches world c bs = Inr c' \<and> runInv c' (openRun world c run bs)"
  using assms
proof (induction bs arbitrary: c run)
  case Nil
  then show ?case by simp
next
  case (Cons b bs)
  from ProcessBatch_runInv [OF Cons.prems, of world "pipelineBatch b" "GetSourceBatch (pipelineBatch b)"]
  obtain c1 where c1: "ProcessBatch world c (pipelineBatch b) (GetSourceBatch (pipelineBatch b)) = Inr c1"
    and i1: "runInv c1 (runAfter run (pipelineBatch b)
               (stepKind world c (pipelineBatch b) (GetSourceBatch (pipelineBatch b))))"
    by blast
  from Cons.IH [OF i1] show ?case
    using c1 by (simp add: ProcessSceneBatch_def)
qed

subsection \<open>Runs begun, flushed and pending\<close>

lemma countInstanced_marks: "countInstanced (marks q) = countInstanced q"
proof (induction q)
  case Nil
  show ?case by (simp add: marks_def)
next
  case (Cons x q)
  then show ?case
    by (cases x) (simp_all add: marks_def countInstanced_def isDraw_def isObjectCommit_def)
qed

lemma countInstanced_append: "countInstanced (xs @ ys) = countInstanced xs + countInstanced ys"
  by (simp add: countInstanced_def)

lemma countInstanced_flushDraws:
  "countInstanced (flushDraws world ig) = (if count ig \<noteq> 0 then 1 else 0)"
  by (simp add: flushDraws_def instancedDrawOf_def countInstanced_def Let_def)

lemma countInstanced_single:
  "countInstanced [CommitShaderParameterGroup SP_OBJECT, directDrawOf world g] = 0"
  by (simp add: directDrawOf_def countInstanced_def Let_def)

lemma ProcessBatch_begun:
  assumes "unat (count (instancingGroup c)) + 1 < 2 ^ 32"
  shows "\<exists>c'. ProcessBatch world c pb sb = Inr c'
     \<and> countInstanced (drawQueue c') + pending c'
         = countInstanced (drawQueue c) + pending c
           + (if stepKind world c pb sb = FlushAndBeginInstancing then 1 else 0)
     \<and> unat (count (instancingGroup c')) \<le> unat (count (instancingGroup c)) + 1"
proof (cases rule: ProcessBatch_cases [of world c pb sb])
  case (Continue c')
  note nr = not_reset [OF Continue(1)]
  have k: "stepKind world c pb sb = ContinueInstancing"
    using Continue(1) by (simp add: stepKind_def)
  have "count (instancingGroup c) + 1 \<noteq> 0"
    using unat_plus_one [OF assms] by (metis Suc_eq_plus1 nat.distinct(1) unat_0)
  then show ?thesis
    using Continue nr k unat_plus_one [OF assms] by (simp add: pending_def)
next
  case (Begin c')
  have k: "stepKind world c pb sb = FlushAndBeginInstancing"
    using Begin(1,2) by (simp add: stepKind_def)
  have "countInstanced (drawQueue c') = countInstanced (marks (drawQueue c'))"
    by (simp add: countInstanced_marks)
  also have "\<dots> = countInstanced (marks (drawQueue c) @ flushDraws world (instancingGroup c))"
    by (simp only: Begin)
  also have "\<dots> = countInstanced (drawQueue c) + pending c"
    by (simp add: countInstanced_append countInstanced_flushDraws countInstanced_marks pending_def)
  finally show ?thesis
    using Begin(3,9) k by (simp add: pending_def)
next
  case (Single c')
  have k: "stepKind world c pb sb = FlushAndDrawSingle"
    using Single(1,2) by (simp add: stepKind_def)
  have "countInstanced (drawQueue c') = countInstanced (marks (drawQueue c'))"
    by (simp add: countInstanced_marks)
  also have "\<dots> = countInstanced (marks (drawQueue c) @ flushDraws world (instancingGroup c)
      @ [CommitShaderParameterGroup SP_OBJECT, directDrawOf world (PipelineBatch.geometry pb)])"
    by (simp only: Single)
  also have "\<dots> = countInstanced (drawQueue c) + pending c"
    by (simp add: countInstanced_append countInstanced_flushDraws countInstanced_marks
        countInstanced_single pending_def del: append.simps)
  finally show ?thesis
    using Single(3,7) k by (simp add: pending_def)
qed

lemma ProcessSceneBatches_begun:
  assumes "unat (count (instancingGroup c)) + length bs < 2 ^ 32"
  shows "\<exists>c'. ProcessSceneBatches world c bs = Inr c'
     \<and> countInstanced (drawQueue c') + pending c'
         = countInstanced (drawQueue c) + pending c + runsBegun world c bs"
  using assms
proof (induction bs arbitrary: c)
  case Nil
  show ?case by simp
next
  case (Cons b bs)
  have "unat (count (instancingGroup c)) + 1 < 2 ^ 32"
    using Cons.prems by simp
  from ProcessBatch_begun [OF this, of world "pipelineBatch b" "GetSourceBatch (pipelineBatch b)"]
  obtain c1 where c1: "ProcessBatch world c (pipelineBatch b) (GetSourceBatch (pipelineBatch b)) = Inr c1"
    and d1: "countInstanced (drawQueue c1) + pending c1
         = countInstanced (drawQueue c) + pending c
           + (if stepKind world c (pipelineBatch b) (GetSourceBatch (pipelineBatch b))
                 = FlushAndBeginInstancing then 1 else 0)"
    and b1: "unat (count (instancingGroup c1)) \<le> unat (count (instancingGroup c)) + 1"
    by blast
  have "unat (count (instancingGroup c1)) + length bs < 2 ^ 32"
    using Cons.prems b1 by simp
  from Cons.IH [OF this] obtain c' where c': "ProcessSceneBatches world c1 bs = Inr c'"
    and d': "countInstanced (drawQueue c') + pending c'
         = countInstanced (drawQueue c1) + pending c1 + runsBegun world c1 bs"
    by blast
  show ?case
    using c1 c' d1 d' by (simp add: ProcessSceneBatch_def)
qed

subsection \<open>Counting the draws of a pass\<close>

lemma draws_marks: "draws (marks q) = draws q"
  by (induction q) (simp_all add: draws_def marks_def)

lemma draws_append: "draws (xs @ ys) = draws xs @ draws ys"
  by (simp add: draws_def)

lemma length_draws_flushDraws: "length (draws (flushDraws world ig)) = (if count ig \<noteq> 0 then 1 else 0)"
  by (simp add: flushDraws_def instancedDrawOf_def draws_def isDraw_def Let_def)

lemma draws_single:
  "draws [CommitShaderParameterGroup SP_OBJECT, directDrawOf world g] = [directDrawOf world g]"
  by (simp add: draws_def isDraw_directDrawOf) (simp add: isDraw_def)

lemma specDrawCount_Cons:
  "specDrawCount inRun (f # rest) = stepCount inRun f + specDrawCount (snd (snd f)) rest"
  by (cases f) (simp add: stepCount_def)

lemma ProcessBatch_specCount:
  assumes nowrap: "unat (count (instancingGroup c)) + 1 < 2 ^ 32"
    and inv: "prevInv world c prev"
    and cons: "case prev of None \<Rightarrow> True
       | Some p \<Rightarrow>
           (PipelineBatch.pipelineState p = PipelineBatch.pipelineState pb
            \<and> PipelineBatch.geometry p = PipelineBatch.geometry pb
            \<longrightarrow> PipelineBatch.geometryType p = PipelineBatch.geometryType pb)"
  shows "\<exists>c'. ProcessBatch world c pb sb = Inr c'
     \<and> length (draws (drawQueue c')) + pending c'
         = length (draws (drawQueue c)) + pending c
           + stepCount (count (instancingGroup c) \<noteq> 0) (factOf world c prev pb sb)
     \<and> (count (instancingGroup c') \<noteq> 0) = beginInstancingGroup world c pb
     \<and> prevInv world c' (Some pb)
     \<and> unat (count (instancingGroup c')) \<le> unat (count (instancingGroup c)) + 1"
proof (cases rule: ProcessBatch_cases [of world c pb sb])
  case (Continue c')
  note nr = not_reset [OF Continue(1)]
  from inv nr(1) obtain p where p: "prev = Some p" and ep: "beginInstancingGroup world c p"
    by (auto simp: prevInv_def)
  from inv p have cp: "CachedSharedState.geometry (current c) = Some (PipelineBatch.geometry p)"
    "CachedSharedState.pipelineState (current c) = Some (PipelineBatch.pipelineState p)"
    by (simp_all add: prevInv_def)
  have same: "PipelineBatch.geometry p = PipelineBatch.geometry pb"
    "PipelineBatch.pipelineState p = PipelineBatch.pipelineState pb"
    using cp nr(2,3) by simp_all
  have ty: "PipelineBatch.geometryType p = PipelineBatch.geometryType pb"
    using cons p same by simp
  have el: "beginInstancingGroup world c pb"
    using ep same ty by (simp add: beginInstancingGroup_def)
  have nz: "count (instancingGroup c) + 1 \<noteq> 0"
    using unat_plus_one [OF nowrap] by (metis Suc_eq_plus1 nat.distinct(1) unat_0)
  have st: "stepCount (count (instancingGroup c) \<noteq> 0) (factOf world c prev pb sb) = 0"
    using nr el p same by (simp add: stepCount_def factOf_def)
  have pi: "prevInv world c' (Some pb)"
    using Continue el by (simp add: prevInv_def UpdateDirtyFlags_proj beginInstancingGroup_def)
  show ?thesis
    using Continue(2,6,7) nz st el pi nr(1) unat_plus_one [OF nowrap]
    by (simp add: pending_def)
next
  case (Begin c')
  have st: "stepCount (count (instancingGroup c) \<noteq> 0) (factOf world c prev pb sb) = 1"
    using Begin(1,2) by (auto simp: stepCount_def factOf_def resetInstancingGroup_def UpdateDirtyFlags_proj)
  have "length (draws (drawQueue c')) = length (draws (marks (drawQueue c')))"
    by (simp add: draws_marks)
  also have "\<dots> = length (draws (marks (drawQueue c) @ flushDraws world (instancingGroup c)))"
    by (simp only: Begin)
  also have "\<dots> = length (draws (drawQueue c)) + pending c"
    by (simp add: draws_append draws_marks length_draws_flushDraws pending_def)
  finally have d: "length (draws (drawQueue c')) = length (draws (drawQueue c)) + pending c" .
  have pi: "prevInv world c' (Some pb)"
    using Begin by (simp add: prevInv_def UpdateDirtyFlags_proj beginInstancingGroup_def)
  show ?thesis
    using Begin(2,3,9) d st pi by (simp add: pending_def)
next
  case (Single c')
  have st: "stepCount (count (instancingGroup c) \<noteq> 0) (factOf world c prev pb sb) = 1"
    using Single(2) by (simp add: stepCount_def factOf_def)
  have "length (draws (drawQueue c')) = length (draws (marks (drawQueue c')))"
    by (simp add: draws_marks)
  also have "\<dots> = length (draws (marks (drawQueue c) @ flushDraws world (instancingGroup c)
      @ [CommitShaderParameterGroup SP_OBJECT, directDrawOf world (PipelineBatch.geometry pb)]))"
    by (simp only: Single)
  also have "\<dots> = length (draws (drawQueue c)) + pending c + 1"
    by (simp only: draws_append draws_marks draws_single length_append length_draws_flushDraws
        pending_def) simp
  finally have d: "length (draws (drawQueue c')) = length (draws (drawQueue c)) + pending c + 1" .
  have pi: "prevInv world c' (Some pb)"
    using Single by (simp add: prevInv_def UpdateDirtyFlags_proj)
  show ?thesis
    using Single(2,3,7) d st pi by (simp add: pending_def)
qed

subsection \<open>Light volume batches\<close>

lemma ProcessLightVolumeBatch_as_ProcessBatch:
  "\<exists>c2 sb2. ProcessLightVolumeBatch world c pb = ProcessBatch world c2 pb sb2
     \<and> enabled c2 = enabled c \<and> instancingGroup c2 = instancingGroup c
     \<and> drawQueue c2 = drawQueue c \<and> instancingBuffer c2 = instancingBuffer c"
  unfolding ProcessLightVolumeBatch_def Let_def
  by (intro exI conjI, rule refl) simp_all

lemma ProcessLightVolumeBatch_step:
  assumes "\<not> staticInstancing (enabled c)" and "count (instancingGroup c) = 0"
  shows "\<exists>c'. ProcessLightVolumeBatch world c pb = Inr c'
     \<and> enabled c' = enabled c \<and> count (instancingGroup c') = 0
     \<and> instancingBuffer c' = instancingBuffer c
     \<and> marks (drawQueue c') =
         marks (drawQueue c)
         @ [CommitShaderParameterGroup SP_OBJECT, directDrawOf world (PipelineBatch.geometry pb)]"
proof -
  obtain c2 sb2 where e: "ProcessLightVolumeBatch world c pb = ProcessBatch world c2 pb sb2"
    and p: "enabled c2 = enabled c" "instancingGroup c2 = instancingGroup c"
      "drawQueue c2 = drawQueue c" "instancingBuffer c2 = instancingBuffer c"
    using ProcessLightVolumeBatch_as_ProcessBatch by blast
  show ?thesis
  proof (cases rule: ProcessBatch_cases [of world c2 pb sb2])
    case (Continue c')
    then show ?thesis
      using assms p not_reset(1) [OF Continue(1)] by simp
  next
    case (Begin c')
    then show ?thesis
      using assms p by (simp add: beginInstancingGroup_def)
  next
    case (Single c')
    then show ?thesis
      using assms p e by (simp add: flushDraws_def)
  qed
qed

lemma ProcessLightVolumeBatches_marks:
  assumes "\<not> staticInstancing (enabled c)" and "count (instancingGroup c) = 0"
  shows "\<exists>c'. ProcessLightVolumeBatches world c bs = Inr c'
     \<and> enabled c' = enabled c \<and> count (instancingGroup c') = 0
     \<and> instancingBuffer c' = instancingBuffer c
     \<and> marks (drawQueue c') = marks (drawQueue c) @ lightVolumeMarks world bs"
  using assms
proof (induction bs arbitrary: c)
  case Nil
  then show ?case by (simp add: lightVolumeMarks_def)
next
  case (Cons b bs)
  from ProcessLightVolumeBatch_step [OF Cons.prems, of world "pipelineBatch b"]
  obtain c1 where c1: "ProcessLightVolumeBatch world c (pipelineBatch b) = Inr c1"
    and e1: "enabled c1 = enabled c" and z1: "count (instancingGroup c1) = 0"
    and i1: "instancingBuffer c1 = instancingBuffer c"
    and m1: "marks (drawQueue c1) =
         marks (drawQueue c)
         @ [CommitShaderParameterGroup SP_OBJECT,
            directDrawOf world (PipelineBatch.geometry (pipelineBatch b))]"
    by blast
  have s1: "\<not> staticInstancing (enabled c1)"
    using Cons.prems(1) e1 by simp
  from Cons.IH [OF s1 z1] obtain c' where c': "ProcessLightVolumeBatches world c1 bs = Inr c'"
    and e': "enabled c' = enabled c1" and z': "count (instancingGroup c') = 0"
    and i': "instancingBuffer c' = instancingBuffer c1"
    and m': "marks (drawQueue c') = marks (drawQueue c1) @ lightVolumeMarks world bs"
    by blast
  show ?case
    using c1 c' e1 e' z' i1 i' m1 m' by (simp add: lightVolumeMarks_def)
qed

subsection \<open>Vertex lights\<close>

lemma vertexLightSlot_eq:
  "vertexLightSlot world i c =
     c\<lparr>current := (current c)\<lparr>vertexLightsData :=
        slotData world (vertexLights (current c)) (gammaCorrection (settings c)) i
          (vertexLightsData (current c))\<rparr>\<rparr>"
  by (simp add: vertexLightSlot_def slotData_def slotParams_def Let_def)

lemma fold_vertexLightSlot:
  "fold (vertexLightSlot world) xs c =
     c\<lparr>current := (current c)\<lparr>vertexLightsData :=
        fold (slotData world (vertexLights (current c)) (gammaCorrection (settings c))) xs
          (vertexLightsData (current c))\<rparr>\<rparr>"
proof (induction xs arbitrary: c)
  case Nil
  show ?case by simp
next
  case (Cons i xs)
  show ?case
    by (simp add: Cons.IH) (simp add: vertexLightSlot_eq)
qed

lemma length_slotData: "length (slotData world vl g i d) = length d"
  by (simp add: slotData_def)

lemma slotData_nth:
  assumes "i * 3 + 2 < length d"
  shows "slotData world vl g i d ! (j * 3) =
      (if j = i then Vector4_of (GetColor (slotParams world vl i) g) (invRange (slotParams world vl i))
       else d ! (j * 3))"
    and "slotData world vl g i d ! (j * 3 + 1) =
      (if j = i then Vector4_of (direction (slotParams world vl i)) (cutoff (slotParams world vl i))
       else d ! (j * 3 + 1))"
    and "slotData world vl g i d ! (j * 3 + 2) =
      (if j = i then Vector4_of (position (slotParams world vl i)) (invCutoff (slotParams world vl i))
       else d ! (j * 3 + 2))"
  using assms by (auto simp: slotData_def nth_list_update)

lemma fold_slotData_nth:
  assumes "\<forall>i \<in> set xs. i * 3 + 2 < length d"
  shows "fold (slotData world vl g) xs d ! (j * 3) =
      (if j \<in> set xs then Vector4_of (GetColor (slotParams world vl j) g) (invRange (slotParams world vl j))
       else d ! (j * 3))
    \<and> fold (slotData world vl g) xs d ! (j * 3 + 1) =
      (if j \<in> set xs then Vector4_of (direction (slotParams world vl j)) (cutoff (slotParams world vl j))
       else d ! (j * 3 + 1))
    \<and> fold (slotData world vl g) xs d ! (j * 3 + 2) =
      (if j \<in> set xs then Vector4_of (position (slotParams world vl j)) (invCutoff (slotParams world vl j))
       else d ! (j * 3 + 2))"
  using assms
proof (induction xs arbitrary: d)
  case Nil
  show ?case by simp
next
  case (Cons i xs)
  have i: "i * 3 + 2 < length d"
    using Cons.prems by simp
  have r: "\<forall>k \<in> set xs. k * 3 + 2 < length (slotData world vl g i d)"
    using Cons.prems by (simp add: length_slotData)
  show ?case
    by (simp only: fold_simps comp_apply list.set insert_iff Cons.IH [OF r] slotData_nth [OF i])
       auto
qed

lemma CheckDirtyVertexLight_dirty:
  assumes "vertexLights (current c) \<noteq> GetVertexLights la"
  shows "CheckDirtyVertexLight world c la =
     c\<lparr>current := (current c)\<lparr>vertexLights := GetVertexLights la,
           vertexLightsData :=
             fold (slotData world (GetVertexLights la) (gammaCorrection (settings c)))
               [0 ..< MAX_VERTEX_LIGHTS (mathDefs world)] (vertexLightsData (current c))\<rparr>,
        dirty := (dirty c)\<lparr>vertexLightConstants := True\<rparr>\<rparr>"
  using assms by (simp add: CheckDirtyVertexLight_def Let_def fold_vertexLightSlot)

lemma CheckDirtyVertexLight_clean:
  assumes "vertexLights (current c) = GetVertexLights la"
  shows "CheckDirtyVertexLight world c la =
     c\<lparr>current := (current c)\<lparr>vertexLights := GetVertexLights la\<rparr>,
        dirty := (dirty c)\<lparr>vertexLightConstants := False\<rparr>\<rparr>"
  using assms by (simp add: CheckDirtyVertexLight_def Let_def)

text \<open>
  C7. \<^verbatim>\<open>CheckDirtyVertexLight\<close> reports the vertex lights dirty exactly when the cached
  container differs from the new one as a list, element by element and in order. When it
  does, every one of the \<open>MAX_VERTEX_LIGHTS\<close> slots is written again, three vectors to a
  slot, from the parameters of its light, or from the null light when its index is
  \<open>M_MAX_UNSIGNED\<close>; the slot of a sentinel then holds zero colour, zero direction and zero
  position with the attenuation values of the null light. When it does not, the data
  stay as they are. The data array has \<open>MAX_VERTEX_LIGHTS * 3\<close> elements, as its C++ type
  says.
\<close>

theorem CheckDirtyVertexLight_slots:
  assumes "length (vertexLightsData (current c)) = MAX_VERTEX_LIGHTS (mathDefs world) * 3"
  shows "vertexLightConstants (dirty (CheckDirtyVertexLight world c la))
           = (vertexLights (current c) \<noteq> GetVertexLights la)
    \<and> vertexLights (current (CheckDirtyVertexLight world c la)) = GetVertexLights la
    \<and> (vertexLights (current c) = GetVertexLights la \<longrightarrow>
         vertexLightsData (current (CheckDirtyVertexLight world c la)) = vertexLightsData (current c))
    \<and> (vertexLights (current c) \<noteq> GetVertexLights la \<longrightarrow>
         (\<forall>i < MAX_VERTEX_LIGHTS (mathDefs world).
            (let params = (if GetVertexLights la ! i \<noteq> M_MAX_UNSIGNED (mathDefs world)
                           then GetShaderParams (lights world (unat (GetVertexLights la ! i)))
                           else nullVertexLight world);
                 d = vertexLightsData (current (CheckDirtyVertexLight world c la)) in
             d ! (i * 3) = Vector4_of (GetColor params (gammaCorrection (settings c))) (invRange params)
             \<and> d ! (i * 3 + 1) = Vector4_of (direction params) (cutoff params)
             \<and> d ! (i * 3 + 2) = Vector4_of (position params) (invCutoff params))
            \<and> (GetVertexLights la ! i = M_MAX_UNSIGNED (mathDefs world) \<longrightarrow>
                 (let d = vertexLightsData (current (CheckDirtyVertexLight world c la)) in
                  d ! (i * 3) = \<lparr>x4 = 0, y4 = 0, z4 = 0, w4 = nullLightInvRange world\<rparr>
                  \<and> d ! (i * 3 + 1) = \<lparr>x4 = 0, y4 = 0, z4 = 0, w4 = nullLightCutoff world\<rparr>
                  \<and> d ! (i * 3 + 2) = \<lparr>x4 = 0, y4 = 0, z4 = 0, w4 = nullLightInvCutoff world\<rparr>))))"
proof (cases "vertexLights (current c) = GetVertexLights la")
  case True
  then show ?thesis
    by (simp add: CheckDirtyVertexLight_clean)
next
  case False
  let ?n = "MAX_VERTEX_LIGHTS (mathDefs world)"
  let ?d = "fold (slotData world (GetVertexLights la) (gammaCorrection (settings c)))
               [0 ..< ?n] (vertexLightsData (current c))"
  have b: "\<forall>i \<in> set [0 ..< ?n]. i * 3 + 2 < length (vertexLightsData (current c))"
    using assms by auto
  have n: "i < ?n \<Longrightarrow>
      ?d ! (i * 3) = Vector4_of (GetColor (slotParams world (GetVertexLights la) i) (gammaCorrection (settings c)))
                       (invRange (slotParams world (GetVertexLights la) i))
      \<and> ?d ! (i * 3 + 1) = Vector4_of (direction (slotParams world (GetVertexLights la) i))
                       (cutoff (slotParams world (GetVertexLights la) i))
      \<and> ?d ! (i * 3 + 2) = Vector4_of (position (slotParams world (GetVertexLights la) i))
                       (invCutoff (slotParams world (GetVertexLights la) i))" for i
    using fold_slotData_nth [OF b, of world "GetVertexLights la" "gammaCorrection (settings c)" i]
    by simp
  have z: "GetVertexLights la ! i = M_MAX_UNSIGNED (mathDefs world) \<Longrightarrow>
      slotParams world (GetVertexLights la) i = nullVertexLight world" for i
    by (simp add: slotParams_def)
  show ?thesis
    using False n
    by (auto simp: CheckDirtyVertexLight_dirty Let_def slotParams_def [symmetric] z
        nullVertexLight_def nullLightShaderParameters_def Vector4_of_def Vector3_ZERO_def)
qed

text \<open>
  On a fresh compositor, whose cached container is all zeros, the lights
  \<open>[0, sentinel, sentinel, sentinel]\<close> are dirty and slot 1 is the null light. The lights
  \<open>[2, 1, \<dots>]\<close> after \<open>[1, 2, \<dots>]\<close> are dirty too: the comparison is sensitive to order.
\<close>

theorem CheckDirtyVertexLight_slots_witness:
  "length (vertexLightsData (current (exampleCompositor {VertexLights})))
     = MAX_VERTEX_LIGHTS (mathDefs exampleWorld) * 3
   \<and> vertexLightConstants (dirty (CheckDirtyVertexLight exampleWorld (exampleCompositor {VertexLights})
        (exampleLightAccumulator [0, - 1, - 1, - 1])))
   \<and> vertexLightsData (current (CheckDirtyVertexLight exampleWorld (exampleCompositor {VertexLights})
        (exampleLightAccumulator [0, - 1, - 1, - 1]))) ! 3 = \<lparr>x4 = 0, y4 = 0, z4 = 0, w4 = 0\<rparr>
   \<and> vertexLightsData (current (CheckDirtyVertexLight exampleWorld (exampleCompositor {VertexLights})
        (exampleLightAccumulator [0, - 1, - 1, - 1]))) ! 4 = \<lparr>x4 = 0, y4 = 0, z4 = 0, w4 = 0\<rparr>
   \<and> vertexLightsData (current (CheckDirtyVertexLight exampleWorld (exampleCompositor {VertexLights})
        (exampleLightAccumulator [0, - 1, - 1, - 1]))) ! 5 = \<lparr>x4 = 0, y4 = 0, z4 = 0, w4 = 0\<rparr>
   \<and> vertexLightConstants (dirty (CheckDirtyVertexLight exampleWorld
        (CheckDirtyVertexLight exampleWorld (exampleCompositor {VertexLights})
           (exampleLightAccumulator [1, 2, - 1, - 1]))
        (exampleLightAccumulator [2, 1, - 1, - 1])))"
proof -
  let ?c0 = "exampleCompositor {VertexLights}"
  let ?la = "exampleLightAccumulator [0, - 1, - 1, - 1]"
  have h: "length (vertexLightsData (current ?c0)) = MAX_VERTEX_LIGHTS (mathDefs exampleWorld) * 3"
    by code_simp
  have ne: "vertexLights (current ?c0) \<noteq> GetVertexLights ?la"
    by code_simp
  have lt: "1 < MAX_VERTEX_LIGHTS (mathDefs exampleWorld)"
    by code_simp
  have m: "GetVertexLights ?la ! 1 = M_MAX_UNSIGNED (mathDefs exampleWorld)"
    by code_simp
  have z: "nullLightInvRange exampleWorld = 0" "nullLightCutoff exampleWorld = 0"
    "nullLightInvCutoff exampleWorld = 0"
    by code_simp+
  have o: "vertexLightConstants (dirty (CheckDirtyVertexLight exampleWorld
        (CheckDirtyVertexLight exampleWorld ?c0 (exampleLightAccumulator [1, 2, - 1, - 1]))
        (exampleLightAccumulator [2, 1, - 1, - 1])))"
    by code_simp
  note t = CheckDirtyVertexLight_slots [OF h, of ?la]
  have d: "vertexLightConstants (dirty (CheckDirtyVertexLight exampleWorld ?c0 ?la))"
    using t [THEN conjunct1] ne by simp
  note s = t [THEN conjunct2, THEN conjunct2, THEN conjunct2, THEN mp, OF ne, THEN spec, of 1,
      THEN mp, OF lt, THEN conjunct2, THEN mp, OF m]
  have v: "vertexLightsData (current (CheckDirtyVertexLight exampleWorld ?c0 ?la)) ! 3
        = \<lparr>x4 = 0, y4 = 0, z4 = 0, w4 = 0\<rparr>
     \<and> vertexLightsData (current (CheckDirtyVertexLight exampleWorld ?c0 ?la)) ! 4
        = \<lparr>x4 = 0, y4 = 0, z4 = 0, w4 = 0\<rparr>
     \<and> vertexLightsData (current (CheckDirtyVertexLight exampleWorld ?c0 ?la)) ! 5
        = \<lparr>x4 = 0, y4 = 0, z4 = 0, w4 = 0\<rparr>"
    using s unfolding z by (simp add: Let_def)
  show ?thesis
    using h d v o by blast
qed

subsection \<open>Resources and the lightmap\<close>

lemma materialTextureResources_eq:
  "materialTextureResources lm xs =
     (if lm = None then map (\<lambda>t. AddShaderResource (fst t) (snd t)) xs
      else map (\<lambda>t. AddShaderResource (fst t) (snd t)) (filter (\<lambda>t. fst t \<noteq> TU_EMISSIVE) xs))"
  by (cases lm; induction xs) simp_all

text \<open>
  C10. When \<^verbatim>\<open>UpdateDirtyResources\<close> binds the resources again (the material, the
  lightmap texture or the light textures are dirty), it binds the global resources, then
  the textures of the material, then the lightmap texture, then the light textures, and
  commits. With a lightmap texture the textures of the material are bound without those
  of the unit \<open>TU_EMISSIVE\<close>, and the lightmap texture is bound to \<open>TU_EMISSIVE\<close> in their
  place; with none, every texture of the material is bound as it is, \<open>TU_EMISSIVE\<close>
  included.
\<close>

theorem UpdateDirtyResources_lightmap_replaces_emissive:
  assumes "DirtyStateFlags.material (dirty c) \<or> lightmapTextures (dirty c) \<or> pixelLightTextures (dirty c)"
  shows "drawQueue (UpdateDirtyResources world c) =
     drawQueue c
     @ map (\<lambda>desc. AddShaderResource (texUnit desc) (texture desc)) (globalResources c)
     @ (case lightmapTexture (current c) of
          None \<Rightarrow>
            map (\<lambda>t. AddShaderResource (fst t) (snd t))
              (GetTextures (materialAt world (the (CachedSharedState.material (current c)))))
        | Some lm \<Rightarrow>
            map (\<lambda>t. AddShaderResource (fst t) (snd t))
              (filter (\<lambda>t. fst t \<noteq> TU_EMISSIVE)
                 (GetTextures (materialAt world (the (CachedSharedState.material (current c))))))
            @ [AddShaderResource TU_EMISSIVE (Some lm)])
     @ (if pixelLightRamp (current c) \<noteq> None
        then [AddShaderResource TU_LIGHTRAMP (pixelLightRamp (current c))] else [])
     @ (if pixelLightShape (current c) \<noteq> None
        then [AddShaderResource TU_LIGHTSHAPE (pixelLightShape (current c))] else [])
     @ (if pixelLightShadowMap (current c) \<noteq> None
        then [AddShaderResource TU_SHADOWMAP (pixelLightShadowMap (current c))] else [])
     @ [CommitShaderResources]"
  using assms
  by (cases "lightmapTexture (current c)")
     (simp_all add: UpdateDirtyResources_def Let_def enqueue_def enqueueAll_def
        materialTextureResources_eq)

text \<open>
  A lightmapped batch on a fresh compositor: the material has a texture on \<open>TU_EMISSIVE\<close>
  (texture 6), and the lightmap (texture 9) is bound there instead.
\<close>

theorem UpdateDirtyResources_lightmap_replaces_emissive_witness:
  "(DirtyStateFlags.material (dirty exampleLightmappedState)
      \<or> lightmapTextures (dirty exampleLightmappedState)
      \<or> pixelLightTextures (dirty exampleLightmappedState))
   \<and> lightmapTexture (current exampleLightmappedState) = Some 9
   \<and> GetTextures (materialAt exampleWorld (the (CachedSharedState.material (current exampleLightmappedState))))
       = [(TU_OTHER 0, Some 5), (TU_EMISSIVE, Some 6)]
   \<and> drawQueue (UpdateDirtyResources exampleWorld exampleLightmappedState)
       = [AddShaderResource (TU_OTHER 0) (Some 5), AddShaderResource TU_EMISSIVE (Some 9),
          CommitShaderResources]"
proof -
  have h: "DirtyStateFlags.material (dirty exampleLightmappedState)
      \<or> lightmapTextures (dirty exampleLightmappedState)
      \<or> pixelLightTextures (dirty exampleLightmappedState)"
    by code_simp
  have f1: "lightmapTexture (current exampleLightmappedState) = Some 9" by code_simp
  have f2: "GetTextures (materialAt exampleWorld
       (the (CachedSharedState.material (current exampleLightmappedState))))
       = [(TU_OTHER 0, Some 5), (TU_EMISSIVE, Some 6)]" by code_simp
  have f3: "globalResources exampleLightmappedState = []" by code_simp
  have f4: "drawQueue exampleLightmappedState = []" by code_simp
  have f5: "pixelLightRamp (current exampleLightmappedState) = None"
    "pixelLightShape (current exampleLightmappedState) = None"
    "pixelLightShadowMap (current exampleLightmappedState) = None"
    by code_simp+
  have "drawQueue (UpdateDirtyResources exampleWorld exampleLightmappedState)
       = [AddShaderResource (TU_OTHER 0) (Some 5), AddShaderResource TU_EMISSIVE (Some 9),
          CommitShaderResources]"
    using UpdateDirtyResources_lightmap_replaces_emissive [OF h, of exampleWorld]
    unfolding f1 f2 f3 f4 f5 by simp
  with h f1 f2 show ?thesis by blast
qed

subsection \<open>The draw count of a pass\<close>

lemma new_proj:
  "drawQueue (DrawCommandCompositor_new world q st ib cam flags split) = q"
  "instancingBuffer (DrawCommandCompositor_new world q st ib cam flags split) = ib"
  "enabled (DrawCommandCompositor_new world q st ib cam flags split) = EnabledFeatureFlags_of flags"
  "count (instancingGroup (DrawCommandCompositor_new world q st ib cam flags split)) = 0"
  by (simp_all add: DrawCommandCompositor_new_def InstancingGroupState_init_def)

lemma runInv_new: "runInv (DrawCommandCompositor_new world q st ib cam flags split) []"
  by (simp add: runInv_def new_proj)

lemma prevInv_new: "prevInv world (DrawCommandCompositor_new world q st ib cam flags split) None"
  by (simp add: prevInv_def new_proj)

lemma flushed_count: "count (instancingGroup (flushed world c)) = 0"
  by (simp add: flushed_proj)

lemma length_draws_flushed:
  "length (draws (drawQueue (flushed world c))) = length (draws (drawQueue c)) + pending c"
proof -
  have "length (draws (drawQueue (flushed world c))) = length (draws (marks (drawQueue (flushed world c))))"
    by (simp add: draws_marks)
  also have "\<dots> = length (draws (drawQueue c)) + pending c"
    by (simp add: flushed_proj draws_append draws_marks length_draws_flushDraws pending_def)
  finally show ?thesis .
qed

lemma batchesDrawn_flushed:
  "batchesDrawn (drawQueue (flushed world c)) = batchesDrawn (drawQueue c) + unat (count (instancingGroup c))"
proof -
  have "batchesDrawn (drawQueue (flushed world c)) = batchesDrawn (marks (drawQueue (flushed world c)))"
    by (simp add: batchesDrawn_marks)
  also have "\<dots> = batchesDrawn (drawQueue c) + unat (count (instancingGroup c))"
    by (simp add: flushed_proj batchesDrawn_append batchesDrawn_marks batchesDrawn_flushDraws)
  finally show ?thesis .
qed

subsection \<open>The dirty flags, field by field\<close>

lemma Extract_kept:
  "dirty (ExtractObjectConstants world c sb la0) = dirty c"
  "current (ExtractObjectConstants world c sb la0) = current c"
  "enabled (ExtractObjectConstants world c sb la0) = enabled c"
  by (simp_all add: ExtractObjectConstants_def Let_def)

lemma Common_kept:
  "frameConstants (dirty (CheckDirtyCommonState world c pb)) = frameConstants (dirty c)"
  "pixelLightConstants (dirty (CheckDirtyCommonState world c pb)) = pixelLightConstants (dirty c)"
  "pixelLightTextures (dirty (CheckDirtyCommonState world c pb)) = pixelLightTextures (dirty c)"
  "vertexLightConstants (dirty (CheckDirtyCommonState world c pb)) = vertexLightConstants (dirty c)"
  "lightmapConstants (dirty (CheckDirtyCommonState world c pb)) = lightmapConstants (dirty c)"
  "lightmapTextures (dirty (CheckDirtyCommonState world c pb)) = lightmapTextures (dirty c)"
  "pixelLightIndex (current (CheckDirtyCommonState world c pb)) = pixelLightIndex (current c)"
  "pixelLightRamp (current (CheckDirtyCommonState world c pb)) = pixelLightRamp (current c)"
  "pixelLightShape (current (CheckDirtyCommonState world c pb)) = pixelLightShape (current c)"
  "pixelLightShadowMap (current (CheckDirtyCommonState world c pb)) = pixelLightShadowMap (current c)"
  "vertexLights (current (CheckDirtyCommonState world c pb)) = vertexLights (current c)"
  "lightmapTexture (current (CheckDirtyCommonState world c pb)) = lightmapTexture (current c)"
  "CachedSharedState.lightmapScaleOffset (current (CheckDirtyCommonState world c pb)) = CachedSharedState.lightmapScaleOffset (current c)"
  "enabled (CheckDirtyCommonState world c pb) = enabled c"
  by (simp_all add: CheckDirtyCommonState_def Let_def)

lemma Pixel_kept:
  "DirtyStateFlags.pipelineState (dirty (CheckDirtyPixelLight world c pb)) = DirtyStateFlags.pipelineState (dirty c)"
  "frameConstants (dirty (CheckDirtyPixelLight world c pb)) = frameConstants (dirty c)"
  "cameraConstants (dirty (CheckDirtyPixelLight world c pb)) = cameraConstants (dirty c)"
  "vertexLightConstants (dirty (CheckDirtyPixelLight world c pb)) = vertexLightConstants (dirty c)"
  "lightmapConstants (dirty (CheckDirtyPixelLight world c pb)) = lightmapConstants (dirty c)"
  "lightmapTextures (dirty (CheckDirtyPixelLight world c pb)) = lightmapTextures (dirty c)"
  "DirtyStateFlags.material (dirty (CheckDirtyPixelLight world c pb)) = DirtyStateFlags.material (dirty c)"
  "DirtyStateFlags.geometry (dirty (CheckDirtyPixelLight world c pb)) = DirtyStateFlags.geometry (dirty c)"
  "CachedSharedState.pipelineState (current (CheckDirtyPixelLight world c pb)) = CachedSharedState.pipelineState (current c)"
  "constantDepthBias (current (CheckDirtyPixelLight world c pb)) = constantDepthBias (current c)"
  "vertexLights (current (CheckDirtyPixelLight world c pb)) = vertexLights (current c)"
  "lightmapTexture (current (CheckDirtyPixelLight world c pb)) = lightmapTexture (current c)"
  "CachedSharedState.lightmapScaleOffset (current (CheckDirtyPixelLight world c pb)) = CachedSharedState.lightmapScaleOffset (current c)"
  "CachedSharedState.material (current (CheckDirtyPixelLight world c pb)) = CachedSharedState.material (current c)"
  "CachedSharedState.geometry (current (CheckDirtyPixelLight world c pb)) = CachedSharedState.geometry (current c)"
  "enabled (CheckDirtyPixelLight world c pb) = enabled c"
  by (simp_all add: CheckDirtyPixelLight_def Let_def)

lemma Vertex_kept:
  "DirtyStateFlags.pipelineState (dirty (CheckDirtyVertexLight world c la)) = DirtyStateFlags.pipelineState (dirty c)"
  "frameConstants (dirty (CheckDirtyVertexLight world c la)) = frameConstants (dirty c)"
  "cameraConstants (dirty (CheckDirtyVertexLight world c la)) = cameraConstants (dirty c)"
  "pixelLightConstants (dirty (CheckDirtyVertexLight world c la)) = pixelLightConstants (dirty c)"
  "pixelLightTextures (dirty (CheckDirtyVertexLight world c la)) = pixelLightTextures (dirty c)"
  "lightmapConstants (dirty (CheckDirtyVertexLight world c la)) = lightmapConstants (dirty c)"
  "lightmapTextures (dirty (CheckDirtyVertexLight world c la)) = lightmapTextures (dirty c)"
  "DirtyStateFlags.material (dirty (CheckDirtyVertexLight world c la)) = DirtyStateFlags.material (dirty c)"
  "DirtyStateFlags.geometry (dirty (CheckDirtyVertexLight world c la)) = DirtyStateFlags.geometry (dirty c)"
  "CachedSharedState.pipelineState (current (CheckDirtyVertexLight world c la)) = CachedSharedState.pipelineState (current c)"
  "constantDepthBias (current (CheckDirtyVertexLight world c la)) = constantDepthBias (current c)"
  "pixelLightIndex (current (CheckDirtyVertexLight world c la)) = pixelLightIndex (current c)"
  "pixelLightRamp (current (CheckDirtyVertexLight world c la)) = pixelLightRamp (current c)"
  "pixelLightShape (current (CheckDirtyVertexLight world c la)) = pixelLightShape (current c)"
  "pixelLightShadowMap (current (CheckDirtyVertexLight world c la)) = pixelLightShadowMap (current c)"
  "lightmapTexture (current (CheckDirtyVertexLight world c la)) = lightmapTexture (current c)"
  "CachedSharedState.lightmapScaleOffset (current (CheckDirtyVertexLight world c la)) = CachedSharedState.lightmapScaleOffset (current c)"
  "CachedSharedState.material (current (CheckDirtyVertexLight world c la)) = CachedSharedState.material (current c)"
  "CachedSharedState.geometry (current (CheckDirtyVertexLight world c la)) = CachedSharedState.geometry (current c)"
  "enabled (CheckDirtyVertexLight world c la) = enabled c"
  by (cases "vertexLights (current c) = GetVertexLights la";
      simp add: CheckDirtyVertexLight_dirty CheckDirtyVertexLight_clean)+

lemma Lightmap_kept:
  "DirtyStateFlags.pipelineState (dirty (CheckDirtyLightmap world c sb)) = DirtyStateFlags.pipelineState (dirty c)"
  "frameConstants (dirty (CheckDirtyLightmap world c sb)) = frameConstants (dirty c)"
  "cameraConstants (dirty (CheckDirtyLightmap world c sb)) = cameraConstants (dirty c)"
  "pixelLightConstants (dirty (CheckDirtyLightmap world c sb)) = pixelLightConstants (dirty c)"
  "pixelLightTextures (dirty (CheckDirtyLightmap world c sb)) = pixelLightTextures (dirty c)"
  "vertexLightConstants (dirty (CheckDirtyLightmap world c sb)) = vertexLightConstants (dirty c)"
  "DirtyStateFlags.material (dirty (CheckDirtyLightmap world c sb)) = DirtyStateFlags.material (dirty c)"
  "DirtyStateFlags.geometry (dirty (CheckDirtyLightmap world c sb)) = DirtyStateFlags.geometry (dirty c)"
  "CachedSharedState.pipelineState (current (CheckDirtyLightmap world c sb)) = CachedSharedState.pipelineState (current c)"
  "constantDepthBias (current (CheckDirtyLightmap world c sb)) = constantDepthBias (current c)"
  "pixelLightIndex (current (CheckDirtyLightmap world c sb)) = pixelLightIndex (current c)"
  "pixelLightRamp (current (CheckDirtyLightmap world c sb)) = pixelLightRamp (current c)"
  "pixelLightShape (current (CheckDirtyLightmap world c sb)) = pixelLightShape (current c)"
  "pixelLightShadowMap (current (CheckDirtyLightmap world c sb)) = pixelLightShadowMap (current c)"
  "vertexLights (current (CheckDirtyLightmap world c sb)) = vertexLights (current c)"
  "CachedSharedState.material (current (CheckDirtyLightmap world c sb)) = CachedSharedState.material (current c)"
  "CachedSharedState.geometry (current (CheckDirtyLightmap world c sb)) = CachedSharedState.geometry (current c)"
  "enabled (CheckDirtyLightmap world c sb) = enabled c"
  by (simp_all add: CheckDirtyLightmap_def Let_def)

lemma Common_written:
  "cameraConstants (dirty (CheckDirtyCommonState world c pb)) =
     (cameraConstants (dirty c)
      \<or> constantDepthBias (current c) \<noteq> pipelineStateDepthBias world (PipelineBatch.pipelineState pb))"
  "DirtyStateFlags.material (dirty (CheckDirtyCommonState world c pb)) =
     (CachedSharedState.material (current c) \<noteq> Some (PipelineBatch.material pb))"
  "constantDepthBias (current (CheckDirtyCommonState world c pb)) =
     pipelineStateDepthBias world (PipelineBatch.pipelineState pb)"
  "CachedSharedState.material (current (CheckDirtyCommonState world c pb)) = Some (PipelineBatch.material pb)"
  by (simp_all add: CheckDirtyCommonState_def Let_def)

lemma Pixel_written:
  "pixelLightConstants (dirty (CheckDirtyPixelLight world c pb)) = (pixelLightIndex (current c) \<noteq> lightIndex pb)"
  "pixelLightIndex (current (CheckDirtyPixelLight world c pb)) = lightIndex pb"
  by (simp_all add: CheckDirtyPixelLight_def Let_def)

lemma Pixel_textures:
  assumes "\<not> pixelLightTextures (dirty c)" and "pixelLightRamp (current c) = None"
    and "pixelLightShape (current c) = None" and "pixelLightShadowMap (current c) = None"
    and "lightIndex pb \<noteq> M_MAX_UNSIGNED (mathDefs world) \<longrightarrow>
         lightRamp (GetShaderParams (lights world (unat (lightIndex pb)))) = None
         \<and> lightShape (GetShaderParams (lights world (unat (lightIndex pb)))) = None
         \<and> shadowMap (GetShaderParams (lights world (unat (lightIndex pb)))) = None"
  shows "pixelLightTextures (dirty (CheckDirtyPixelLight world c pb)) = False"
    and "pixelLightRamp (current (CheckDirtyPixelLight world c pb)) = None"
    and "pixelLightShape (current (CheckDirtyPixelLight world c pb)) = None"
    and "pixelLightShadowMap (current (CheckDirtyPixelLight world c pb)) = None"
  using assms by (simp_all add: CheckDirtyPixelLight_def Let_def)

lemma Vertex_written:
  "vertexLightConstants (dirty (CheckDirtyVertexLight world c la)) = (vertexLights (current c) \<noteq> GetVertexLights la)"
  "vertexLights (current (CheckDirtyVertexLight world c la)) = GetVertexLights la"
  by (cases "vertexLights (current c) = GetVertexLights la";
      simp add: CheckDirtyVertexLight_dirty CheckDirtyVertexLight_clean)+

lemma Lightmap_written:
  "lightmapConstants (dirty (CheckDirtyLightmap world c sb)) =
     (CachedSharedState.lightmapScaleOffset (current c) \<noteq> SourceBatch.lightmapScaleOffset sb)"
  "CachedSharedState.lightmapScaleOffset (current (CheckDirtyLightmap world c sb)) = SourceBatch.lightmapScaleOffset sb"
  by (simp_all add: CheckDirtyLightmap_def Let_def)

lemma Lightmap_textures:
  assumes "\<not> lightmapTextures (dirty c)" and "lightmapTexture (current c) = None"
    and "SourceBatch.lightmapScaleOffset sb \<noteq> None \<longrightarrow> GetLightmapTexture world (lightmapIndex sb) = None"
  shows "lightmapTextures (dirty (CheckDirtyLightmap world c sb)) = False"
    and "lightmapTexture (current (CheckDirtyLightmap world c sb)) = None"
  using assms by (simp_all add: CheckDirtyLightmap_def Let_def)

lemmas checks_kept = Extract_kept Common_kept Common_written CommonState_proj Pixel_kept Pixel_written
  Vertex_kept Vertex_written Lightmap_kept Lightmap_written

lemma UpdateDirtyFlags_flags:
  assumes "texturesClear c" and "bindsNoTexture world (enabled c) pb"
  shows "frameConstants (dirty (UpdateDirtyFlags world c pb (GetSourceBatch pb))) = frameConstants (dirty c)"
    and "cameraConstants (dirty (UpdateDirtyFlags world c pb (GetSourceBatch pb))) =
      (cameraConstants (dirty c)
       \<or> constantDepthBias (current c) \<noteq> pipelineStateDepthBias world (PipelineBatch.pipelineState pb))"
    and "DirtyStateFlags.material (dirty (UpdateDirtyFlags world c pb (GetSourceBatch pb))) =
      (CachedSharedState.material (current c) \<noteq> Some (PipelineBatch.material pb))"
    and "pixelLightConstants (dirty (UpdateDirtyFlags world c pb (GetSourceBatch pb))) =
      (pixelLighting (enabled c) \<and> pixelLightIndex (current c) \<noteq> lightIndex pb)"
    and "vertexLightConstants (dirty (UpdateDirtyFlags world c pb (GetSourceBatch pb))) =
      (vertexLighting (enabled c)
       \<and> vertexLights (current c) \<noteq> GetVertexLights (GetGeometryLighting world (drawableIndex pb)))"
    and "lightmapConstants (dirty (UpdateDirtyFlags world c pb (GetSourceBatch pb))) =
      (ambientLighting (enabled c)
       \<and> CachedSharedState.lightmapScaleOffset (current c)
           \<noteq> SourceBatch.lightmapScaleOffset (GetSourceBatch pb))"
    and "pixelLightTextures (dirty (UpdateDirtyFlags world c pb (GetSourceBatch pb))) = False"
    and "lightmapTextures (dirty (UpdateDirtyFlags world c pb (GetSourceBatch pb))) = False"
  using assms unfolding UpdateDirtyFlags_def Let_def texturesClear_def bindsNoTexture_def
  by (simp_all add: checks_kept Pixel_textures Lightmap_textures)

lemma UpdateDirtyFlags_cache:
  assumes "texturesClear c" and "bindsNoTexture world (enabled c) pb"
  shows "constantDepthBias (current (UpdateDirtyFlags world c pb (GetSourceBatch pb))) =
      pipelineStateDepthBias world (PipelineBatch.pipelineState pb)"
    and "CachedSharedState.material (current (UpdateDirtyFlags world c pb (GetSourceBatch pb))) =
      Some (PipelineBatch.material pb)"
    and "pixelLighting (enabled c) \<longrightarrow>
      pixelLightIndex (current (UpdateDirtyFlags world c pb (GetSourceBatch pb))) = lightIndex pb"
    and "vertexLighting (enabled c) \<longrightarrow>
      vertexLights (current (UpdateDirtyFlags world c pb (GetSourceBatch pb))) =
        GetVertexLights (GetGeometryLighting world (drawableIndex pb))"
    and "ambientLighting (enabled c) \<longrightarrow>
      CachedSharedState.lightmapScaleOffset (current (UpdateDirtyFlags world c pb (GetSourceBatch pb))) =
        SourceBatch.lightmapScaleOffset (GetSourceBatch pb)"
    and "pixelLightRamp (current (UpdateDirtyFlags world c pb (GetSourceBatch pb))) = None"
    and "pixelLightShape (current (UpdateDirtyFlags world c pb (GetSourceBatch pb))) = None"
    and "pixelLightShadowMap (current (UpdateDirtyFlags world c pb (GetSourceBatch pb))) = None"
    and "lightmapTexture (current (UpdateDirtyFlags world c pb (GetSourceBatch pb))) = None"
  using assms unfolding UpdateDirtyFlags_def Let_def texturesClear_def bindsNoTexture_def
  by (simp_all add: checks_kept Pixel_textures Lightmap_textures)

lemma PipelineState_dirty:
  "dirty (UpdateDirtyConstants_PipelineState c) = (dirty c)\<lparr>DirtyStateFlags.pipelineState := False\<rparr>"
  by (cases "dirty c") (simp add: UpdateDirtyConstants_PipelineState_def Let_def enqueue_def)

lemma Frame_dirty:
  assumes "beginsWhenAsked world"
  shows "dirty (UpdateDirtyConstants_Frame world c) = (dirty c)\<lparr>frameConstants := False\<rparr>"
  using assms
  by (cases "dirty c"; cases "frameConstants (dirty c)")
     (auto simp: UpdateDirtyConstants_Frame_def Let_def split_beta drawQueue_BeginShaderParameterGroup_def
        enqueue_def enqueueAll_def AddFrameConstants_def beginsWhenAsked_def)

lemma Camera_dirty:
  assumes "beginsWhenAsked world"
  shows "dirty (UpdateDirtyConstants_Camera world c) = (dirty c)\<lparr>cameraConstants := False\<rparr>"
  using assms
  by (cases "dirty c"; cases "cameraConstants (dirty c)")
     (auto simp: UpdateDirtyConstants_Camera_def Let_def split_beta drawQueue_BeginShaderParameterGroup_def
        enqueue_def enqueueAll_def AddCameraConstants_def beginsWhenAsked_def)

lemma Light_dirty: "dirty (UpdateDirtyConstants_Light world c) = dirty c"
  by (simp add: UpdateDirtyConstants_Light_def Let_def split_beta drawQueue_BeginShaderParameterGroup_def
      enqueue_def enqueueAll_def AddPixelLightConstants_def AddVertexLightConstants_def)

lemma Material_dirty: "dirty (UpdateDirtyConstants_Material world c) = dirty c"
  by (simp add: UpdateDirtyConstants_Material_def Let_def split_beta drawQueue_BeginShaderParameterGroup_def
      enqueue_def enqueueAll_def)

lemma UpdateDirtyResources_dirty: "dirty (UpdateDirtyResources world c) = dirty c"
  by (simp add: UpdateDirtyResources_def Let_def enqueue_def enqueueAll_def)

lemma UpdateDirtyConstants_dirty:
  assumes "beginsWhenAsked world"
  shows "dirty (UpdateDirtyConstants world c) =
     (dirty c)\<lparr>DirtyStateFlags.pipelineState := False, frameConstants := False, cameraConstants := False\<rparr>"
  by (simp add: UpdateDirtyConstants_def Let_def Material_dirty Light_dirty Camera_dirty [OF assms]
      Frame_dirty [OF assms] PipelineState_dirty)

lemma flushed_dirty: "dirty (flushed world c) = dirty c"
  by (simp add: flushed_def Let_def)

lemma committed_dirty:
  assumes "beginsWhenAsked world"
  shows "dirty (committed world c) =
     (dirty c)\<lparr>DirtyStateFlags.pipelineState := False, frameConstants := False, cameraConstants := False\<rparr>"
  by (simp add: committed_def UpdateDirtyResources_dirty UpdateDirtyConstants_dirty [OF assms] flushed_dirty)

lemma DrawObject_dirty:
  "dirty (DrawObject world c) = (dirty c)\<lparr>DirtyStateFlags.geometry := False\<rparr>"
  by (cases "dirty c") (simp add: DrawObject_def Let_def enqueue_def)

lemma AddObjectInstanceData_dirty: "dirty (AddObjectInstanceData c) = dirty c"
  by (simp add: AddObjectInstanceData_def Let_def)

lemma ProcessBatch_cacheMatches:
  assumes b: "beginsWhenAsked world" and tc: "texturesClear c"
    and nt: "bindsNoTexture world (enabled c) pb"
  shows "\<exists>c'. ProcessBatch world c pb (GetSourceBatch pb) = Inr c'
     \<and> cacheMatches world c' pb \<and> enabled c' = enabled c"
proof -
  let ?sb = "GetSourceBatch pb"
  let ?c1 = "UpdateDirtyFlags world c pb ?sb"
  note fl = UpdateDirtyFlags_flags [OF tc nt]
  note ca = UpdateDirtyFlags_cache [OF tc nt]
  have en: "enabled ?c1 = enabled c"
    by (simp add: UpdateDirtyFlags_proj)
  have tc1: "texturesClear ?c1"
    using tc by (simp add: texturesClear_def fl ca en)
  show ?thesis
  proof (cases "resetInstancingGroup ?c1")
    case False
    have nd: "\<not> IsAnyStateDirty (dirty ?c1)"
      using False by (simp add: resetInstancingGroup_def)
    let ?c' = "AddObjectInstanceData
      (?c1\<lparr>instancingGroup := (instancingGroup c)\<lparr>count := count (instancingGroup c) + 1\<rparr>,
          instancingBuffer := snd (AddInstance (instancingBuffer c))\<rparr>)"
    have r: "ProcessBatch world c pb ?sb = Inr ?c'"
      by (rule ProcessBatch_continue [OF False])
    have d: "dirty ?c' = dirty ?c1" and cu: "current ?c' = current ?c1" and e: "enabled ?c' = enabled c"
      by (simp_all add: AddObjectInstanceData_dirty AddObjectInstanceData_proj en)
    have "cacheMatches world ?c' pb"
      using nd tc1 ca
      by (simp add: cacheMatches_def texturesClear_def d cu e en IsAnyStateDirty_def UpdateDirtyFlags_proj)
    with r e show ?thesis by blast
  next
    case True
    show ?thesis
    proof (cases "beginInstancingGroup world c pb")
      case bg: True
      let ?c' = "AddObjectInstanceData
        ((committed world ?c1)
           \<lparr>instancingBuffer := snd (AddInstance (instancingBuffer c)),
            instancingGroup :=
              (instancingGroup c)\<lparr>count := 1, start := numInstances (instancingBuffer c),
                InstancingGroupState.geometry := Some (PipelineBatch.geometry pb)\<rparr>\<rparr>)"
      have r: "ProcessBatch world c pb ?sb = Inr ?c'"
        by (rule ProcessBatch_begin [OF True bg])
      have d: "dirty ?c' = (dirty ?c1)\<lparr>DirtyStateFlags.pipelineState := False, frameConstants := False,
          cameraConstants := False\<rparr>"
        and cu: "current ?c' = current ?c1" and e: "enabled ?c' = enabled c"
        by (simp_all add: AddObjectInstanceData_dirty AddObjectInstanceData_proj committed_dirty [OF b]
            committed_proj en)
      have "cacheMatches world ?c' pb"
        using tc1 ca
        by (simp add: cacheMatches_def texturesClear_def d cu e en UpdateDirtyFlags_proj)
      with r e show ?thesis by blast
    next
      case nb: False
      let ?c' = "DrawObject world (objectGroup world (committed world ?c1))"
      have r: "ProcessBatch world c pb ?sb = Inr ?c'"
        using ProcessBatch_single [OF True nb] by (simp add: objectGroup_def)
      have d: "dirty ?c' = (dirty ?c1)\<lparr>DirtyStateFlags.pipelineState := False, frameConstants := False,
          cameraConstants := False, DirtyStateFlags.geometry := False\<rparr>"
        and cu: "current ?c' = current ?c1" and e: "enabled ?c' = enabled c"
        by (simp_all add: DrawObject_dirty DrawObject_proj objectGroup_proj committed_dirty [OF b]
            committed_proj en)
      have "cacheMatches world ?c' pb"
        using tc1 ca
        by (simp add: cacheMatches_def texturesClear_def d cu e en UpdateDirtyFlags_proj)
      with r e show ?thesis by blast
    qed
  qed
qed

lemma cacheMatches_dirty:
  assumes cm: "cacheMatches world c p" and nt: "bindsNoTexture world (enabled c) pb"
  shows "(\<not> IsAnyStateDirty (dirty (UpdateDirtyFlags world c pb (GetSourceBatch pb)))) =
     (stateUnchanged world (enabled c) p pb \<and> PipelineBatch.geometry p = PipelineBatch.geometry pb)"
proof -
  have tc: "texturesClear c"
    using cm by (simp add: cacheMatches_def)
  note fl = UpdateDirtyFlags_flags [OF tc nt]
  show ?thesis
    using cm
    by (auto simp: IsAnyStateDirty_def fl UpdateDirtyFlags_proj cacheMatches_def stateUnchanged_def)
qed

lemma stepCount_inputFact:
  assumes "case prev of None \<Rightarrow> count (instancingGroup c) = 0 | Some p \<Rightarrow> cacheMatches world c p"
    and nt: "bindsNoTexture world (enabled c) pb"
  shows "stepCount (count (instancingGroup c) \<noteq> 0) (factOf world c prev pb (GetSourceBatch pb))
     = stepCount (count (instancingGroup c) \<noteq> 0) (inputFact world (enabled c) prev pb)"
proof (cases prev)
  case None
  then show ?thesis
    using assms(1)
    by (simp add: stepCount_def factOf_def inputFact_def beginInstancingGroup_def instancingEligible_def)
next
  case (Some p)
  then have cm: "cacheMatches world c p"
    using assms(1) by simp
  show ?thesis
    using cacheMatches_dirty [OF cm nt] Some
    by (auto simp: stepCount_def factOf_def inputFact_def beginInstancingGroup_def instancingEligible_def)
qed

lemma ProcessSceneBatches_inputCount:
  assumes "unat (count (instancingGroup c)) + length bs < 2 ^ 32"
    and "prevInv world c prev"
    and "sameStateSameType prev bs"
    and "beginsWhenAsked world"
    and "texturesClear c"
    and "case prev of None \<Rightarrow> True | Some p \<Rightarrow> cacheMatches world c p"
    and "list_all (\<lambda>b. bindsNoTexture world (enabled c) (pipelineBatch b)) bs"
  shows "\<exists>c'. ProcessSceneBatches world c bs = Inr c'
     \<and> length (draws (drawQueue c')) + pending c'
         = length (draws (drawQueue c)) + pending c
           + specDrawCount (count (instancingGroup c) \<noteq> 0) (inputFacts world (enabled c) prev bs)"
  using assms
proof (induction bs arbitrary: c prev)
  case Nil
  show ?case by simp
next
  case (Cons b bs)
  let ?pb = "pipelineBatch b"
  let ?sb = "GetSourceBatch ?pb"
  have w: "unat (count (instancingGroup c)) + 1 < 2 ^ 32"
    using Cons.prems(1) by simp
  have cons: "case prev of None \<Rightarrow> True
       | Some p \<Rightarrow>
           (PipelineBatch.pipelineState p = PipelineBatch.pipelineState ?pb
            \<and> PipelineBatch.geometry p = PipelineBatch.geometry ?pb
            \<longrightarrow> PipelineBatch.geometryType p = PipelineBatch.geometryType ?pb)"
    and rest: "sameStateSameType (Some ?pb) bs"
    using Cons.prems(3) by simp_all
  have nt: "bindsNoTexture world (enabled c) ?pb"
    and ntr: "list_all (\<lambda>b. bindsNoTexture world (enabled c) (pipelineBatch b)) bs"
    using Cons.prems(7) by simp_all
  from ProcessBatch_specCount [OF w Cons.prems(2) cons, of ?sb]
  obtain c1 where c1: "ProcessBatch world c ?pb ?sb = Inr c1"
    and d1: "length (draws (drawQueue c1)) + pending c1
         = length (draws (drawQueue c)) + pending c
           + stepCount (count (instancingGroup c) \<noteq> 0) (factOf world c prev ?pb ?sb)"
    and r1: "(count (instancingGroup c1) \<noteq> 0) = beginInstancingGroup world c ?pb"
    and i1: "prevInv world c1 (Some ?pb)"
    and b1: "unat (count (instancingGroup c1)) \<le> unat (count (instancingGroup c)) + 1"
    by blast
  from ProcessBatch_cacheMatches [OF Cons.prems(4,5) nt] c1
  have m1: "cacheMatches world c1 ?pb" and e1: "enabled c1 = enabled c"
    by auto
  have t1: "texturesClear c1"
    using m1 by (simp add: cacheMatches_def)
  have pc: "case prev of None \<Rightarrow> count (instancingGroup c) = 0 | Some p \<Rightarrow> cacheMatches world c p"
    using Cons.prems(2,6) by (cases prev) (auto simp: prevInv_def)
  have st: "stepCount (count (instancingGroup c) \<noteq> 0) (factOf world c prev ?pb ?sb)
     = stepCount (count (instancingGroup c) \<noteq> 0) (inputFact world (enabled c) prev ?pb)"
    by (rule stepCount_inputFact [OF pc nt])
  have w1: "unat (count (instancingGroup c1)) + length bs < 2 ^ 32"
    using Cons.prems(1) b1 by simp
  have m1': "case Some ?pb of None \<Rightarrow> True | Some p \<Rightarrow> cacheMatches world c1 p"
    using m1 by simp
  have ntr1: "list_all (\<lambda>b. bindsNoTexture world (enabled c1) (pipelineBatch b)) bs"
    using ntr e1 by simp
  from Cons.IH [OF w1 i1 rest Cons.prems(4) t1 m1' ntr1]
  obtain c' where c': "ProcessSceneBatches world c1 bs = Inr c'"
    and d': "length (draws (drawQueue c')) + pending c'
         = length (draws (drawQueue c1)) + pending c1
           + specDrawCount (count (instancingGroup c1) \<noteq> 0) (inputFacts world (enabled c1) (Some ?pb) bs)"
    by blast
  have el: "snd (snd (inputFact world (enabled c) prev ?pb)) = (count (instancingGroup c1) \<noteq> 0)"
    using r1 by (simp add: inputFact_def instancingEligible_def beginInstancingGroup_def)
  have "specDrawCount (count (instancingGroup c) \<noteq> 0) (inputFacts world (enabled c) prev (b # bs))
      = stepCount (count (instancingGroup c) \<noteq> 0) (inputFact world (enabled c) prev ?pb)
        + specDrawCount (count (instancingGroup c1) \<noteq> 0) (inputFacts world (enabled c) (Some ?pb) bs)"
    by (simp only: inputFacts.simps specDrawCount_Cons el)
  then show ?case
    using c1 c' d1 d' st e1 by (simp add: ProcessSceneBatch_def)
qed

lemma texturesClear_new:
  "texturesClear (DrawCommandCompositor_new world q st ib cam flags split)"
  by (simp add: texturesClear_def DrawCommandCompositor_new_def DirtyStateFlags_init_def
      CachedSharedState_init_def)

text \<open>
  C1, as the code has it. Take a batch sequence of fewer than \<open>2^32\<close> batches in which a
  batch that has the pipeline state and the geometry of the batch before it also has its
  geometry type, in which no batch binds a lightmap texture or a light texture, on a
  queue that begins a shader parameter group whenever it is asked to with a change. Then
  both overloads of \<^verbatim>\<open>RenderBatches\<close> return, final flush included, and the number of draw
  operations they add to the queue (direct and instanced) is the number of runs of the
  partition of the input by (state unchanged \<open>\<and>\<close> same geometry \<open>\<and>\<close>
  instancing-eligible) plus one for each batch that is not eligible. The partition is
  read off the batches alone, each compared with the batch before it. The bound on the
  length keeps the 32-bit instance count from wrapping. Passes that bind a lightmap
  texture or a light texture are not covered: there the two texture flags of C2 decide
  when a run ends.
\<close>

theorem RenderBatches_draw_count:
  assumes "length batches < 2 ^ 32" and "sameStateSameType None batches"
    and "beginsWhenAsked world"
    and "list_all (\<lambda>b. bindsNoTexture world (EnabledFeatureFlags_of flags) (pipelineBatch b)) batches"
  shows "\<exists>c'. RenderBatches_ByState world st ib q cam flags batches split = Inr c'
     \<and> RenderBatches_BackToFront world st ib q cam flags batches split = Inr c'
     \<and> length (draws (drawQueue c')) =
         length (draws q)
         + specDrawCount False (inputFacts world (EnabledFeatureFlags_of flags) None batches)"
proof -
  let ?c0 = "DrawCommandCompositor_new world q st ib cam flags split"
  have w: "unat (count (instancingGroup ?c0)) + length batches < 2 ^ 32"
    using assms(1) by (simp add: new_proj)
  have n: "list_all (\<lambda>b. bindsNoTexture world (enabled ?c0) (pipelineBatch b)) batches"
    using assms(4) by (simp add: new_proj)
  have p: "case None of None \<Rightarrow> True | Some p \<Rightarrow> cacheMatches world ?c0 p"
    by simp
  from ProcessSceneBatches_inputCount [OF w prevInv_new assms(2,3) texturesClear_new p n]
  obtain c1 where c1: "ProcessSceneBatches world ?c0 batches = Inr c1"
    and d1: "length (draws (drawQueue c1)) + pending c1
         = length (draws (drawQueue ?c0)) + pending ?c0
           + specDrawCount (count (instancingGroup ?c0) \<noteq> 0)
               (inputFacts world (enabled ?c0) None batches)"
    by blast
  have d: "length (draws (drawQueue (flushed world c1))) =
      length (draws q) + specDrawCount False (inputFacts world (EnabledFeatureFlags_of flags) None batches)"
    using d1 by (simp add: length_draws_flushed new_proj pending_def)
  show ?thesis
    using c1 d
    by (simp add: RenderBatches_ByState_def RenderBatches_BackToFront_def Let_def
        FlushDrawCommands_flushed)
qed

text \<open>
  The end-to-end example of the specification, in a pass with every kind of lighting
  enabled: two static batches and a skinned one, with instancing enabled, give one
  instanced draw of two instances and one direct draw.
\<close>

theorem RenderBatches_draw_count_witness:
  "length [staticBatch, staticBatch, skinnedBatch] < 2 ^ 32
   \<and> sameStateSameType None [staticBatch, staticBatch, skinnedBatch]
   \<and> beginsWhenAsked exampleWorld
   \<and> list_all (\<lambda>b. bindsNoTexture exampleWorld
         (EnabledFeatureFlags_of {InstantiateStaticGeometry, AmbientLight, VertexLights, PixelLight})
         (pipelineBatch b))
       [staticBatch, staticBatch, skinnedBatch]
   \<and> specDrawCount False
        (inputFacts exampleWorld
           (EnabledFeatureFlags_of {InstantiateStaticGeometry, AmbientLight, VertexLights, PixelLight})
           None [staticBatch, staticBatch, skinnedBatch]) = 2
   \<and> (\<exists>c'. RenderBatches_ByState exampleWorld exampleSettings exampleInstancingBuffer []
              (exampleCamera False 100 80)
              {InstantiateStaticGeometry, AmbientLight, VertexLights, PixelLight}
              [staticBatch, staticBatch, skinnedBatch] None = Inr c'
            \<and> length (draws (drawQueue c')) = 2)
   \<and> emittedDraws (RenderBatches_ByState exampleWorld exampleSettings exampleInstancingBuffer []
              (exampleCamera False 100 80)
              {InstantiateStaticGeometry, AmbientLight, VertexLights, PixelLight}
              [staticBatch, staticBatch, skinnedBatch] None)
       = [DrawIndexedInstanced 0 36 0 2, DrawIndexed 0 36]"
proof -
  let ?bs = "[staticBatch, staticBatch, skinnedBatch]"
  let ?fl = "{InstantiateStaticGeometry, AmbientLight, VertexLights, PixelLight}"
  have h1: "length ?bs < 2 ^ 32" by simp
  have h2: "sameStateSameType None ?bs" by code_simp
  have h3: "beginsWhenAsked exampleWorld"
    by (simp add: beginsWhenAsked_def exampleWorld_def)
  have h4: "list_all (\<lambda>b. bindsNoTexture exampleWorld (EnabledFeatureFlags_of ?fl) (pipelineBatch b)) ?bs"
    by code_simp
  have s: "specDrawCount False (inputFacts exampleWorld (EnabledFeatureFlags_of ?fl) None ?bs) = 2"
    by code_simp
  have e: "emittedDraws (RenderBatches_ByState exampleWorld exampleSettings exampleInstancingBuffer []
              (exampleCamera False 100 80) ?fl ?bs None)
       = [DrawIndexedInstanced 0 36 0 2, DrawIndexed 0 36]"
    by code_simp
  from RenderBatches_draw_count [OF h1 h2 h3 h4, of exampleSettings exampleInstancingBuffer "[]"
      "exampleCamera False 100 80" None]
  obtain c' where "RenderBatches_ByState exampleWorld exampleSettings exampleInstancingBuffer []
              (exampleCamera False 100 80) ?fl ?bs None = Inr c'"
    and "length (draws (drawQueue c')) = length (draws []) + 2"
    unfolding s by blast
  then have "\<exists>c'. RenderBatches_ByState exampleWorld exampleSettings exampleInstancingBuffer []
              (exampleCamera False 100 80) ?fl ?bs None = Inr c'
            \<and> length (draws (drawQueue c')) = 2"
    by (simp add: draws_def)
  with h1 h2 h3 h4 s e show ?thesis by blast
qed

text \<open>
  C1 as stated, for every batch sequence, fails: a static batch followed by a skinned
  batch with the same pipeline state, material and geometry, in a pass without lighting
  or textures. The second batch is not eligible, but it arrives at an open run with its
  state unchanged, and \<^verbatim>\<open>ProcessBatch\<close> tests eligibility only when it begins a run: the
  code appends it to the run and emits one instanced draw of two instances, where the
  count of C1 is two draws.
\<close>

theorem RenderBatches_draw_count_counterexample:
  "succeeded (RenderBatches_ByState exampleWorld exampleSettings exampleInstancingBuffer []
      (exampleCamera False 100 80) {InstantiateStaticGeometry}
      [staticBatch, skinnedSameBatch] None)
   \<and> emittedDraws (RenderBatches_ByState exampleWorld exampleSettings exampleInstancingBuffer []
        (exampleCamera False 100 80) {InstantiateStaticGeometry}
        [staticBatch, skinnedSameBatch] None)
       = [DrawIndexedInstanced 0 36 0 2]
   \<and> inputFacts exampleWorld (EnabledFeatureFlags_of {InstantiateStaticGeometry}) None
        [staticBatch, skinnedSameBatch]
       = [(False, False, True), (True, True, False)]
   \<and> specDrawCount False
        (inputFacts exampleWorld (EnabledFeatureFlags_of {InstantiateStaticGeometry}) None
           [staticBatch, skinnedSameBatch]) = 2
   \<and> length (emittedDraws (RenderBatches_ByState exampleWorld exampleSettings
        exampleInstancingBuffer [] (exampleCamera False 100 80) {InstantiateStaticGeometry}
        [staticBatch, skinnedSameBatch] None))
       \<noteq> specDrawCount False
        (inputFacts exampleWorld (EnabledFeatureFlags_of {InstantiateStaticGeometry}) None
           [staticBatch, skinnedSameBatch])
   \<and> list_all (\<lambda>b. bindsNoTexture exampleWorld (EnabledFeatureFlags_of {InstantiateStaticGeometry})
         (pipelineBatch b)) [staticBatch, skinnedSameBatch]
   \<and> beginsWhenAsked exampleWorld"
proof -
  have "beginsWhenAsked exampleWorld"
    by (simp add: beginsWhenAsked_def exampleWorld_def)
  moreover have "succeeded (RenderBatches_ByState exampleWorld exampleSettings exampleInstancingBuffer []
      (exampleCamera False 100 80) {InstantiateStaticGeometry}
      [staticBatch, skinnedSameBatch] None)
   \<and> emittedDraws (RenderBatches_ByState exampleWorld exampleSettings exampleInstancingBuffer []
        (exampleCamera False 100 80) {InstantiateStaticGeometry}
        [staticBatch, skinnedSameBatch] None)
       = [DrawIndexedInstanced 0 36 0 2]
   \<and> inputFacts exampleWorld (EnabledFeatureFlags_of {InstantiateStaticGeometry}) None
        [staticBatch, skinnedSameBatch]
       = [(False, False, True), (True, True, False)]
   \<and> specDrawCount False
        (inputFacts exampleWorld (EnabledFeatureFlags_of {InstantiateStaticGeometry}) None
           [staticBatch, skinnedSameBatch]) = 2
   \<and> length (emittedDraws (RenderBatches_ByState exampleWorld exampleSettings
        exampleInstancingBuffer [] (exampleCamera False 100 80) {InstantiateStaticGeometry}
        [staticBatch, skinnedSameBatch] None))
       \<noteq> specDrawCount False
        (inputFacts exampleWorld (EnabledFeatureFlags_of {InstantiateStaticGeometry}) None
           [staticBatch, skinnedSameBatch])
   \<and> list_all (\<lambda>b. bindsNoTexture exampleWorld (EnabledFeatureFlags_of {InstantiateStaticGeometry})
         (pipelineBatch b)) [staticBatch, skinnedSameBatch]"
    by code_simp
  ultimately show ?thesis by blast
qed

subsection \<open>A batch presented twice\<close>

text \<open>
  C2 fails on the code. \<^verbatim>\<open>CheckDirtyLightmap\<close> writes \<open>lightmapTextures\<close> only when the
  lightmap constants are dirty, \<^verbatim>\<open>CheckDirtyPixelLight\<close> writes \<open>pixelLightTextures\<close> only
  when the light index changed, and nothing clears either flag, so each keeps the value
  of an earlier batch. A lightmapped batch presented twice to a fresh compositor is
  reported dirty the second time, with \<open>lightmapTextures\<close> as the one flag set; a batch
  lit by a light that has a ramp texture likewise, with \<open>pixelLightTextures\<close>. With
  instancing enabled the two identical lightmapped batches are drawn as two instanced
  draws of one instance each, where two identical batches with no lightmap are drawn as
  one instanced draw of two instances.
\<close>

theorem repeated_batch_reported_dirty:
  "(case ProcessSceneBatch exampleWorld (exampleCompositor {AmbientLight})
           (pipelineBatch lightmappedBatch) of
      Inl e \<Rightarrow> False
    | Inr c1 \<Rightarrow>
        IsAnyStateDirty (dirty (UpdateDirtyFlags exampleWorld c1
           (pipelineBatch lightmappedBatch)
           (GetSourceBatch (pipelineBatch lightmappedBatch))))
        \<and> dirty (UpdateDirtyFlags exampleWorld c1
           (pipelineBatch lightmappedBatch)
           (GetSourceBatch (pipelineBatch lightmappedBatch)))
          = \<lparr>DirtyStateFlags.pipelineState = False, frameConstants = False, cameraConstants = False,
             pixelLightConstants = False, pixelLightTextures = False, vertexLightConstants = False,
             lightmapConstants = False, lightmapTextures = True, DirtyStateFlags.material = False,
             DirtyStateFlags.geometry = False\<rparr>)
   \<and> (case ProcessSceneBatch exampleWorld (exampleCompositor {PixelLight})
           (pipelineBatch litBatch) of
      Inl e \<Rightarrow> False
    | Inr c1 \<Rightarrow>
        dirty (UpdateDirtyFlags exampleWorld c1
           (pipelineBatch litBatch)
           (GetSourceBatch (pipelineBatch litBatch)))
          = \<lparr>DirtyStateFlags.pipelineState = False, frameConstants = False, cameraConstants = False,
             pixelLightConstants = False, pixelLightTextures = True, vertexLightConstants = False,
             lightmapConstants = False, lightmapTextures = False, DirtyStateFlags.material = False,
             DirtyStateFlags.geometry = False\<rparr>)
   \<and> emittedDraws (RenderBatches_ByState exampleWorld exampleSettings exampleInstancingBuffer []
        (exampleCamera False 100 80) {AmbientLight, InstantiateStaticGeometry}
        [lightmappedBatch, lightmappedBatch] None)
       = [DrawIndexedInstanced 0 36 0 1, DrawIndexedInstanced 0 36 1 1]
   \<and> emittedDraws (RenderBatches_ByState exampleWorld exampleSettings exampleInstancingBuffer []
        (exampleCamera False 100 80) {AmbientLight, InstantiateStaticGeometry}
        [staticBatch, staticBatch] None)
       = [DrawIndexedInstanced 0 36 0 2]"
  by code_simp

subsection \<open>The invariant of the instancing group\<close>

text \<open>
  C3. After every sequence of scene batches, from a new compositor, the pass has
  returned and: when the count of the group is not zero, the geometry of the group is the
  cached geometry; every batch of the open run has the geometry of the group; the count
  of the group is the length of the open run (as a 32-bit number); and, for fewer than
  \<open>2^32\<close> batches, every run begun has been flushed as one instanced draw except the one
  that is open, so that at most one group is unflushed.
\<close>

theorem instancing_group_invariant:
  "\<exists>c'. ProcessSceneBatches world (DrawCommandCompositor_new world q st ib cam flags split) batches = Inr c'
     \<and> (count (instancingGroup c') \<noteq> 0 \<longrightarrow>
          InstancingGroupState.geometry (instancingGroup c') = CachedSharedState.geometry (current c'))
     \<and> (\<forall>b \<in> set (openRun world (DrawCommandCompositor_new world q st ib cam flags split) [] batches).
          Some (PipelineBatch.geometry b) = InstancingGroupState.geometry (instancingGroup c'))
     \<and> count (instancingGroup c')
         = of_nat (length (openRun world (DrawCommandCompositor_new world q st ib cam flags split) [] batches))
     \<and> (length batches < 2 ^ 32 \<longrightarrow>
          countInstanced (drawQueue c') + (if count (instancingGroup c') \<noteq> 0 then 1 else 0)
            = countInstanced q
              + runsBegun world (DrawCommandCompositor_new world q st ib cam flags split) batches)"
proof -
  let ?c0 = "DrawCommandCompositor_new world q st ib cam flags split"
  from ProcessSceneBatches_runInv [OF runInv_new]
  obtain c1 where c1: "ProcessSceneBatches world ?c0 batches = Inr c1"
    and i1: "runInv c1 (openRun world ?c0 [] batches)"
    by blast
  have b: "countInstanced (drawQueue c1) + (if count (instancingGroup c1) \<noteq> 0 then 1 else 0)
            = countInstanced q + runsBegun world ?c0 batches"
    if "length batches < 2 ^ 32"
  proof -
    have w: "unat (count (instancingGroup ?c0)) + length batches < 2 ^ 32"
      using that by (simp add: new_proj)
    from ProcessSceneBatches_begun [OF w, of world] c1
    show ?thesis by (auto simp: pending_def new_proj)
  qed
  show ?thesis
    using c1 i1 b by (simp add: runInv_def)
qed

text \<open>
  Two static batches of geometry 1: the open run holds both, and nothing is flushed yet.
\<close>

theorem instancing_group_invariant_witness:
  "length [staticBatch, staticBatch] < 2 ^ 32
   \<and> (\<exists>c'. ProcessSceneBatches exampleWorld (exampleCompositor {InstantiateStaticGeometry})
              [staticBatch, staticBatch] = Inr c'
          \<and> count (instancingGroup c') = 2
          \<and> InstancingGroupState.geometry (instancingGroup c') = Some 1
          \<and> CachedSharedState.geometry (current c') = Some 1
          \<and> countInstanced (drawQueue c') = 0)"
proof -
  let ?bs = "[staticBatch, staticBatch]"
  let ?c0 = "DrawCommandCompositor_new exampleWorld [] exampleSettings exampleInstancingBuffer
       (exampleCamera False 100 80) {InstantiateStaticGeometry} None"
  have h: "length ?bs < 2 ^ 32" by simp
  have r: "openRun exampleWorld ?c0 [] ?bs
      = [pipelineBatch (staticBatch),
         pipelineBatch (staticBatch)]"
    by code_simp
  have g: "PipelineBatch.geometry (pipelineBatch staticBatch) = 1"
    by code_simp
  have n: "runsBegun exampleWorld ?c0 ?bs = 1"
    by code_simp
  have q: "countInstanced [] = 0"
    by (simp add: countInstanced_def)
  from instancing_group_invariant [of exampleWorld "[]" exampleSettings exampleInstancingBuffer
      "exampleCamera False 100 80" "{InstantiateStaticGeometry}" None ?bs]
  obtain c' where c: "ProcessSceneBatches exampleWorld ?c0 ?bs = Inr c'"
    and i: "count (instancingGroup c') \<noteq> 0 \<longrightarrow>
          InstancingGroupState.geometry (instancingGroup c') = CachedSharedState.geometry (current c')"
    and a: "\<forall>b \<in> set (openRun exampleWorld ?c0 [] ?bs).
          Some (PipelineBatch.geometry b) = InstancingGroupState.geometry (instancingGroup c')"
    and k: "count (instancingGroup c') = of_nat (length (openRun exampleWorld ?c0 [] ?bs))"
    and u: "length ?bs < 2 ^ 32 \<longrightarrow>
          countInstanced (drawQueue c') + (if count (instancingGroup c') \<noteq> 0 then 1 else 0)
            = countInstanced [] + runsBegun exampleWorld ?c0 ?bs"
    by blast
  have k2: "count (instancingGroup c') = 2"
    using k unfolding r by simp
  have g2: "InstancingGroupState.geometry (instancingGroup c') = Some 1"
    using a unfolding r by (simp add: g)
  have g3: "CachedSharedState.geometry (current c') = Some 1"
    using i k2 g2 by simp
  have u2: "countInstanced (drawQueue c') = 0"
    using u k2 unfolding n q by simp
  show ?thesis
    using h c k2 g2 g3 u2 by (simp add: exampleCompositor_def)
qed

subsection \<open>Beginning a run or drawing alone\<close>

lemma directs_marks: "filter isDirectDraw (marks q) = filter isDirectDraw q"
proof (induction q)
  case Nil
  show ?case by (simp add: marks_def)
next
  case (Cons x q)
  then show ?case
    by (cases x) (simp_all add: marks_def isDraw_def isObjectCommit_def)
qed





subsection \<open>The final flush\<close>

lemma batchesDrawn_lightVolumeMarks: "batchesDrawn (lightVolumeMarks world bs) = length bs"
  by (induction bs) (simp_all add: lightVolumeMarks_def batchesDrawn_def directDrawOf_def Let_def)

lemma lightVolume_new_proj:
  "enabled (SetGlobalResources rs (SetGBufferParameters a b
      (DrawCommandCompositor_new world q st ib cam flags split))) = EnabledFeatureFlags_of flags"
  "count (instancingGroup (SetGlobalResources rs (SetGBufferParameters a b
      (DrawCommandCompositor_new world q st ib cam flags split)))) = 0"
  "drawQueue (SetGlobalResources rs (SetGBufferParameters a b
      (DrawCommandCompositor_new world q st ib cam flags split))) = q"
  "instancingBuffer (SetGlobalResources rs (SetGBufferParameters a b
      (DrawCommandCompositor_new world q st ib cam flags split))) = ib"
  by (simp_all add: SetGlobalResources_def SetGBufferParameters_def new_proj)

lemma RenderLightVolumeBatches_result:
  "\<exists>c'. ProcessLightVolumeBatches world
            (SetGlobalResources (ctx_geometryBuffer ctx)
               (SetGBufferParameters (ctx_geometryBufferOffsetAndScale ctx) (ctx_geometryBufferInvSize ctx)
                  (DrawCommandCompositor_new world q st ib cam {PixelLight} None))) batches = Inr c'
     \<and> FlushDrawCommands world c' = Inr c'
     \<and> RenderLightVolumeBatches world st ib q cam ctx batches = Inr c'
     \<and> enabled c' = EnabledFeatureFlags_of {PixelLight}
     \<and> count (instancingGroup c') = 0
     \<and> instancingBuffer c' = ib
     \<and> marks (drawQueue c') = marks q @ lightVolumeMarks world batches"
proof -
  let ?c0 = "SetGlobalResources (ctx_geometryBuffer ctx)
               (SetGBufferParameters (ctx_geometryBufferOffsetAndScale ctx) (ctx_geometryBufferInvSize ctx)
                  (DrawCommandCompositor_new world q st ib cam {PixelLight} None))"
  have s: "\<not> staticInstancing (enabled ?c0)"
    by (simp add: lightVolume_new_proj EnabledFeatureFlags_of_def)
  have z: "count (instancingGroup ?c0) = 0"
    by (simp add: lightVolume_new_proj)
  from ProcessLightVolumeBatches_marks [OF s z, of world batches]
  obtain c' where c': "ProcessLightVolumeBatches world ?c0 batches = Inr c'"
    and e: "enabled c' = enabled ?c0" and k: "count (instancingGroup c') = 0"
    and i: "instancingBuffer c' = instancingBuffer ?c0"
    and m: "marks (drawQueue c') = marks (drawQueue ?c0) @ lightVolumeMarks world batches"
    by blast
  have f: "FlushDrawCommands world c' = Inr c'"
    using k by (simp add: FlushDrawCommands_def)
  have r: "RenderLightVolumeBatches world st ib q cam ctx batches = Inr c'"
    using c' f by (simp add: RenderLightVolumeBatches_def Let_def)
  show ?thesis
    using c' f r e k i m by (simp add: lightVolume_new_proj)
qed

text \<open>
  C8. \<^verbatim>\<open>FlushDrawCommands\<close> on an open group binds the buffers, emits one
  \<open>DrawIndexedInstanced\<close> with the start and the count of the group, and sets the count to
  zero; on an empty group it does nothing. Each of the three entry points streams its
  batches and then returns what \<^verbatim>\<open>FlushDrawCommands\<close> returns, so that it never fails and
  ends with an empty group. For fewer than \<open>2^32\<close> batches (the count is a 32-bit number)
  the draws added to the queue cover exactly as many batches as were given: none is
  dropped. A light volume pass covers its batches whatever their number.
\<close>

theorem RenderBatches_final_flush:
  "(count (instancingGroup c) \<noteq> 0 \<longrightarrow>
      FlushDrawCommands world c =
        Inr (c\<lparr>drawQueue := drawQueue c @
                  [SetBuffers
                     (GetVertexBuffers (geometryAt world (the (InstancingGroupState.geometry (instancingGroup c)))))
                     (GetIndexBuffer (geometryAt world (the (InstancingGroupState.geometry (instancingGroup c)))))
                     (Some (GetVertexBuffer (instancingBuffer c))),
                   DrawIndexedInstanced
                     (GetIndexStart (geometryAt world (the (InstancingGroupState.geometry (instancingGroup c)))))
                     (GetIndexCount (geometryAt world (the (InstancingGroupState.geometry (instancingGroup c)))))
                     (start (instancingGroup c)) (count (instancingGroup c))],
               instancingGroup := (instancingGroup c)\<lparr>count := 0\<rparr>\<rparr>))
   \<and> (count (instancingGroup c) = 0 \<longrightarrow> FlushDrawCommands world c = Inr c)
   \<and> (\<exists>c1 c'. ProcessSceneBatches world (DrawCommandCompositor_new world q st ib cam flags split) batches
                  = Inr c1
         \<and> FlushDrawCommands world c1 = Inr c'
         \<and> RenderBatches_ByState world st ib q cam flags batches split = Inr c'
         \<and> RenderBatches_BackToFront world st ib q cam flags batches split = Inr c'
         \<and> count (instancingGroup c') = 0
         \<and> (length batches < 2 ^ 32 \<longrightarrow>
               batchesDrawn (drawQueue c') = batchesDrawn q + length batches))
   \<and> (\<exists>c1 c'. ProcessLightVolumeBatches world
                  (SetGlobalResources (ctx_geometryBuffer ctx)
                     (SetGBufferParameters (ctx_geometryBufferOffsetAndScale ctx)
                        (ctx_geometryBufferInvSize ctx)
                        (DrawCommandCompositor_new world q st ib cam {PixelLight} None))) volumeBatches
                  = Inr c1
         \<and> FlushDrawCommands world c1 = Inr c'
         \<and> RenderLightVolumeBatches world st ib q cam ctx volumeBatches = Inr c'
         \<and> count (instancingGroup c') = 0
         \<and> batchesDrawn (drawQueue c') = batchesDrawn q + length volumeBatches)"
proof -
  let ?c0 = "DrawCommandCompositor_new world q st ib cam flags split"
  have a: "count (instancingGroup c) \<noteq> 0 \<longrightarrow>
      FlushDrawCommands world c =
        Inr (c\<lparr>drawQueue := drawQueue c @
                  [SetBuffers
                     (GetVertexBuffers (geometryAt world (the (InstancingGroupState.geometry (instancingGroup c)))))
                     (GetIndexBuffer (geometryAt world (the (InstancingGroupState.geometry (instancingGroup c)))))
                     (Some (GetVertexBuffer (instancingBuffer c))),
                   DrawIndexedInstanced
                     (GetIndexStart (geometryAt world (the (InstancingGroupState.geometry (instancingGroup c)))))
                     (GetIndexCount (geometryAt world (the (InstancingGroupState.geometry (instancingGroup c)))))
                     (start (instancingGroup c)) (count (instancingGroup c))],
               instancingGroup := (instancingGroup c)\<lparr>count := 0\<rparr>\<rparr>)"
    by (simp add: FlushDrawCommands_def DrawObjectInstanced_def Let_def enqueue_def
        word_greater_zero_iff)
  have b: "count (instancingGroup c) = 0 \<longrightarrow> FlushDrawCommands world c = Inr c"
    by (simp add: FlushDrawCommands_def)
  from ProcessSceneBatches_runInv [OF runInv_new]
  obtain c1 where c1: "ProcessSceneBatches world ?c0 batches = Inr c1"
    by blast
  have d: "batchesDrawn (drawQueue (flushed world c1)) = batchesDrawn q + length batches"
    if "length batches < 2 ^ 32"
  proof -
    have w: "unat (count (instancingGroup ?c0)) + length batches < 2 ^ 32"
      using that by (simp add: new_proj)
    from ProcessSceneBatches_drawn [OF w, of world] c1
    show ?thesis by (auto simp: batchesDrawn_flushed new_proj)
  qed
  have s: "\<exists>c1 c'. ProcessSceneBatches world ?c0 batches = Inr c1
         \<and> FlushDrawCommands world c1 = Inr c'
         \<and> RenderBatches_ByState world st ib q cam flags batches split = Inr c'
         \<and> RenderBatches_BackToFront world st ib q cam flags batches split = Inr c'
         \<and> count (instancingGroup c') = 0
         \<and> (length batches < 2 ^ 32 \<longrightarrow>
               batchesDrawn (drawQueue c') = batchesDrawn q + length batches)"
    apply (rule exI [of _ c1], rule exI [of _ "flushed world c1"])
    using c1 d
    by (simp add: RenderBatches_ByState_def RenderBatches_BackToFront_def Let_def
        FlushDrawCommands_flushed flushed_count)
  from RenderLightVolumeBatches_result [of world ctx q st ib cam volumeBatches]
  obtain c2 where c2: "ProcessLightVolumeBatches world
            (SetGlobalResources (ctx_geometryBuffer ctx)
               (SetGBufferParameters (ctx_geometryBufferOffsetAndScale ctx) (ctx_geometryBufferInvSize ctx)
                  (DrawCommandCompositor_new world q st ib cam {PixelLight} None))) volumeBatches = Inr c2"
    and f2: "FlushDrawCommands world c2 = Inr c2"
    and r2: "RenderLightVolumeBatches world st ib q cam ctx volumeBatches = Inr c2"
    and k2: "count (instancingGroup c2) = 0"
    and m2: "marks (drawQueue c2) = marks q @ lightVolumeMarks world volumeBatches"
    by blast
  have "batchesDrawn (drawQueue c2) = batchesDrawn (marks (drawQueue c2))"
    by (simp add: batchesDrawn_marks)
  also have "\<dots> = batchesDrawn q + length volumeBatches"
    by (simp add: m2 batchesDrawn_append batchesDrawn_marks batchesDrawn_lightVolumeMarks)
  finally have d2: "batchesDrawn (drawQueue c2) = batchesDrawn q + length volumeBatches" .
  have l: "\<exists>c1 c'. ProcessLightVolumeBatches world
                  (SetGlobalResources (ctx_geometryBuffer ctx)
                     (SetGBufferParameters (ctx_geometryBufferOffsetAndScale ctx)
                        (ctx_geometryBufferInvSize ctx)
                        (DrawCommandCompositor_new world q st ib cam {PixelLight} None))) volumeBatches
                  = Inr c1
         \<and> FlushDrawCommands world c1 = Inr c'
         \<and> RenderLightVolumeBatches world st ib q cam ctx volumeBatches = Inr c'
         \<and> count (instancingGroup c') = 0
         \<and> batchesDrawn (drawQueue c') = batchesDrawn q + length volumeBatches"
    using c2 f2 r2 k2 d2 by blast
  show ?thesis
    using a b s l by blast
qed

text \<open>
  The compositor after two static batches holds an open group of two, which the flush
  draws; the pass over two static batches and a skinned one covers three batches.
\<close>

theorem RenderBatches_final_flush_witness:
  "count (instancingGroup exampleOpenCompositor) \<noteq> 0
   \<and> emittedDraws (FlushDrawCommands exampleWorld exampleOpenCompositor) = [DrawIndexedInstanced 0 36 0 2]
   \<and> length [staticBatch, staticBatch, skinnedBatch] < 2 ^ 32
   \<and> (\<exists>c'. RenderBatches_ByState exampleWorld exampleSettings exampleInstancingBuffer []
              (exampleCamera False 100 80) {InstantiateStaticGeometry}
              [staticBatch, staticBatch, skinnedBatch] None = Inr c'
          \<and> count (instancingGroup c') = 0
          \<and> batchesDrawn (drawQueue c') = 3)"
proof -
  let ?bs = "[staticBatch, staticBatch, skinnedBatch]"
  have h1: "count (instancingGroup exampleOpenCompositor) \<noteq> 0" by code_simp
  have e: "emittedDraws (FlushDrawCommands exampleWorld exampleOpenCompositor)
      = [DrawIndexedInstanced 0 36 0 2]" by code_simp
  have h2: "length ?bs < 2 ^ 32" by simp
  have q: "batchesDrawn [] = 0" by (simp add: batchesDrawn_def)
  note t = RenderBatches_final_flush [of exampleOpenCompositor exampleWorld "[]" exampleSettings
      exampleInstancingBuffer "exampleCamera False 100 80" "{InstantiateStaticGeometry}" None ?bs]
  from t [THEN conjunct2, THEN conjunct2, THEN conjunct1]
  obtain c' where r: "RenderBatches_ByState exampleWorld exampleSettings exampleInstancingBuffer []
              (exampleCamera False 100 80) {InstantiateStaticGeometry} ?bs None = Inr c'"
    and k: "count (instancingGroup c') = 0"
    and d: "length ?bs < 2 ^ 32 \<longrightarrow> batchesDrawn (drawQueue c') = batchesDrawn [] + length ?bs"
    by blast
  have d3: "batchesDrawn (drawQueue c') = 3"
    using d h2 unfolding q by simp
  show ?thesis
    using h1 e h2 r k d3 by blast
qed

subsection \<open>Light volume passes\<close>

lemma instanced_marks: "filter isInstancedDraw (marks q) = filter isInstancedDraw q"
proof (induction q)
  case Nil
  show ?case by (simp add: marks_def)
next
  case (Cons x q)
  then show ?case
    by (cases x) (simp_all add: marks_def isDraw_def isObjectCommit_def)
qed

lemma instanced_lightVolumeMarks: "filter isInstancedDraw (lightVolumeMarks world bs) = []"
  by (induction bs) (simp_all add: lightVolumeMarks_def directDrawOf_def Let_def)

lemma directs_lightVolumeMarks:
  "filter isDirectDraw (lightVolumeMarks world bs)
     = map (\<lambda>b. directDrawOf world (PipelineBatch.geometry (pipelineBatch b))) bs"
  by (induction bs) (simp_all add: lightVolumeMarks_def directDrawOf_def Let_def)

lemma object_fold_slot: "object (fold (vertexLightSlot world) xs c) = object c"
  by (simp add: fold_vertexLightSlot)

lemma helpers_fold_slot: "lightVolumeHelpers (fold (vertexLightSlot world) xs c) = lightVolumeHelpers c"
  by (simp add: fold_vertexLightSlot)

lemma checks_object:
  "object (CheckDirtyCommonState world c pb) = object c"
  "object (CheckDirtyPixelLight world c pb) = object c"
  "object (CheckDirtyVertexLight world c la) = object c"
  "object (CheckDirtyLightmap world c sb) = object c"
  by (simp_all add: CheckDirtyCommonState_def CheckDirtyPixelLight_def CheckDirtyVertexLight_def
      CheckDirtyLightmap_def Let_def object_fold_slot)

lemma checks_helpers:
  "lightVolumeHelpers (ExtractObjectConstants world c sb la0) = lightVolumeHelpers c"
  "lightVolumeHelpers (CheckDirtyCommonState world c pb) = lightVolumeHelpers c"
  "lightVolumeHelpers (CheckDirtyPixelLight world c pb) = lightVolumeHelpers c"
  "lightVolumeHelpers (CheckDirtyVertexLight world c la) = lightVolumeHelpers c"
  "lightVolumeHelpers (CheckDirtyLightmap world c sb) = lightVolumeHelpers c"
  by (simp_all add: ExtractObjectConstants_def CheckDirtyCommonState_def CheckDirtyPixelLight_def
      CheckDirtyVertexLight_def CheckDirtyLightmap_def Let_def helpers_fold_slot)

lemma Extract_object:
  "ObjectState.geometryType (object (ExtractObjectConstants world c sb la0)) = SourceBatch.geometryType sb"
  "ObjectState.worldTransform (object (ExtractObjectConstants world c sb la0)) = SourceBatch.worldTransform sb"
  "ObjectState.numWorldTransforms (object (ExtractObjectConstants world c sb la0)) = SourceBatch.numWorldTransforms sb"
  by (simp_all add: ExtractObjectConstants_def Let_def)

lemma UpdateDirtyFlags_object:
  "ObjectState.geometryType (object (UpdateDirtyFlags world c pb sb)) = SourceBatch.geometryType sb"
  "ObjectState.worldTransform (object (UpdateDirtyFlags world c pb sb)) = SourceBatch.worldTransform sb"
  "ObjectState.numWorldTransforms (object (UpdateDirtyFlags world c pb sb)) = SourceBatch.numWorldTransforms sb"
  "lightVolumeHelpers (UpdateDirtyFlags world c pb sb) = lightVolumeHelpers c"
  unfolding UpdateDirtyFlags_def Let_def
  by (simp_all add: checks_object checks_helpers Extract_object)

lemma queueOnly_helpers:
  assumes "queueOnly c c'"
  shows "lightVolumeHelpers c' = lightVolumeHelpers c"
  using assms unfolding queueOnly_def by auto

lemma queueOnly_queue:
  assumes "queueOnly c c'"
  shows "\<exists>pre. drawQueue c' = drawQueue c @ pre \<and> marks pre = []"
  using assms unfolding queueOnly_def by auto

lemma single_helpers:
  "lightVolumeHelpers (DrawObject world c) = lightVolumeHelpers c"
  "lightVolumeHelpers (objectGroup world c) = lightVolumeHelpers c"
  "lightVolumeHelpers (flushed world c) = lightVolumeHelpers c"
  by (simp_all add: DrawObject_def objectGroup_def flushed_def Let_def enqueue_def enqueueAll_def
      AddObjectConstants_def drawQueue_BeginShaderParameterGroup_def)

lemma lightVolume_ObjectConstants:
  assumes "\<not> ambientLighting (enabled c)"
    and "ObjectState.geometryType (object c) = SourceBatch.geometryType (defaultSourceBatch world)"
    and "ObjectState.numWorldTransforms (object c) = SourceBatch.numWorldTransforms (defaultSourceBatch world)"
    and "ObjectState.worldTransform (object c) = [GetVolumeTransform (lights world (unat (lightIndex pb)))]"
  shows "ObjectConstants world c = lightVolumeObjectConstants world pb"
  using assms
  by (cases "SourceBatch.geometryType (defaultSourceBatch world)")
     (simp_all add: ObjectConstants_def lightVolumeObjectConstants_def Let_def)

lemma ProcessLightVolumeBatch_eq:
  "ProcessLightVolumeBatch world c pb =
     ProcessBatch world
       (c\<lparr>lightVolumeHelpers :=
            (lightVolumeHelpers c)
            \<lparr>transform := GetVolumeTransform (lights world (unat (lightIndex pb))),
             sourceBatch := (sourceBatch (lightVolumeHelpers c))
               \<lparr>SourceBatch.worldTransform := [GetVolumeTransform (lights world (unat (lightIndex pb)))]\<rparr>\<rparr>\<rparr>)
       pb
       ((sourceBatch (lightVolumeHelpers c))
          \<lparr>SourceBatch.worldTransform := [GetVolumeTransform (lights world (unat (lightIndex pb)))]\<rparr>)"
  by (simp add: ProcessLightVolumeBatch_def Let_def)

lemma ProcessLightVolumeBatch_segment:
  assumes si: "\<not> staticInstancing (enabled c)" and am: "\<not> ambientLighting (enabled c)"
    and z: "count (instancingGroup c) = 0" and h: "helperSourceKept world c"
  shows "\<exists>c' seg. ProcessLightVolumeBatch world c pb = Inr c'
     \<and> enabled c' = enabled c \<and> count (instancingGroup c') = 0
     \<and> helperSourceKept world c'
     \<and> drawQueue c' = drawQueue c @ seg
     \<and> lightVolumeSegment world pb seg"
proof -
  let ?T = "GetVolumeTransform (lights world (unat (lightIndex pb)))"
  let ?sb = "(sourceBatch (lightVolumeHelpers c))\<lparr>SourceBatch.worldTransform := [?T]\<rparr>"
  let ?c2 = "c\<lparr>lightVolumeHelpers := (lightVolumeHelpers c)\<lparr>transform := ?T, sourceBatch := ?sb\<rparr>\<rparr>"
  let ?c1 = "UpdateDirtyFlags world ?c2 pb ?sb"
  let ?c3 = "committed world ?c1"
  let ?c4 = "objectGroup world ?c3"
  have e: "ProcessLightVolumeBatch world c pb = ProcessBatch world ?c2 pb ?sb"
    by (rule ProcessLightVolumeBatch_eq)
  have r: "resetInstancingGroup ?c1"
    using z by (simp add: resetInstancingGroup_def UpdateDirtyFlags_proj)
  have nb: "\<not> beginInstancingGroup world ?c2 pb"
    using si by (simp add: beginInstancingGroup_def)
  have res: "ProcessBatch world ?c2 pb ?sb = Inr (DrawObject world ?c4)"
    using ProcessBatch_single [OF r nb] by (simp add: objectGroup_def)
  have g: "CachedSharedState.geometry (current ?c4) = Some (PipelineBatch.geometry pb)"
    by (simp add: objectGroup_proj committed_proj UpdateDirtyFlags_proj)
  have f1: "flushed world ?c1 = ?c1"
    using z by (simp add: flushed_def UpdateDirtyFlags_proj)
  from queueOnly_queue [OF queueOnly_committed, of world ?c1]
  obtain pre where pre: "drawQueue ?c3 = drawQueue c @ pre" and mp: "marks pre = []"
    unfolding f1 by (auto simp: UpdateDirtyFlags_proj)
  have oc3: "ObjectConstants world ?c3 = ObjectConstants world ?c1"
    by (rule ObjectConstants_cong) (simp_all add: committed_proj)
  have oc: "ObjectConstants world ?c1 = lightVolumeObjectConstants world pb"
    using am h
    by (intro lightVolume_ObjectConstants)
       (simp_all add: UpdateDirtyFlags_proj UpdateDirtyFlags_object helperSourceKept_def)
  let ?setb = "if DirtyStateFlags.geometry (dirty ?c4)
          then [SetBuffers (GetVertexBuffers (geometryAt world (PipelineBatch.geometry pb)))
                  (GetIndexBuffer (geometryAt world (PipelineBatch.geometry pb))) None]
          else []"
  let ?seg = "pre @ [BeginShaderParameterGroup SP_OBJECT True]
              @ lightVolumeObjectConstants world pb
              @ [CommitShaderParameterGroup SP_OBJECT]
              @ ?setb @ [directDrawOf world (PipelineBatch.geometry pb)]"
  have q: "drawQueue (DrawObject world ?c4) = drawQueue c @ ?seg"
    by (simp add: DrawObject_queue [OF g] objectGroup_queue oc3 oc pre)
  have s: "lightVolumeSegment world pb ?seg"
    unfolding lightVolumeSegment_def
    by (rule exI [of _ pre], rule exI [of _ ?setb]) (simp add: mp)
  have hl: "lightVolumeHelpers (DrawObject world ?c4) = (lightVolumeHelpers c)\<lparr>transform := ?T, sourceBatch := ?sb\<rparr>"
    by (simp add: single_helpers committed_def UpdateDirtyFlags_object
        queueOnly_helpers [OF queueOnly_UpdateDirtyResources]
        queueOnly_helpers [OF queueOnly_UpdateDirtyConstants])
  have h': "helperSourceKept world (DrawObject world ?c4)"
    using h by (simp add: helperSourceKept_def hl)
  have en: "enabled (DrawObject world ?c4) = enabled c"
    by (simp add: DrawObject_proj objectGroup_proj committed_proj UpdateDirtyFlags_proj)
  have ct: "count (instancingGroup (DrawObject world ?c4)) = 0"
    by (simp add: DrawObject_proj objectGroup_proj committed_proj)
  show ?thesis
    unfolding e res using en ct h' q s by blast
qed

lemma ProcessLightVolumeBatches_segments:
  assumes "\<not> staticInstancing (enabled c)" and "\<not> ambientLighting (enabled c)"
    and "count (instancingGroup c) = 0" and "helperSourceKept world c"
  shows "\<exists>c' segs. ProcessLightVolumeBatches world c bs = Inr c'
     \<and> drawQueue c' = drawQueue c @ concat segs
     \<and> list_all2 (lightVolumeSegment world) (map pipelineBatch bs) segs"
  using assms
proof (induction bs arbitrary: c)
  case Nil
  then show ?case by simp
next
  case (Cons b bs)
  from ProcessLightVolumeBatch_segment [OF Cons.prems, of "pipelineBatch b"]
  obtain c1 seg where c1: "ProcessLightVolumeBatch world c (pipelineBatch b) = Inr c1"
    and e1: "enabled c1 = enabled c" and z1: "count (instancingGroup c1) = 0"
    and h1: "helperSourceKept world c1"
    and q1: "drawQueue c1 = drawQueue c @ seg"
    and s1: "lightVolumeSegment world (pipelineBatch b) seg"
    by blast
  have a: "\<not> staticInstancing (enabled c1)" "\<not> ambientLighting (enabled c1)"
    using Cons.prems e1 by simp_all
  from Cons.IH [OF a z1 h1] obtain c' segs where c': "ProcessLightVolumeBatches world c1 bs = Inr c'"
    and q': "drawQueue c' = drawQueue c1 @ concat segs"
    and s': "list_all2 (lightVolumeSegment world) (map pipelineBatch bs) segs"
    by blast
  have "ProcessLightVolumeBatches world c (b # bs) = Inr c'"
    using c1 c' by simp
  moreover have "drawQueue c' = drawQueue c @ concat (seg # segs)"
    using q1 q' by simp
  moreover have "list_all2 (lightVolumeSegment world) (map pipelineBatch (b # bs)) (seg # segs)"
    using s1 s' by simp
  ultimately show ?case by blast
qed


lemma helperSourceKept_new:
  "helperSourceKept world (SetGlobalResources rs (SetGBufferParameters a b
      (DrawCommandCompositor_new world q st ib cam flags split)))"
  by (simp add: helperSourceKept_def SetGlobalResources_def SetGBufferParameters_def
      DrawCommandCompositor_new_def)

text \<open>
  C9. \<^verbatim>\<open>RenderLightVolumeBatches\<close> builds its compositor from the flag \<open>PixelLight\<close>
  alone: ambient lighting, vertex lighting and static instancing are disabled. For every
  sequence of light volume batches it returns, adds no instanced draw, allocates no
  instance, and the marks it adds to the queue are, batch by batch and in order, the
  commit of the object group followed by the direct draw of the geometry of the batch.
  The commands it adds to the queue are one segment for each batch, in order, and the
  segment of a batch holds its object group: the begin of the group \<open>SP_OBJECT\<close>, the
  object constants of the batch, which are the volume transform of the light of the
  batch as the model matrix and no ambient constant, the commit of the group, and then
  the direct draw of the geometry of the batch, with the buffers bound before it when
  the geometry changed.
\<close>

theorem RenderLightVolumeBatches_direct_draws:
  "EnabledFeatureFlags_of {PixelLight} =
     \<lparr>ambientLighting = False, vertexLighting = False, pixelLighting = True, anyLighting = True,
      staticInstancing = False\<rparr>
   \<and> (\<exists>c' segs. RenderLightVolumeBatches world st ib q cam ctx batches = Inr c'
         \<and> enabled c' = EnabledFeatureFlags_of {PixelLight}
         \<and> instancingBuffer c' = ib
         \<and> count (instancingGroup c') = 0
         \<and> filter isInstancedDraw (drawQueue c') = filter isInstancedDraw q
         \<and> filter isDirectDraw (drawQueue c')
             = filter isDirectDraw q
               @ map (\<lambda>b. directDrawOf world (PipelineBatch.geometry (pipelineBatch b))) batches
         \<and> marks (drawQueue c')
             = marks q
               @ concat (map (\<lambda>b. [CommitShaderParameterGroup SP_OBJECT,
                                    directDrawOf world (PipelineBatch.geometry (pipelineBatch b))]) batches)
         \<and> drawQueue c' = q @ concat segs
         \<and> list_all2 (lightVolumeSegment world) (map pipelineBatch batches) segs)"
proof -
  let ?c0 = "SetGlobalResources (ctx_geometryBuffer ctx)
               (SetGBufferParameters (ctx_geometryBufferOffsetAndScale ctx) (ctx_geometryBufferInvSize ctx)
                  (DrawCommandCompositor_new world q st ib cam {PixelLight} None))"
  have f: "EnabledFeatureFlags_of {PixelLight} =
     \<lparr>ambientLighting = False, vertexLighting = False, pixelLighting = True, anyLighting = True,
      staticInstancing = False\<rparr>"
    by (simp add: EnabledFeatureFlags_of_def)
  from RenderLightVolumeBatches_result [of world ctx q st ib cam batches]
  obtain c' where p: "ProcessLightVolumeBatches world ?c0 batches = Inr c'"
    and r: "RenderLightVolumeBatches world st ib q cam ctx batches = Inr c'"
    and e: "enabled c' = EnabledFeatureFlags_of {PixelLight}"
    and k: "count (instancingGroup c') = 0"
    and i: "instancingBuffer c' = ib"
    and m: "marks (drawQueue c') = marks q @ lightVolumeMarks world batches"
    by blast
  have s: "\<not> staticInstancing (enabled ?c0)" and a0: "\<not> ambientLighting (enabled ?c0)"
    by (simp_all add: lightVolume_new_proj f)
  have z: "count (instancingGroup ?c0) = 0"
    by (simp add: lightVolume_new_proj)
  from ProcessLightVolumeBatches_segments [OF s a0 z helperSourceKept_new, of batches]
  obtain segs where g: "drawQueue c' = q @ concat segs"
    and l: "list_all2 (lightVolumeSegment world) (map pipelineBatch batches) segs"
    unfolding p by (auto simp: lightVolume_new_proj)
  have "filter isInstancedDraw (drawQueue c') = filter isInstancedDraw (marks (drawQueue c'))"
    by (simp add: instanced_marks)
  also have "\<dots> = filter isInstancedDraw q"
    by (simp add: m instanced_marks instanced_lightVolumeMarks)
  finally have a: "filter isInstancedDraw (drawQueue c') = filter isInstancedDraw q" .
  have "filter isDirectDraw (drawQueue c') = filter isDirectDraw (marks (drawQueue c'))"
    by (simp add: directs_marks)
  also have "\<dots> = filter isDirectDraw q
               @ map (\<lambda>b. directDrawOf world (PipelineBatch.geometry (pipelineBatch b))) batches"
    by (simp add: m directs_marks directs_lightVolumeMarks)
  finally have b: "filter isDirectDraw (drawQueue c') = filter isDirectDraw q
               @ map (\<lambda>b. directDrawOf world (PipelineBatch.geometry (pipelineBatch b))) batches" .
  have m': "marks (drawQueue c')
             = marks q
               @ concat (map (\<lambda>b. [CommitShaderParameterGroup SP_OBJECT,
                                    directDrawOf world (PipelineBatch.geometry (pipelineBatch b))]) batches)"
    using m by (simp add: lightVolumeMarks_def)
  show ?thesis
    using f r e k i a b m' g l by blast
qed

text \<open>
  One light volume batch on an empty queue: from the begin of its object group on, the
  queue holds the begin, the volume transform of the light as \<open>VSP_MODEL\<close>, the commit,
  the buffers and the direct draw.
\<close>

theorem RenderLightVolumeBatches_direct_draws_witness:
  "fromObjectGroup (emittedQueue (RenderLightVolumeBatches exampleVolumeWorld exampleSettings
       exampleInstancingBuffer [] (exampleCamera False 100 80) exampleContext [litBatch]))
     = [BeginShaderParameterGroup SP_OBJECT True,
        AddShaderParameter VSP_MODEL (MatrixValue [2, 0, 0, 0, 0, 2, 0, 0, 0, 0, 2, 0]),
        CommitShaderParameterGroup SP_OBJECT,
        SetBuffers [1] (Some 1) None,
        DrawIndexed 0 36]
   \<and> (\<exists>c' pre setb. RenderLightVolumeBatches exampleVolumeWorld exampleSettings
          exampleInstancingBuffer [] (exampleCamera False 100 80) exampleContext [litBatch] = Inr c'
        \<and> marks pre = []
        \<and> drawQueue c' =
            pre @ [BeginShaderParameterGroup SP_OBJECT True,
                   AddShaderParameter VSP_MODEL (MatrixValue [2, 0, 0, 0, 0, 2, 0, 0, 0, 0, 2, 0]),
                   CommitShaderParameterGroup SP_OBJECT]
            @ setb @ [DrawIndexed 0 36])"
proof -
  have o: "lightVolumeObjectConstants exampleVolumeWorld (pipelineBatch litBatch)
      = [AddShaderParameter VSP_MODEL (MatrixValue [2, 0, 0, 0, 0, 2, 0, 0, 0, 0, 2, 0])]"
    by code_simp
  have d: "directDrawOf exampleVolumeWorld (PipelineBatch.geometry (pipelineBatch litBatch))
      = DrawIndexed 0 36"
    by code_simp
  have v: "fromObjectGroup (emittedQueue (RenderLightVolumeBatches exampleVolumeWorld exampleSettings
       exampleInstancingBuffer [] (exampleCamera False 100 80) exampleContext [litBatch]))
     = [BeginShaderParameterGroup SP_OBJECT True,
        AddShaderParameter VSP_MODEL (MatrixValue [2, 0, 0, 0, 0, 2, 0, 0, 0, 0, 2, 0]),
        CommitShaderParameterGroup SP_OBJECT,
        SetBuffers [1] (Some 1) None,
        DrawIndexed 0 36]"
    by code_simp
  from RenderLightVolumeBatches_direct_draws [of exampleVolumeWorld exampleSettings
      exampleInstancingBuffer "[]" "exampleCamera False 100 80" exampleContext "[litBatch]"]
  obtain c' segs where r: "RenderLightVolumeBatches exampleVolumeWorld exampleSettings
          exampleInstancingBuffer [] (exampleCamera False 100 80) exampleContext [litBatch] = Inr c'"
    and g: "drawQueue c' = [] @ concat segs"
    and l: "list_all2 (lightVolumeSegment exampleVolumeWorld) (map pipelineBatch [litBatch]) segs"
    by blast
  from l obtain seg where sg: "segs = [seg]"
    and ls: "lightVolumeSegment exampleVolumeWorld (pipelineBatch litBatch) seg"
    by (auto simp: list_all2_Cons1)
  from ls obtain pre setb where
    "seg = pre @ [BeginShaderParameterGroup SP_OBJECT True]
              @ [AddShaderParameter VSP_MODEL (MatrixValue [2, 0, 0, 0, 0, 2, 0, 0, 0, 0, 2, 0])]
              @ [CommitShaderParameterGroup SP_OBJECT]
              @ setb @ [DrawIndexed 0 36]"
    and "marks pre = []"
    unfolding lightVolumeSegment_def o d by blast
  then have "\<exists>c' pre setb. RenderLightVolumeBatches exampleVolumeWorld exampleSettings
          exampleInstancingBuffer [] (exampleCamera False 100 80) exampleContext [litBatch] = Inr c'
        \<and> marks pre = []
        \<and> drawQueue c' =
            pre @ [BeginShaderParameterGroup SP_OBJECT True,
                   AddShaderParameter VSP_MODEL (MatrixValue [2, 0, 0, 0, 0, 2, 0, 0, 0, 0, 2, 0]),
                   CommitShaderParameterGroup SP_OBJECT]
            @ setb @ [DrawIndexed 0 36]"
    using r g sg by auto
  with v show ?thesis by blast
qed

end
